(* ===== verification/Prelude.thy ===== *)
theory Prelude
  imports Complex_Main "HOL-Library.Word" "HOL-Library.Code_Target_Nat" "HOL-Library.Sublist"
begin

text \<open>
  Shared vocabulary of the development.  The TypeScript sources run on a
  JavaScript engine; the few engine conversions they rely on are written out
  here once, so that every component theory reads the code against the same
  semantics:
  \<^item> \<open>js_trunc\<close> and \<open>to_int16\<close>: the ECMAScript ToInt16 conversion that a store
    into an \<open>Int16Array\<close> performs (truncate towards zero, then wrap modulo
    \<open>2^16\<close>);
  \<^item> \<open>le_bytes16\<close>/\<open>le_word16\<close>: the little-endian byte view of a 16-bit
    typed array (\<open>new Uint8Array(int16.buffer)\<close> and back);
  \<^item> \<open>char_of_byte\<close>/\<open>byte_of_char\<close>: \<open>String.fromCharCode(b)\<close> for a byte and
    \<open>charCodeAt\<close> on a Latin-1 string.
  \<^item> \<open>js_message\<close> and \<open>js_bind\<close>: the message of an exception and the
    propagation of a throw through sequential code;
  \<^item> \<open>js_includes\<close>, \<open>ascii_upper\<close>, \<open>js_lower\<close>, \<open>js_trim\<close>, \<open>js_split\<close>,
    \<open>js_or\<close>: \<open>includes\<close>, the folding of \<open>/i\<close> patterns, \<open>toLowerCase\<close>,
    \<open>trim\<close>, \<open>split\<close> with a one-character separator and \<open>||\<close> on strings.
  A JavaScript number is modelled as a \<open>real\<close>: the values the code feeds
  into these conversions (float32 audio samples scaled by a power of two) are
  exact in double precision, and NaN never reaches them.
  The collection \<open>js_defs\<close> holds the defining equations, so that a concrete
  instance evaluates by \<open>simp add: js_defs\<close>.
\<close>

unbundle bit_operations_syntax

named_theorems js_defs "defining equations of the JavaScript built-ins"

type_synonym byte = "8 word"
type_synonym int16 = "16 word"

text \<open>The exceptions the modelled code can raise: the \<open>DOMException\<close>s and
  \<open>RangeError\<close> of the platform, and \<open>new Error(message)\<close> of the code itself.\<close>

datatype js_error =
    InvalidCharacterError
  | RangeError
  | NotSupportedError
  | TypeError string
  | Error string

text \<open>\<open>err.message\<close>: the message the code passed to \<open>new Error\<close>, the
  engine's message of a \<open>TypeError\<close>; the platform's exceptions carry a
  non-empty implementation-defined message, written here as their name.\<close>

fun js_message :: "js_error \<Rightarrow> string" where
  "js_message (Error m) = m"
| "js_message (TypeError m) = m"
| "js_message InvalidCharacterError = ''InvalidCharacterError''"
| "js_message RangeError = ''RangeError''"
| "js_message NotSupportedError = ''NotSupportedError''"

text \<open>Sequencing of code that may throw: \<open>js_bind r f\<close> runs \<open>f\<close> on the value of
  \<open>r\<close> and propagates an exception unchanged.\<close>

fun js_bind :: "js_error + 'a \<Rightarrow> ('a \<Rightarrow> js_error + 'b) \<Rightarrow> js_error + 'b" where
  "js_bind (Inl e) f = Inl e"
| "js_bind (Inr x) f = f x"

section \<open>Numbers\<close>

definition js_trunc :: "real \<Rightarrow> int" where
  [js_defs]: "js_trunc x = (if 0 \<le> x then \<lfloor>x\<rfloor> else \<lceil>x\<rceil>)"

definition to_int16 :: "real \<Rightarrow> int16" where
  [js_defs]: "to_int16 x = word_of_int (js_trunc x)"

section \<open>Bytes and Latin-1 characters\<close>

definition le_bytes16 :: "int16 \<Rightarrow> byte list" where
  [js_defs]: "le_bytes16 w = [ucast w, ucast (drop_bit 8 w)]"

definition le_word16 :: "byte \<Rightarrow> byte \<Rightarrow> int16" where
  [js_defs]: "le_word16 lo hi = ucast lo OR push_bit 8 (ucast hi)"

definition char_of_byte :: "byte \<Rightarrow> char" where
  [js_defs]: "char_of_byte b = char_of (unat b)"

definition byte_of_char :: "char \<Rightarrow> byte" where
  [js_defs]: "byte_of_char c = of_nat (of_char c)"

section \<open>Strings\<close>

text \<open>\<open>String.prototype.includes\<close> (the search loop of StringIndexOf: try every
  start position from the left) and the character folding of a case-insensitive
  regular expression over ASCII patterns.  A JavaScript string is a list of
  code units; the model's \<open>char\<close> covers the Latin-1 range of them.\<close>

fun js_includes :: "string \<Rightarrow> string \<Rightarrow> bool" where
  "js_includes [] w = (w = [])"
| "js_includes (c # cs) w = (prefix w (c # cs) \<or> js_includes cs w)"

text \<open>The regular-expression Canonicalize of a \<open>/i\<close> pattern upper-cases a
  character and keeps a non-ASCII character whose upper case would be ASCII;
  a character at or above 128 therefore never equals the canonical form of an
  ASCII pattern character, and folding only \<open>a\<close>..\<open>z\<close> gives the same matches.\<close>

definition ascii_upper :: "char \<Rightarrow> char" where
  [js_defs]: "ascii_upper c = (let n = of_char c :: nat in if 97 \<le> n \<and> n \<le> 122 then char_of (n - 32) else c)"

text \<open>\<open>String.prototype.toLowerCase\<close> on Latin-1: \<open>A\<close>..\<open>Z\<close> and
  U+00C0..U+00DE except the multiplication sign U+00D7 move up by 32.\<close>

definition js_lower :: "char \<Rightarrow> char" where
  [js_defs]: "js_lower c = (let n = of_char c :: nat in
     if (65 \<le> n \<and> n \<le> 90) \<or> (192 \<le> n \<and> n \<le> 222 \<and> n \<noteq> 215) then char_of (n + 32) else c)"

text \<open>\<open>String.prototype.trim\<close>: the white space and line terminators of Latin-1
  are TAB, LF, VT, FF, CR, SPACE and NO-BREAK SPACE.\<close>

definition js_space :: "char \<Rightarrow> bool" where
  [js_defs]: "js_space c \<longleftrightarrow> of_char c \<in> {9, 10, 11, 12, 13, 32, 160 :: nat}"

definition js_trim :: "string \<Rightarrow> string" where
  [js_defs]: "js_trim s = rev (dropWhile js_space (rev (dropWhile js_space s)))"

text \<open>\<open>a || b\<close> on strings (the empty string is falsy) and on an optional string.\<close>

definition js_or :: "string \<Rightarrow> string \<Rightarrow> string" where
  "js_or a b = (if a = [] then b else a)"

definition js_or_opt :: "string option \<Rightarrow> string \<Rightarrow> string" where
  "js_or_opt a b = (case a of None \<Rightarrow> b | Some x \<Rightarrow> js_or x b)"

text \<open>\<open>String.prototype.split\<close> with a one-character separator.\<close>

fun js_split :: "char \<Rightarrow> string \<Rightarrow> string list" where
  "js_split d [] = [[]]"
| "js_split d (c # cs) =
     (if c = d then [] # js_split d cs
      else (case js_split d cs of [] \<Rightarrow> [[c]] | p # ps \<Rightarrow> (c # p) # ps))"

text \<open>\<open>String(n)\<close> (and \<open>${n}\<close> in a template) for a natural number: its
  decimal digits.\<close>

function nat_string :: "nat \<Rightarrow> string" where
  "nat_string n = (if n < 10 then [char_of (48 + n)] else nat_string (n div 10) @ [char_of (48 + n mod 10)])"
  by auto
termination
  by (relation "measure id") auto

declare nat_string.simps [simp del]

section \<open>Timers\<close>

text \<open>The pending \<open>setTimeout\<close> callbacks as a list in scheduling order, each
  with its deadline: the event loop runs the one with the earliest deadline,
  and among equal deadlines the one scheduled first.\<close>

fun earliest_timer :: "(nat \<times> 'k) list \<Rightarrow> (nat \<times> 'k) option" where
  "earliest_timer [] = None"
| "earliest_timer (x # xs) =
     (case earliest_timer xs of None \<Rightarrow> Some x | Some y \<Rightarrow> if fst y < fst x then Some y else Some x)"

section \<open>Shared lemmas\<close>

lemma unat_byte_less [simp]: "unat (b :: byte) < 256"
proof -
  have "unat b < 2 ^ LENGTH(8)" by (rule unsigned_less)
  then show ?thesis by simp
qed

lemma byte_of_char_of_byte [simp]: "byte_of_char (char_of_byte b) = b"
  by (simp add: byte_of_char_def char_of_byte_def)

lemma char_of_byte_of_char [simp]: "char_of_byte (byte_of_char c) = c"
  by (simp add: byte_of_char_def char_of_byte_def unat_of_nat)

lemma byte_of_char_comp_char_of_byte [simp]: "byte_of_char \<circ> char_of_byte = id"
  by (simp add: fun_eq_iff)

lemma char_of_byte_comp_byte_of_char [simp]: "char_of_byte \<circ> byte_of_char = id"
  by (simp add: fun_eq_iff)

lemma js_includes_sublist [simp]: "js_includes s w = sublist w s"
  by (induction s) (auto simp: sublist_Cons_right)

lemma all_set_dropWhile: "(\<forall>x \<in> set (dropWhile P s). P x) \<longleftrightarrow> (\<forall>x \<in> set s. P x)"
  by (induction s) auto

lemma js_trim_empty_iff: "js_trim s = [] \<longleftrightarrow> (\<forall>c \<in> set s. js_space c)"
  by (simp add: js_trim_def dropWhile_eq_Nil_conv all_set_dropWhile)

lemma js_split_ne [simp]: "js_split d s \<noteq> []"
  by (induction s) (auto split: list.splits)

lemma js_split_no_sep: "d \<notin> set ys \<Longrightarrow> js_split d ys = [ys]"
  by (induction ys) auto

lemma js_split_append:
  "d \<notin> set xs \<Longrightarrow> js_split d (xs @ ys) = (case js_split d ys of [] \<Rightarrow> [xs] | p # ps \<Rightarrow> (xs @ p) # ps)"
  by (induction xs) (auto split: list.splits)

lemma earliest_timer_None [simp]: "earliest_timer q = None \<longleftrightarrow> q = []"
  by (induction q) (auto split: option.splits)

lemma earliest_timer_in: "earliest_timer q = Some x \<Longrightarrow> x \<in> set q"
  by (induction q arbitrary: x) (auto split: option.splits if_splits)

lemma earliest_timer_min: "earliest_timer q = Some x \<Longrightarrow> y \<in> set q \<Longrightarrow> fst x \<le> fst y"
proof (induction q arbitrary: x)
  case Nil
  then show ?case by simp
next
  case (Cons z q)
  then show ?case by (fastforce split: option.splits if_splits)
qed

lemma le_word16_le_bytes16 [simp]: "le_word16 (ucast w) (ucast (drop_bit 8 w)) = (w :: int16)"
  unfolding le_word16_def by (rule bit_word_eqI) (auto simp: bit_simps)

end
