(* ===== verification/Base64.thy ===== *)
theory Base64
  imports Prelude
begin

text \<open>
  The browser's \<open>btoa\<close> and \<open>atob\<close> (HTML Living Standard, "forgiving-base64"
  encode and decode).  VoiceView's \<open>encode\<close> and \<open>decode\<close> are thin loops around
  them, so the audio uplink and downlink are only as correct as this pair.
  They are library functions of the browser, not code of the repository: they
  are modelled from the standard, and the theory proves the round trip that the
  voice pipeline relies on.
\<close>

section \<open>The alphabet\<close>

definition b64_char :: "nat \<Rightarrow> char" where
  "b64_char k = char_of (if k < 26 then k + 65 else if k < 52 then k + 71
                         else if k < 62 then k - 4 else if k = 62 then 43 else (47 :: nat))"

definition b64_index :: "char \<Rightarrow> nat option" where
  "b64_index c = (let n = of_char c :: nat in
     if 65 \<le> n \<and> n \<le> 90 then Some (n - 65)
     else if 97 \<le> n \<and> n \<le> 122 then Some (n - 71)
     else if 48 \<le> n \<and> n \<le> 57 then Some (n + 4)
     else if n = 43 then Some 62
     else if n = 47 then Some 63
     else None)"

definition ascii_whitespace :: "char \<Rightarrow> bool" where
  "ascii_whitespace c \<longleftrightarrow> of_char c \<in> {9, 10, 12, 13, 32 :: nat}"

section \<open>Encoding\<close>

text \<open>Each 24-bit group of three bytes becomes four 6-bit values; a final group of
  one or two bytes is padded with zero bits to 12 or 18 bits.\<close>

fun b64_sextets :: "byte list \<Rightarrow> nat list" where
  "b64_sextets (a # b # c # rest) =
     [unat a div 4, unat a mod 4 * 16 + unat b div 16,
      unat b mod 16 * 4 + unat c div 64, unat c mod 64] @ b64_sextets rest"
| "b64_sextets [a, b] = [unat a div 4, unat a mod 4 * 16 + unat b div 16, unat b mod 16 * 4]"
| "b64_sextets [a] = [unat a div 4, unat a mod 4 * 16]"
| "b64_sextets [] = []"

definition btoa :: "string \<Rightarrow> string" where
  "btoa s = (let bs = map byte_of_char s in
     map b64_char (b64_sextets bs) @ replicate ((3 - length bs mod 3) mod 3) (CHR ''=''))"

section \<open>Decoding\<close>

fun b64_bytes :: "nat list \<Rightarrow> byte list" where
  "b64_bytes (s1 # s2 # s3 # s4 # rest) =
     [of_nat (s1 * 4 + s2 div 16), of_nat (s2 mod 16 * 16 + s3 div 4),
      of_nat (s3 mod 4 * 64 + s4)] @ b64_bytes rest"
| "b64_bytes [s1, s2, s3] = [of_nat (s1 * 4 + s2 div 16), of_nat (s2 mod 16 * 16 + s3 div 4)]"
| "b64_bytes [s1, s2] = [of_nat (s1 * 4 + s2 div 16)]"
| "b64_bytes [s1] = []"
| "b64_bytes [] = []"

definition strip_padding :: "string \<Rightarrow> string" where
  "strip_padding d =
     (if length d mod 4 = 0 then
        (if take 2 (rev d) = ''=='' then take (length d - 2) d
         else if take 1 (rev d) = ''='' then take (length d - 1) d else d)
      else d)"

definition atob :: "string \<Rightarrow> js_error + string" where
  "atob s = (let d = strip_padding (filter (\<lambda>c. \<not> ascii_whitespace c) s) in
     if length d mod 4 = 1 then Inl InvalidCharacterError
     else case those (map b64_index d) of
            None \<Rightarrow> Inl InvalidCharacterError
          | Some ks \<Rightarrow> Inr (map char_of_byte (b64_bytes ks)))"

section \<open>Round trip\<close>

lemma b64_index_char: "k < 64 \<Longrightarrow> b64_index (b64_char k) = Some k"
  by (auto simp: b64_index_def b64_char_def of_char_of Let_def)

lemma b64_char_not_ws: "k < 64 \<Longrightarrow> \<not> ascii_whitespace (b64_char k)"
  by (auto simp: ascii_whitespace_def b64_char_def of_char_of)

lemma b64_char_not_pad: "k < 64 \<Longrightarrow> b64_char k \<noteq> CHR ''=''"
  using b64_index_char [of k] by (auto simp: b64_index_def)

lemma byte_div_less: "unat (b :: byte) div 16 < 16" "unat b div 64 < 4" "unat b div 4 < 64"
  by (simp_all add: less_mult_imp_div_less)

lemma sextet_bounds:
  "unat (a :: byte) mod 4 * 16 + unat (b :: byte) div 16 < 64"
  "unat a mod 16 * 4 + unat b div 64 < 64"
proof -
  have "unat a mod 4 < 4" "unat a mod 16 < 16" by simp_all
  with byte_div_less [of b] show
    "unat a mod 4 * 16 + unat b div 16 < 64" "unat a mod 16 * 4 + unat b div 64 < 64"
    by linarith+
qed

lemma b64_sextets_less: "k \<in> set (b64_sextets bs) \<Longrightarrow> k < 64"
  by (induction bs rule: b64_sextets.induct) (auto simp: byte_div_less sextet_bounds)

lemma length_b64_sextets:
  "length (b64_sextets bs) = 4 * (length bs div 3) + (if length bs mod 3 = 0 then 0 else length bs mod 3 + 1)"
  by (induction bs rule: b64_sextets.induct) auto

lemma b64_bytes_sextets: "b64_bytes (b64_sextets bs) = bs"
  by (induction bs rule: b64_sextets.induct) (auto simp: less_mult_imp_div_less)

lemma those_b64_index: "\<forall>k \<in> set xs. k < 64 \<Longrightarrow> those (map (b64_index \<circ> b64_char) xs) = Some xs"
  by (induction xs) (simp_all add: b64_index_char)

lemma strip_padding_pad:
  assumes "\<forall>k \<in> set xs. k < 64" and "p \<le> 2" and "(length xs + p) mod 4 = 0"
  shows "strip_padding (map b64_char xs @ replicate p CHR ''='') = map b64_char xs"
proof (cases xs rule: rev_exhaust)
  case Nil
  with assms(2,3) have "p = 0" by auto
  with Nil show ?thesis by (simp add: strip_padding_def)
next
  case (snoc ys y)
  with assms(1) have "b64_char y \<noteq> CHR ''=''" by (simp add: b64_char_not_pad)
  moreover have "p = 0 \<or> p = 1 \<or> p = 2" using assms(2) by auto
  ultimately show ?thesis using snoc assms(3)
    by (auto simp: strip_padding_def numeral_2_eq_2)
qed

lemma btoa_length: "(length (b64_sextets bs) + (3 - length bs mod 3) mod 3) mod 4 = 0"
  by (simp add: length_b64_sextets)

theorem atob_btoa: "atob (btoa s) = Inr s"
proof -
  let ?bs = "map byte_of_char s"
  let ?xs = "b64_sextets ?bs"
  let ?p = "(3 - length ?bs mod 3) mod 3"
  have small: "\<forall>k \<in> set ?xs. k < 64" by (simp add: b64_sextets_less)
  have "\<forall>c \<in> set (btoa s). \<not> ascii_whitespace c"
    using small by (auto simp: btoa_def Let_def b64_char_not_ws) (simp add: ascii_whitespace_def)
  then have nows: "filter (\<lambda>c. \<not> ascii_whitespace c) (btoa s) = btoa s"
    by (rule filter_True)
  have strip: "strip_padding (btoa s) = map b64_char ?xs"
    unfolding btoa_def Let_def
    by (rule strip_padding_pad [OF small]) (use btoa_length [of ?bs] in simp_all)
  have len: "length ?xs mod 4 \<noteq> 1"
    by (simp add: length_b64_sextets)
  show ?thesis
    using len by (simp add: atob_def nows strip those_b64_index [OF small] b64_bytes_sextets)
qed

end
