(* ===== verification/PcmCodec.thy ===== *)
theory PcmCodec
  imports Base64
begin

text \<open>
  The audio codec of \<open>src/VoiceView.tsx\<close>: the helpers \<open>encode\<close> and \<open>decode\<close>
  (base64 over a Latin-1 "binary string"), \<open>decodeAudioData\<close> (16-bit
  little-endian PCM to an \<open>AudioBuffer\<close>), and the sample conversion of the
  microphone callback \<open>processor.onaudioprocess\<close>.  \<open>AudioContext.createBuffer\<close>
  is the Web Audio platform's; it is modelled from the Web Audio specification
  with the argument checks that make it throw.
\<close>

section \<open>Base64 helpers\<close>

text \<open>\<open>encode(bytes)\<close>: the loop appends \<open>String.fromCharCode(bytes[i])\<close> for every
  byte, then calls \<open>btoa\<close>.\<close>

definition encode :: "byte list \<Rightarrow> string" where
  "encode bytes = btoa (map char_of_byte bytes)"

text \<open>\<open>decode(base64)\<close>: \<open>atob\<close> (which throws on malformed input), then one byte per
  character through \<open>charCodeAt\<close>.\<close>

definition decode :: "string \<Rightarrow> js_error + byte list" where
  "decode base64 = (case atob base64 of
     Inl e \<Rightarrow> Inl e
   | Inr binaryString \<Rightarrow> Inr (map byte_of_char binaryString))"

section \<open>Typed-array views\<close>

text \<open>\<open>new Int16Array(data.buffer)\<close> reads the byte buffer as little-endian 16-bit
  words; a buffer of odd length makes the constructor throw a \<open>RangeError\<close>.\<close>

fun int16_view :: "byte list \<Rightarrow> int16 list" where
  "int16_view (lo # hi # rest) = le_word16 lo hi # int16_view rest"
| "int16_view _ = []"

definition int16_array :: "byte list \<Rightarrow> js_error + int16 list" where
  "int16_array buf = (if even (length buf) then Inr (int16_view buf) else Inl RangeError)"

text \<open>\<open>new Uint8Array(int16.buffer)\<close>: the bytes of the 16-bit array, low byte first.\<close>

definition uint8_view :: "int16 list \<Rightarrow> byte list" where
  "uint8_view ws = concat (map le_bytes16 ws)"

section \<open>Audio buffers\<close>

record audio_buffer =
  numberOfChannels :: nat
  frames :: nat
  sampleRate :: nat
  channel_data :: "real list list"

definition duration :: "audio_buffer \<Rightarrow> real" where
  "duration b = real (frames b) / real (sampleRate b)"

text \<open>\<open>BaseAudioContext.createBuffer(numberOfChannels, length, sampleRate)\<close> throws
  \<open>NotSupportedError\<close> unless there are 1 to 32 channels, at least one frame and a
  rate in [3000, 768000] Hz; the new buffer holds silence.\<close>

definition createBuffer :: "nat \<Rightarrow> nat \<Rightarrow> nat \<Rightarrow> js_error + audio_buffer" where
  "createBuffer nc len rate =
     (if nc = 0 \<or> 32 < nc \<or> len = 0 \<or> rate < 3000 \<or> 768000 < rate then Inl NotSupportedError
      else Inr \<lparr>numberOfChannels = nc, frames = len, sampleRate = rate,
                channel_data = replicate nc (replicate len 0)\<rparr>)"

text \<open>
  \<open>decodeAudioData(data, ctx, sampleRate, numChannels)\<close>.  \<open>frameCount\<close> is the
  JavaScript quotient \<open>dataInt16.length / numChannels\<close>; \<open>createBuffer\<close> takes it
  as an \<open>unsigned long\<close>, which truncates it to \<open>length div numChannels\<close> (with no
  channel the quotient is not finite and converts to 0, and \<open>createBuffer\<close> throws
  anyway).  The copy loop runs while \<open>i < frameCount\<close>; when the division is not
  exact its last round writes past the end of the channel array, which a typed
  array ignores, so channel \<open>c\<close> receives the samples \<open>i * numChannels + c\<close> for
  \<open>i < length div numChannels\<close>, each divided by 32768.
\<close>

definition decodeAudioData :: "byte list \<Rightarrow> nat \<Rightarrow> nat \<Rightarrow> js_error + audio_buffer" where
  "decodeAudioData data rate numChannels =
     (case int16_array data of
        Inl e \<Rightarrow> Inl e
      | Inr dataInt16 \<Rightarrow>
          (let frameCount = (if numChannels = 0 then 0 else length dataInt16 div numChannels) in
           case createBuffer numChannels frameCount rate of
             Inl e \<Rightarrow> Inl e
           | Inr buffer \<Rightarrow>
               Inr (buffer\<lparr>channel_data :=
                 map (\<lambda>channel. map (\<lambda>i. real_of_int (sint (dataInt16 ! (i * numChannels + channel))) / 32768)
                                    [0..<frameCount])
                     [0..<numChannels]\<rparr>)))"

section \<open>The microphone frame\<close>

text \<open>\<open>processor.onaudioprocess\<close>: each float sample \<open>input[i]\<close> is stored as
  \<open>input[i] * 32768\<close> into an \<open>Int16Array\<close> (ToInt16), and the frame sent to the
  live session is \<open>encode(new Uint8Array(int16.buffer))\<close>.\<close>

definition pcm_int16 :: "real list \<Rightarrow> int16 list" where
  "pcm_int16 input = map (\<lambda>x. to_int16 (x * 32768)) input"

definition pcm_frame :: "real list \<Rightarrow> string" where
  "pcm_frame input = encode (uint8_view (pcm_int16 input))"

section \<open>Properties of the codec\<close>

subsection \<open>Typed-array views\<close>

lemma int16_view_uint8: "int16_view (uint8_view ws) = ws"
  by (induction ws) (simp_all add: uint8_view_def le_bytes16_def)

lemma length_uint8_view: "length (uint8_view ws) = 2 * length ws"
  by (induction ws) (simp_all add: uint8_view_def le_bytes16_def)

lemma uint8_view_empty [simp]: "uint8_view ws = [] \<longleftrightarrow> ws = []"
  by (simp add: uint8_view_def le_bytes16_def)

lemma int16_array_uint8: "int16_array (uint8_view ws) = Inr ws"
  by (simp add: int16_array_def length_uint8_view int16_view_uint8)

subsection \<open>Sample conversion\<close>

lemma sint_to_int16: "sint (to_int16 y) = signed_take_bit 15 (js_trunc y)"
  by (simp add: to_int16_def sint_sbintrunc')

lemma js_trunc_error: "\<bar>y - real_of_int (js_trunc y)\<bar> < 1"
  by (simp add: js_trunc_def) linarith

lemma js_trunc_int16_range:
  assumes "- 32768 \<le> y" "y < 32768"
  shows "- 32768 \<le> js_trunc y \<and> js_trunc y < 32768"
  using assms by (simp add: js_trunc_def)

lemma sint_to_int16_in_range:
  assumes "- 32768 \<le> y" "y < 32768"
  shows "sint (to_int16 y) = js_trunc y"
  using js_trunc_int16_range [OF assms] by (simp add: sint_to_int16 signed_take_bit_int_eq_self)

lemma sint_int16_scaled:
  "- 1 \<le> real_of_int (sint (w :: int16)) / 32768 \<and> real_of_int (sint w) / 32768 < 1"
proof -
  have "- 32768 \<le> sint w" "sint w < 32768" using sint_ge [of w] sint_lt [of w] by simp_all
  then have "- 32768 \<le> real_of_int (sint w)" "real_of_int (sint w) < 32768" by linarith+
  then show ?thesis by simp
qed

subsection \<open>Decoding\<close>

lemma decodeAudioData_mono:
  assumes "even (length data)" "data \<noteq> []" "3000 \<le> rate" "rate \<le> 768000"
  shows "decodeAudioData data rate 1 =
    Inr \<lparr>numberOfChannels = 1, frames = length (int16_view data), sampleRate = rate,
         channel_data = [map (\<lambda>w. real_of_int (sint w) / 32768) (int16_view data)]\<rparr>"
proof -
  have "int16_view data \<noteq> []" using assms(1,2)
    by (cases data rule: int16_view.cases) auto
  then show ?thesis using assms
    by (simp add: decodeAudioData_def int16_array_def createBuffer_def Let_def)
       (intro nth_equalityI, simp_all)
qed

text \<open>C4. Base64 round trip of the voice helpers: \<open>decode\<close> recovers every byte
  string that \<open>encode\<close> produced, so a PCM frame crosses the text channel of the
  live session unchanged.\<close>

theorem decode_encode: "decode (encode bytes) = Inr bytes"
  by (simp add: decode_def encode_def atob_btoa)

text \<open>C5. The uplink and downlink formats agree: a non-empty microphone frame
  produced by \<open>onaudioprocess\<close>, if it were played back by the \<open>onmessage\<close> path
  (decoded with \<open>decode\<close> and \<open>decodeAudioData\<close> at 24 kHz, one channel), yields a
  mono buffer with one frame per input sample holding exactly the 16-bit values
  the uplink computed, scaled back by 1/32768.\<close>

theorem voice_codec_roundtrip:
  assumes "input \<noteq> []"
  shows "(case decode (pcm_frame input) of Inl e \<Rightarrow> Inl e | Inr d \<Rightarrow> decodeAudioData d 24000 1) =
    Inr \<lparr>numberOfChannels = 1, frames = length input, sampleRate = 24000,
         channel_data = [map (\<lambda>w. real_of_int (sint w) / 32768) (pcm_int16 input)]\<rparr>"
proof -
  let ?d = "uint8_view (pcm_int16 input)"
  have "even (length ?d)" "?d \<noteq> []"
    using assms by (simp_all add: length_uint8_view pcm_int16_def)
  from decodeAudioData_mono [OF this] show ?thesis
    by (simp add: pcm_frame_def decode_encode int16_view_uint8 pcm_int16_def)
qed

theorem voice_codec_roundtrip_witness:
  "[1 / 2 :: real] \<noteq> [] \<and>
   (case decode (pcm_frame [1 / 2]) of Inl e \<Rightarrow> Inl e | Inr d \<Rightarrow> decodeAudioData d 24000 1) =
    Inr \<lparr>numberOfChannels = 1, frames = 1, sampleRate = 24000, channel_data = [[1 / 2]]\<rparr>"
  using voice_codec_roundtrip [of "[1 / 2]"] by (simp add: pcm_int16_def js_defs)

text \<open>Quantisation of the uplink: a microphone sample in [-1, 1) is sent as a
  16-bit value that differs from it by less than one step (1/32768).\<close>

theorem sample_quantisation:
  assumes "- 1 \<le> x" "x < 1"
  shows "\<bar>x - real_of_int (sint (hd (pcm_int16 [x]))) / 32768\<bar> < 1 / 32768"
proof -
  let ?t = "real_of_int (js_trunc (x * 32768))"
  have "sint (to_int16 (x * 32768)) = js_trunc (x * 32768)"
    using assms by (intro sint_to_int16_in_range) simp_all
  moreover have "\<bar>x * 32768 - ?t\<bar> < 1"
    by (rule js_trunc_error)
  moreover have "\<bar>x - ?t / 32768\<bar> * 32768 = \<bar>x * 32768 - ?t\<bar>"
  proof -
    have "x * 32768 - ?t = (x - ?t / 32768) * 32768" by (simp add: algebra_simps)
    then have "\<bar>x * 32768 - ?t\<bar> = \<bar>x - ?t / 32768\<bar> * \<bar>32768\<bar>" by (simp only: abs_mult)
    then show ?thesis by simp
  qed
  ultimately show ?thesis by (simp add: pcm_int16_def)
qed

theorem sample_quantisation_witness:
  "- 1 \<le> (1 / 4 :: real) \<and> (1 / 4 :: real) < 1 \<and>
   \<bar>1 / 4 - real_of_int (sint (hd (pcm_int16 [1 / 4]))) / 32768\<bar> < 1 / 32768"
  using sample_quantisation [of "1 / 4"] by simp

text \<open>C26. The uplink does not clamp: a sample at or above full scale (1.0 up to
  2.0) wraps around to a negative 16-bit value, 65536 below its truncation; in
  particular a full-scale 1.0 is sent as -32768, the most negative sample.\<close>

theorem mic_sample_wraps:
  assumes "1 \<le> x" "x < 2"
  shows "sint (hd (pcm_int16 [x])) = js_trunc (x * 32768) - 65536"
proof -
  let ?j = "js_trunc (x * 32768)"
  have "32768 \<le> ?j" "?j < 65536"
    using assms by (simp_all add: js_trunc_def)
  then have "take_bit 16 (?j + 32768) = ?j - 32768"
    unfolding take_bit_eq_mod by (simp add: mod_add_if_z)
  then show ?thesis
    by (simp add: pcm_int16_def sint_to_int16 signed_take_bit_eq_take_bit_shift)
qed

theorem mic_sample_wraps_witness:
  "1 \<le> (1 :: real) \<and> (1 :: real) < 2 \<and> sint (hd (pcm_int16 [1])) = - 32768"
  using mic_sample_wraps [of 1] by (simp add: js_defs)

text \<open>Every sample that \<open>decodeAudioData\<close> writes into an audio buffer lies
  in [-1, 1).\<close>

theorem decodeAudioData_sample_range:
  assumes "decodeAudioData data rate nc = Inr b" "ch \<in> set (channel_data b)" "v \<in> set ch"
  shows "- 1 \<le> v \<and> v < 1"
  using assms sint_int16_scaled
  by (auto simp: decodeAudioData_def int16_array_def createBuffer_def Let_def
           split: if_splits sum.splits)

theorem decodeAudioData_sample_range_witness:
  "decodeAudioData [0, 64] 24000 1 = Inr \<lparr>numberOfChannels = 1, frames = 1, sampleRate = 24000,
      channel_data = [[1 / 2]]\<rparr> \<and> [1 / 2] \<in> set [[1 / 2 :: real]] \<and> 1 / 2 \<in> set [1 / 2 :: real] \<and>
   - 1 \<le> (1 / 2 :: real) \<and> (1 / 2 :: real) < 1"
proof -
  have d: "decodeAudioData [0, 64] 24000 1 = Inr \<lparr>numberOfChannels = 1, frames = 1,
      sampleRate = 24000, channel_data = [[1 / 2]]\<rparr>"
    by (simp add: decodeAudioData_def int16_array_def createBuffer_def js_defs)
  show ?thesis using decodeAudioData_sample_range [OF d, of "[1 / 2]" "1 / 2"] d by simp
qed

text \<open>A base64 payload that decodes to an odd number of bytes cannot be
  viewed as 16-bit PCM: \<open>decodeAudioData\<close> throws a \<open>RangeError\<close>, whatever the
  rate and channel count.\<close>

theorem decodeAudioData_odd_length:
  assumes "odd (length data)"
  shows "decodeAudioData data rate nc = Inl RangeError"
  using assms by (simp add: decodeAudioData_def int16_array_def)

theorem decodeAudioData_odd_length_witness:
  "odd (length [7 :: byte]) \<and> decodeAudioData [7] 24000 1 = Inl RangeError"
  using decodeAudioData_odd_length [of "[7]" 24000 1] by simp

end
