(* ===== verification/VoiceSession.thy ===== *)
theory VoiceSession
  imports PcmCodec
begin

text \<open>
  The live voice link of \<open>src/VoiceView.tsx\<close> as an event system.  The
  component's state (\<open>isListening\<close>, \<open>transcript\<close>) and refs
  (\<open>audioContextRef\<close>, \<open>outputAudioContextRef\<close>, \<open>sessionRef\<close>,
  \<open>nextStartTimeRef\<close>, \<open>sourcesRef\<close>) form one record together with the part of
  the browser and of the SDK that the code observes: audio contexts and their
  clocks, live connections with the closures their callbacks capture, the
  \<open>startSession\<close> calls suspended at \<open>getUserMedia\<close>, and logs of the calls the
  code makes on audio nodes and on the session.  Each event is one callback of
  the code run to completion (the single-threaded event loop), so a step is one
  handler; the awaits of \<open>startSession\<close> split it into the handlers of the
  events that resume it.
\<close>

section \<open>Objects\<close>

text \<open>A live connection as the SDK keeps it: the audio contexts its callbacks
  captured, its socket's state, whether its \<open>sessionPromise\<close> has resolved,
  whether \<open>onopen\<close> has attached the microphone processor, the frames waiting in
  \<open>sessionPromise.then\<close> and the frames given to \<open>sendRealtimeInput\<close> on the open
  socket.\<close>

datatype socket = Connecting | Live | Closing | Closed

record conn =
  conn_in :: nat
  conn_out :: nat
  conn_socket :: socket
  conn_resolved :: bool
  conn_streaming :: bool
  conn_queued :: "string list"
  conn_sent :: "string list"

text \<open>An \<open>AudioBufferSourceNode\<close> started by \<open>onmessage\<close>: its identity, the
  context that plays it, the time passed to \<open>start\<close> and its buffer's duration.\<close>

record source =
  node :: nat
  node_ctx :: nat
  start_at :: real
  node_dur :: real

definition end_at :: "source \<Rightarrow> real" where
  "end_at s = start_at s + node_dur s"

text \<open>The part of a \<open>LiveServerMessage\<close> the handler reads:
  \<open>serverContent.inputTranscription.text\<close>, \<open>serverContent.outputTranscription.text\<close>,
  \<open>serverContent.modelTurn.parts[0].inlineData.data\<close> and
  \<open>serverContent.interrupted\<close>.\<close>

record live_message =
  inputTranscription :: "string option"
  outputTranscription :: "string option"
  audioData :: "string option"
  interrupted :: bool

record voice_state =
  isListening :: bool
  transcript :: "string list"
  audioContextRef :: "nat option"
  outputAudioContextRef :: "nat option"
  sessionRef :: "nat option"
  nextStartTimeRef :: real
  sourcesRef :: "source list"
  fresh :: nat
  clock :: "nat \<Rightarrow> real"
  open_ctxs :: "nat list"
  mic_requests :: "(nat \<times> nat) list"
  conns :: "nat \<Rightarrow> conn option"
  started :: "source list"
  stopped :: "nat list"
  alerts :: nat
  rejections :: "js_error list"

definition voice_init :: voice_state where
  "voice_init = \<lparr>isListening = False, transcript = [], audioContextRef = None,
     outputAudioContextRef = None, sessionRef = None, nextStartTimeRef = 0, sourcesRef = [],
     fresh = 0, clock = (\<lambda>_. 0), open_ctxs = [], mic_requests = [], conns = Map.empty,
     started = [], stopped = [], alerts = 0, rejections = []\<rparr>"

section \<open>Handlers\<close>

text \<open>\<open>startSession\<close> up to its first \<open>await\<close>: two new audio contexts (16 kHz in,
  24 kHz out, clocks at 0) are stored in the refs, and \<open>getUserMedia\<close> is pending.
  Nothing else is reset: not the cursor, not the set of sources.\<close>

definition startSession :: "voice_state \<Rightarrow> voice_state" where
  "startSession s =
     (let i = fresh s; out = Suc (fresh s) in
      s\<lparr>fresh := fresh s + 2, clock := (clock s)(i := 0, out := 0),
        open_ctxs := open_ctxs s @ [i, out],
        audioContextRef := Some i, outputAudioContextRef := Some out,
        mic_requests := mic_requests s @ [(i, out)]\<rparr>)"

text \<open>\<open>getUserMedia\<close> resolves: \<open>ai.live.connect\<close> opens a connection whose
  callbacks capture the two contexts; the function then waits for the session.\<close>

definition micGranted :: "nat \<Rightarrow> voice_state \<Rightarrow> voice_state" where
  "micGranted out s =
     (case find (\<lambda>r. snd r = out) (mic_requests s) of
        None \<Rightarrow> s
      | Some (i, _) \<Rightarrow>
          s\<lparr>mic_requests := filter (\<lambda>r. snd r \<noteq> out) (mic_requests s), fresh := Suc (fresh s),
            conns := (conns s)(fresh s \<mapsto> \<lparr>conn_in = i, conn_out = out, conn_socket = Connecting,
               conn_resolved = False, conn_streaming = False, conn_queued = [], conn_sent = []\<rparr>)\<rparr>)"

text \<open>\<open>getUserMedia\<close> rejects: the \<open>catch\<close> raises the alert; the two contexts
  stay open and stay in the refs.\<close>

definition micDenied :: "nat \<Rightarrow> voice_state \<Rightarrow> voice_state" where
  "micDenied out s =
     s\<lparr>mic_requests := filter (\<lambda>r. snd r \<noteq> out) (mic_requests s), alerts := Suc (alerts s)\<rparr>"

definition update_conn :: "nat \<Rightarrow> (conn \<Rightarrow> conn) \<Rightarrow> voice_state \<Rightarrow> voice_state" where
  "update_conn k f s = s\<lparr>conns := (conns s)(k := map_option f (conns s k))\<rparr>"

text \<open>\<open>onopen\<close>: listening, and the microphone processor starts feeding this
  connection.\<close>

definition onopen :: "nat \<Rightarrow> voice_state \<Rightarrow> voice_state" where
  "onopen k s = update_conn k (\<lambda>c. c\<lparr>conn_socket := Live, conn_streaming := True\<rparr>)
                  (s\<lparr>isListening := True\<rparr>)"

text \<open>\<open>sessionPromise\<close> resolves: first the continuation of \<open>startSession\<close>
  (\<open>sessionRef.current = await sessionPromise\<close>), then, in the order they were
  registered, the \<open>then\<close> callbacks of the frames captured meanwhile.\<close>

definition sessionResolved :: "nat \<Rightarrow> voice_state \<Rightarrow> voice_state" where
  "sessionResolved k s =
     update_conn k (\<lambda>c. c\<lparr>conn_resolved := True, conn_sent := conn_sent c @ conn_queued c,
                           conn_queued := []\<rparr>)
       (s\<lparr>sessionRef := Some k\<rparr>)"

text \<open>\<open>sessionPromise\<close> rejects: the \<open>catch\<close> of \<open>startSession\<close> raises the alert.\<close>

definition sessionRejected :: "nat \<Rightarrow> voice_state \<Rightarrow> voice_state" where
  "sessionRejected k s = update_conn k (\<lambda>c. c\<lparr>conn_socket := Closed\<rparr>) (s\<lparr>alerts := Suc (alerts s)\<rparr>)"

text \<open>\<open>processor.onaudioprocess\<close> of the connection \<open>k\<close>: the frame is encoded
  and handed to \<open>sessionPromise.then\<close>; it reaches the socket at once when the
  promise has resolved and the socket is open, waits for the resolution before,
  and is lost on a closed socket.\<close>

definition onaudioprocess :: "nat \<Rightarrow> real list \<Rightarrow> voice_state \<Rightarrow> voice_state" where
  "onaudioprocess k input s =
     (let pcmData = pcm_frame input in
      update_conn k (\<lambda>c. if \<not> conn_resolved c then c\<lparr>conn_queued := conn_queued c @ [pcmData]\<rparr>
                          else if conn_socket c = Live then c\<lparr>conn_sent := conn_sent c @ [pcmData]\<rparr>
                          else c) s)"

text \<open>Scheduling one decoded chunk on the output context \<open>o\<close>: a new source
  node starts at \<open>max(nextStartTime, currentTime)\<close>, the cursor moves past it,
  and the node joins \<open>sourcesRef\<close>.\<close>

definition schedule_chunk :: "nat \<Rightarrow> audio_buffer \<Rightarrow> voice_state \<Rightarrow> voice_state" where
  "schedule_chunk out buffer s =
     (let t = max (nextStartTimeRef s) (clock s out);
          src = \<lparr>node = fresh s, node_ctx = out, start_at = t, node_dur = duration buffer\<rparr> in
      s\<lparr>fresh := Suc (fresh s), started := started s @ [src],
        nextStartTimeRef := t + duration buffer, sourcesRef := sourcesRef s @ [src]\<rparr>)"

text \<open>The \<open>interrupted\<close> branch: stop every node of \<open>sourcesRef\<close> (in insertion
  order), clear the set and reset the cursor.\<close>

definition interrupt :: "voice_state \<Rightarrow> voice_state" where
  "interrupt s = s\<lparr>stopped := stopped s @ map node (sourcesRef s), sourcesRef := [],
                   nextStartTimeRef := 0\<rparr>"

definition add_transcripts :: "live_message \<Rightarrow> voice_state \<Rightarrow> voice_state" where
  "add_transcripts m s =
     s\<lparr>transcript := transcript s
        @ (case inputTranscription m of None \<Rightarrow> [] | Some t \<Rightarrow> [''User: '' @ t])
        @ (case outputTranscription m of None \<Rightarrow> [] | Some t \<Rightarrow> [''Giga: '' @ t])\<rparr>"

text \<open>\<open>onmessage\<close> of the connection whose output context is \<open>o\<close>.  An
  exception of \<open>decode\<close> or \<open>decodeAudioData\<close> rejects the handler's promise: the
  transcript lines are already added, the rest of the handler, the
  \<open>interrupted\<close> branch included, is skipped.\<close>

definition onmessage :: "nat \<Rightarrow> live_message \<Rightarrow> voice_state \<Rightarrow> voice_state" where
  "onmessage out m s =
     (let s1 = add_transcripts m s;
          fail = (\<lambda>e. s1\<lparr>rejections := rejections s1 @ [e]\<rparr>);
          finish = (\<lambda>s2. if interrupted m then interrupt s2 else s2) in
      case audioData m of
        Some d \<Rightarrow>
          (if d = [] then finish s1
           else case decode d of
                  Inl e \<Rightarrow> fail e
                | Inr bytes \<Rightarrow>
                    (case decodeAudioData bytes 24000 1 of
                       Inl e \<Rightarrow> fail e
                     | Inr buffer \<Rightarrow> finish (schedule_chunk out buffer s1)))
      | None \<Rightarrow> finish s1)"

text \<open>\<open>onclose\<close>: whichever connection closes, the view stops listening.\<close>

definition onclose :: "nat \<Rightarrow> voice_state \<Rightarrow> voice_state" where
  "onclose k s = update_conn k (\<lambda>c. c\<lparr>conn_socket := Closed\<rparr>) (s\<lparr>isListening := False\<rparr>)"

definition serverClose :: "nat \<Rightarrow> voice_state \<Rightarrow> voice_state" where
  "serverClose k s = update_conn k (\<lambda>c. c\<lparr>conn_socket := Closing\<rparr>) s"

text \<open>\<open>source.onended\<close>: the node leaves \<open>sourcesRef\<close>.\<close>

definition onended :: "nat \<Rightarrow> voice_state \<Rightarrow> voice_state" where
  "onended n s = s\<lparr>sourcesRef := filter (\<lambda>x. node x \<noteq> n) (sourcesRef s)\<rparr>"

definition close_ctx :: "nat option \<Rightarrow> voice_state \<Rightarrow> voice_state" where
  "close_ctx r s = (case r of None \<Rightarrow> s | Some c \<Rightarrow> s\<lparr>open_ctxs := removeAll c (open_ctxs s)\<rparr>)"

text \<open>\<open>stopSession\<close>: close the session of \<open>sessionRef\<close> and both contexts of the
  refs, stop and forget every source, stop listening.  The cursor
  \<open>nextStartTimeRef\<close> is left as it is.\<close>

definition stopSession :: "voice_state \<Rightarrow> voice_state" where
  "stopSession s =
     (let s1 = (case sessionRef s of
                  None \<Rightarrow> s
                | Some k \<Rightarrow> update_conn k (\<lambda>c. if conn_socket c = Live then c\<lparr>conn_socket := Closing\<rparr> else c)
                              (s\<lparr>sessionRef := None\<rparr>));
          s2 = close_ctx (audioContextRef s1) s1\<lparr>audioContextRef := None\<rparr>;
          s3 = close_ctx (outputAudioContextRef s2) s2\<lparr>outputAudioContextRef := None\<rparr> in
      s3\<lparr>stopped := stopped s3 @ map node (sourcesRef s3), sourcesRef := [], isListening := False\<rparr>)"

section \<open>Events\<close>

datatype voice_event =
    Click
  | MicGranted nat
  | MicDenied nat
  | SocketOpen nat
  | SessionResolved nat
  | SessionRejected nat
  | ServerMessage nat live_message
  | ServerClose nat
  | CloseDelivered nat
  | AudioProcess nat "real list"
  | SourceEnded nat
  | Tick nat real

definition socket_is :: "voice_state \<Rightarrow> nat \<Rightarrow> socket \<Rightarrow> bool" where
  "socket_is s k st \<longleftrightarrow> (case conns s k of None \<Rightarrow> False | Some c \<Rightarrow> conn_socket c = st)"

text \<open>When the environment can deliver an event.\<close>

fun voice_enabled :: "voice_state \<Rightarrow> voice_event \<Rightarrow> bool" where
  "voice_enabled s Click = True"
| "voice_enabled s (MicGranted out) = (\<exists>r \<in> set (mic_requests s). snd r = out)"
| "voice_enabled s (MicDenied out) = (\<exists>r \<in> set (mic_requests s). snd r = out)"
| "voice_enabled s (SocketOpen k) = socket_is s k Connecting"
| "voice_enabled s (SessionResolved k) =
     (case conns s k of None \<Rightarrow> False | Some c \<Rightarrow> conn_socket c = Live \<and> \<not> conn_resolved c)"
| "voice_enabled s (SessionRejected k) = socket_is s k Connecting"
| "voice_enabled s (ServerMessage k m) = socket_is s k Live"
| "voice_enabled s (ServerClose k) = socket_is s k Live"
| "voice_enabled s (CloseDelivered k) = socket_is s k Closing"
| "voice_enabled s (AudioProcess k input) =
     (case conns s k of None \<Rightarrow> False | Some c \<Rightarrow> conn_streaming c \<and> conn_in c \<in> set (open_ctxs s))"
| "voice_enabled s (SourceEnded n) =
     (\<exists>x \<in> set (started s). node x = n \<and> (n \<in> set (stopped s) \<or> end_at x \<le> clock s (node_ctx x)))"
| "voice_enabled s (Tick c d) = (c \<in> set (open_ctxs s) \<and> 0 \<le> d)"

text \<open>The handler each event runs.  The button calls \<open>stopSession\<close> while
  listening and \<open>startSession\<close> otherwise.\<close>

fun voice_step :: "voice_state \<Rightarrow> voice_event \<Rightarrow> voice_state" where
  "voice_step s Click = (if isListening s then stopSession s else startSession s)"
| "voice_step s (MicGranted out) = micGranted out s"
| "voice_step s (MicDenied out) = micDenied out s"
| "voice_step s (SocketOpen k) = onopen k s"
| "voice_step s (SessionResolved k) = sessionResolved k s"
| "voice_step s (SessionRejected k) = sessionRejected k s"
| "voice_step s (ServerMessage k m) =
     (case conns s k of None \<Rightarrow> s | Some c \<Rightarrow> onmessage (conn_out c) m s)"
| "voice_step s (ServerClose k) = serverClose k s"
| "voice_step s (CloseDelivered k) = onclose k s"
| "voice_step s (AudioProcess k input) = onaudioprocess k input s"
| "voice_step s (SourceEnded n) = onended n s"
| "voice_step s (Tick c d) = s\<lparr>clock := (clock s)(c := clock s c + d)\<rparr>"

inductive voice_reach :: "voice_state \<Rightarrow> bool" where
  init: "voice_reach voice_init"
| step: "voice_reach s \<Longrightarrow> voice_enabled s e \<Longrightarrow> voice_reach (voice_step s e)"

fun voice_run :: "voice_state \<Rightarrow> voice_event list \<Rightarrow> voice_state option" where
  "voice_run s [] = Some s"
| "voice_run s (e # es) = (if voice_enabled s e then voice_run (voice_step s e) es else None)"


section \<open>Rendering\<close>

text \<open>The button's label (its handler is the \<open>Click\<close> event), and the
  transcript pane: "Awaiting Neural Signal..." for an empty transcript, else one
  entry per line, styled as the user's when the line starts with \<open>User:\<close>.\<close>

definition voice_button :: "voice_state \<Rightarrow> string" where
  "voice_button s = (if isListening s then ''Terminate Uplink'' else ''Initialize Voice Link'')"

definition transcript_view :: "voice_state \<Rightarrow> (bool \<times> string) list option" where
  "transcript_view s =
     (if transcript s = [] then None else Some (map (\<lambda>l. (take 5 l = ''User:'', l)) (transcript s)))"

section \<open>Invariants and scenarios\<close>

text \<open>The scheduling invariant: the nodes of \<open>sourcesRef\<close>, in insertion order,
  play one after the other without overlap, none has negative length, and all
  end by the cursor \<open>nextStartTimeRef\<close>.\<close>

definition sched_ok :: "source list \<Rightarrow> real \<Rightarrow> bool" where
  "sched_ok ss t \<longleftrightarrow> sorted_wrt (\<lambda>a b. end_at a \<le> start_at b) ss \<and>
     (\<forall>x \<in> set ss. 0 \<le> node_dur x \<and> end_at x \<le> t)"

definition voice_inv :: "voice_state \<Rightarrow> bool" where
  "voice_inv s \<longleftrightarrow> sched_ok (sourcesRef s) (nextStartTimeRef s) \<and> (\<forall>c. 0 \<le> clock s c) \<and>
     0 \<le> nextStartTimeRef s"


text \<open>Concrete scenarios, used by the witnesses.  \<open>msgA\<close> carries two samples of
  silence (\<open>AAAAAA==\<close> is four zero bytes), that is 1/12000 s of audio at 24 kHz.
  Identifiers are handed out by \<open>fresh\<close> in order: contexts 0 and 1, connection 2,
  node 3, and so on.\<close>

definition msgA :: live_message where
  "msgA = \<lparr>inputTranscription = None, outputTranscription = Some ''hi'',
           audioData = Some ''AAAAAA=='', interrupted = False\<rparr>"

definition play_run :: "voice_event list" where
  "play_run = [Click, MicGranted 1, SocketOpen 2, SessionResolved 2, ServerMessage 2 msgA,
     ServerMessage 2 msgA]"

definition double_start_run :: "voice_event list" where
  "double_start_run = [Click, Click, MicGranted 1, MicGranted 3, SocketOpen 4, SessionResolved 4,
     SocketOpen 5, SessionResolved 5, Click]"

definition stale_close_run :: "voice_event list" where
  "stale_close_run = [Click, MicGranted 1, SocketOpen 2, SessionResolved 2, Click, Click, MicGranted 4,
     SocketOpen 5, SessionResolved 5, CloseDelivered 2]"

definition restart_run :: "voice_event list" where
  "restart_run = [Click, MicGranted 1, SocketOpen 2, SessionResolved 2, ServerMessage 2 msgA, Click, Click,
     MicGranted 5, SocketOpen 6, SessionResolved 6, ServerMessage 6 msgA]"


section \<open>Properties\<close>

declare update_conn_def [simp]

lemma close_ctx_eq:
  "close_ctx r s = s\<lparr>open_ctxs := (case r of None \<Rightarrow> open_ctxs s | Some c \<Rightarrow> removeAll c (open_ctxs s))\<rparr>"
  by (simp add: close_ctx_def split: option.splits)

lemma voice_run_reach: "voice_run s es = Some s' \<Longrightarrow> voice_reach s \<Longrightarrow> voice_reach s'"
proof (induction es arbitrary: s)
  case Nil
  then show ?case by simp
next
  case (Cons e es)
  then show ?case by (auto intro: voice_reach.step split: if_splits)
qed

lemma voice_run_init_reach: "voice_run voice_init es \<noteq> None \<Longrightarrow> voice_reach (the (voice_run voice_init es))"
  by (auto intro: voice_run_reach voice_reach.init)

subsection \<open>Scheduling\<close>

lemma duration_nonneg: "0 \<le> duration b"
  by (simp add: duration_def)

lemma sched_ok_Nil [simp]: "sched_ok [] t"
  by (simp add: sched_ok_def)

lemma sched_ok_filter: "sched_ok ss t \<Longrightarrow> sched_ok (filter P ss) t"
  by (auto simp: sched_ok_def sorted_wrt_filter)

lemma sched_ok_snoc:
  assumes "sched_ok ss t" "t \<le> t0" "0 \<le> d"
  shows "sched_ok (ss @ [\<lparr>node = n, node_ctx = c, start_at = t0, node_dur = d\<rparr>]) (t0 + d)"
  using assms by (auto simp: sched_ok_def sorted_wrt_append end_at_def)

lemma voice_inv_schedule: "voice_inv s \<Longrightarrow> voice_inv (schedule_chunk out b s)"
  unfolding voice_inv_def schedule_chunk_def Let_def
  using duration_nonneg [of b]
  by (auto intro!: sched_ok_snoc simp del: max_def intro: order.trans [OF _ max.cobounded1] add_nonneg_nonneg)

lemma voice_inv_interrupt: "voice_inv s \<Longrightarrow> voice_inv (interrupt s)"
  by (simp add: voice_inv_def interrupt_def)

lemma voice_inv_add_transcripts: "voice_inv s \<Longrightarrow> voice_inv (add_transcripts m s)"
  by (simp add: voice_inv_def add_transcripts_def)

lemma voice_inv_rejections [simp]: "voice_inv (s\<lparr>rejections := r\<rparr>) = voice_inv s"
  by (simp add: voice_inv_def)

lemma voice_inv_onmessage:
  assumes "voice_inv s"
  shows "voice_inv (onmessage out m s)"
proof -
  have "voice_inv (add_transcripts m s)" using assms by (rule voice_inv_add_transcripts)
  then show ?thesis
    by (auto simp: onmessage_def Let_def voice_inv_interrupt voice_inv_schedule
             split: option.splits sum.splits)
qed

lemma voice_inv_step:
  assumes "voice_inv s" "voice_enabled s e"
  shows "voice_inv (voice_step s e)"
proof (cases e)
  case Click
  then show ?thesis using assms
    by (auto simp: stopSession_def startSession_def Let_def voice_inv_def close_ctx_eq
             update_conn_def split: option.splits)
next
  case (MicGranted out)
  then show ?thesis using assms by (simp add: micGranted_def voice_inv_def split: option.splits prod.splits)
next
  case (MicDenied out)
  then show ?thesis using assms by (simp add: micDenied_def voice_inv_def)
next
  case (SocketOpen k)
  then show ?thesis using assms by (simp add: onopen_def voice_inv_def)
next
  case (SessionResolved k)
  then show ?thesis using assms by (simp add: sessionResolved_def voice_inv_def)
next
  case (SessionRejected k)
  then show ?thesis using assms by (simp add: sessionRejected_def voice_inv_def)
next
  case (ServerMessage k m)
  then show ?thesis using assms by (simp add: voice_inv_onmessage split: option.splits)
next
  case (ServerClose k)
  then show ?thesis using assms by (simp add: serverClose_def voice_inv_def)
next
  case (CloseDelivered k)
  then show ?thesis using assms by (simp add: onclose_def voice_inv_def)
next
  case (AudioProcess k input)
  then show ?thesis using assms by (simp add: onaudioprocess_def Let_def voice_inv_def)
next
  case (SourceEnded n)
  then show ?thesis using assms by (simp add: onended_def voice_inv_def sched_ok_filter)
next
  case (Tick c d)
  then show ?thesis using assms by (simp add: voice_inv_def)
qed

lemma voice_reach_inv: "voice_reach s \<Longrightarrow> voice_inv s"
proof (induction rule: voice_reach.induct)
  case init
  show ?case by (simp add: voice_inv_def voice_init_def)
next
  case (step s e)
  from step.IH step.hyps(2) show ?case by (rule voice_inv_step)
qed




subsection \<open>Uplink\<close>





subsection \<open>Claims\<close>

text \<open>C1. Playback never overlaps: in every reachable state the audio nodes
  waiting in \<open>sourcesRef\<close> are queued in arrival order, each ends before the
  next begins, and all end by the cursor \<open>nextStartTimeRef\<close>.\<close>

theorem voice_schedule_disjoint:
  assumes "voice_reach s"
  shows "sorted_wrt (\<lambda>a b. end_at a \<le> start_at b) (sourcesRef s) \<and>
         (\<forall>x \<in> set (sourcesRef s). start_at x \<le> end_at x \<and> end_at x \<le> nextStartTimeRef s)"
  using voice_reach_inv [OF assms] by (auto simp: voice_inv_def sched_ok_def end_at_def)

theorem voice_schedule_disjoint_witness:
  "voice_reach (the (voice_run voice_init play_run)) \<and>
   map start_at (sourcesRef (the (voice_run voice_init play_run))) = [0, 1 / 12000] \<and>
   sorted_wrt (\<lambda>a b. end_at a \<le> start_at b) (sourcesRef (the (voice_run voice_init play_run)))"
proof -
  have r: "voice_reach (the (voice_run voice_init play_run))"
    by (rule voice_run_init_reach) code_simp
  have m: "map start_at (sourcesRef (the (voice_run voice_init play_run))) = [0, 1 / 12000]"
    by code_simp
  show ?thesis using r m voice_schedule_disjoint [OF r] by simp
qed

text \<open>C2. An audio chunk is scheduled gaplessly: \<open>onmessage\<close> with a well-formed
  audio payload and no interruption appends one node that starts at
  \<open>max(nextStartTime, currentTime)\<close> of the connection's output context, and moves
  the cursor to its end; while the cursor is ahead of the clock each chunk starts
  exactly where the previous one ends.\<close>

theorem onmessage_schedules:
  assumes "audioData m = Some d" "d \<noteq> []" "decode d = Inr bytes"
    "decodeAudioData bytes 24000 1 = Inr buffer" "\<not> interrupted m"
  shows "sourcesRef (onmessage out m s) = sourcesRef s @
           [\<lparr>node = fresh s, node_ctx = out, start_at = max (nextStartTimeRef s) (clock s out),
             node_dur = duration buffer\<rparr>] \<and>
         nextStartTimeRef (onmessage out m s) = max (nextStartTimeRef s) (clock s out) + duration buffer"
  using assms by (simp add: onmessage_def schedule_chunk_def add_transcripts_def Let_def)

theorem onmessage_schedules_witness:
  "audioData msgA = Some ''AAAAAA=='' \<and> ''AAAAAA=='' \<noteq> [] \<and> decode ''AAAAAA=='' = Inr [0, 0, 0, 0] \<and>
   decodeAudioData [0, 0, 0, 0] 24000 1 =
     Inr \<lparr>numberOfChannels = 1, frames = 2, sampleRate = 24000, channel_data = [[0, 0]]\<rparr> \<and>
   \<not> interrupted msgA \<and>
   nextStartTimeRef (onmessage 1 msgA voice_init) = 1 / 12000"
proof -
  have d: "decode ''AAAAAA=='' = Inr [0, 0, 0, 0]" by code_simp
  have b: "decodeAudioData [0, 0, 0, 0] 24000 1 =
     Inr \<lparr>numberOfChannels = 1, frames = 2, sampleRate = 24000, channel_data = [[0, 0]]\<rparr>"
    by code_simp
  have a: "audioData msgA = Some ''AAAAAA==''" "\<not> interrupted msgA" by (simp_all add: msgA_def)
  from onmessage_schedules [OF a(1) _ d b a(2), of 1 voice_init] show ?thesis
    using a d b by (simp add: voice_init_def duration_def)
qed

text \<open>C3. Interruption: a message flagged \<open>interrupted\<close> whose audio payload, if
  any, decodes, leaves no node in \<open>sourcesRef\<close>, resets the cursor to 0, and has
  called \<open>stop()\<close> on every node that was waiting.\<close>

theorem onmessage_interrupt:
  assumes "interrupted m"
    "\<forall>d. audioData m = Some d \<longrightarrow> d = [] \<or>
          (\<exists>bytes buffer. decode d = Inr bytes \<and> decodeAudioData bytes 24000 1 = Inr buffer)"
  shows "sourcesRef (onmessage out m s) = [] \<and> nextStartTimeRef (onmessage out m s) = 0 \<and>
         set (map node (sourcesRef s)) \<subseteq> set (stopped (onmessage out m s))"
  using assms
  by (auto simp: onmessage_def schedule_chunk_def add_transcripts_def interrupt_def Let_def
           split: option.splits)

theorem onmessage_interrupt_witness:
  "interrupted (msgA\<lparr>audioData := None, interrupted := True\<rparr>) \<and>
   audioData (msgA\<lparr>audioData := None, interrupted := True\<rparr>) = None \<and>
   sourcesRef (onmessage 1 (msgA\<lparr>audioData := None, interrupted := True\<rparr>)
                 (the (voice_run voice_init play_run))) = [] \<and>
   {3, 4} \<subseteq> set (stopped (onmessage 1 (msgA\<lparr>audioData := None, interrupted := True\<rparr>)
                 (the (voice_run voice_init play_run))))"
proof -
  let ?m = "msgA\<lparr>audioData := None, interrupted := True\<rparr>"
  let ?s = "the (voice_run voice_init play_run)"
  have h: "interrupted ?m"
    "\<forall>d. audioData ?m = Some d \<longrightarrow> d = [] \<or>
       (\<exists>bytes buffer. decode d = Inr bytes \<and> decodeAudioData bytes 24000 1 = Inr buffer)"
    by simp_all
  have n: "map node (sourcesRef ?s) = [3, 4]" by code_simp
  show ?thesis using onmessage_interrupt [OF h, of 1 ?s] h n by simp
qed

text \<open>C25. A malformed audio payload aborts the handler: when \<open>decode\<close> throws,
  \<open>onmessage\<close> adds the transcript lines, records the rejected promise and
  changes nothing else; in particular an \<open>interrupted\<close> flag in the same message
  is not acted upon and the audio already queued keeps playing.\<close>

theorem onmessage_bad_audio:
  assumes "audioData m = Some d" "d \<noteq> []" "decode d = Inl e"
  shows "onmessage out m s = (add_transcripts m s)\<lparr>rejections := rejections s @ [e]\<rparr>"
  using assms by (simp add: onmessage_def Let_def add_transcripts_def)

theorem onmessage_bad_audio_witness:
  "audioData (msgA\<lparr>audioData := Some ''A'', interrupted := True\<rparr>) = Some ''A'' \<and> ''A'' \<noteq> [] \<and>
   decode ''A'' = Inl InvalidCharacterError \<and>
   sourcesRef (onmessage 1 (msgA\<lparr>audioData := Some ''A'', interrupted := True\<rparr>)
                 (the (voice_run voice_init play_run))) =
   sourcesRef (the (voice_run voice_init play_run))"
proof -
  let ?m = "msgA\<lparr>audioData := Some ''A'', interrupted := True\<rparr>"
  have d: "decode ''A'' = Inl InvalidCharacterError" by code_simp
  have a: "audioData ?m = Some ''A''" by simp
  show ?thesis
    using onmessage_bad_audio [OF a _ d, of 1 "the (voice_run voice_init play_run)"] d
    by (simp add: add_transcripts_def)
qed

text \<open>C16. Terminating the uplink: when the button is pressed while listening,
  \<open>stopSession\<close> leaves no node in \<open>sourcesRef\<close>, has stopped every node that was
  waiting, stops listening, clears the three refs and closes both contexts they
  held; the cursor \<open>nextStartTimeRef\<close> is left unchanged.\<close>

theorem stopSession_clears:
  assumes "isListening s"
  shows "sourcesRef (voice_step s Click) = [] \<and>
         set (map node (sourcesRef s)) \<subseteq> set (stopped (voice_step s Click)) \<and>
         \<not> isListening (voice_step s Click) \<and> sessionRef (voice_step s Click) = None \<and>
         audioContextRef (voice_step s Click) = None \<and> outputAudioContextRef (voice_step s Click) = None \<and>
         (\<forall>c. audioContextRef s = Some c \<or> outputAudioContextRef s = Some c \<longrightarrow>
              c \<notin> set (open_ctxs (voice_step s Click))) \<and>
         nextStartTimeRef (voice_step s Click) = nextStartTimeRef s"
  using assms by (auto simp: stopSession_def close_ctx_eq Let_def split: option.splits)

theorem stopSession_clears_witness:
  "isListening (the (voice_run voice_init play_run)) \<and>
   sourcesRef (voice_step (the (voice_run voice_init play_run)) Click) = [] \<and>
   nextStartTimeRef (voice_step (the (voice_run voice_init play_run)) Click) = 1 / 6000"
proof -
  let ?s = "the (voice_run voice_init play_run)"
  have l: "isListening ?s" by code_simp
  have n: "nextStartTimeRef ?s = 1 / 6000" by code_simp
  show ?thesis using stopSession_clears [OF l] l n by simp
qed

text \<open>Restarting keeps the stale cursor: stopping and starting again creates
  a fresh output context whose clock is 0, but \<open>nextStartTimeRef\<close> still holds
  the previous session's cursor, so the new session's first chunk is scheduled
  that far in the future.\<close>

theorem restart_keeps_cursor:
  assumes "isListening s"
  shows "outputAudioContextRef (voice_step (voice_step s Click) Click) = Some (Suc (fresh s)) \<and>
         clock (voice_step (voice_step s Click) Click) (Suc (fresh s)) = 0 \<and>
         nextStartTimeRef (voice_step (voice_step s Click) Click) = nextStartTimeRef s"
  using assms by (simp add: stopSession_def startSession_def close_ctx_eq Let_def split: option.splits)

theorem restart_keeps_cursor_witness:
  "isListening (the (voice_run voice_init play_run)) \<and>
   nextStartTimeRef (voice_step (voice_step (the (voice_run voice_init play_run)) Click) Click) = 1 / 6000"
proof -
  let ?s = "the (voice_run voice_init play_run)"
  have l: "isListening ?s" by code_simp
  have n: "nextStartTimeRef ?s = 1 / 6000" by code_simp
  show ?thesis using restart_keeps_cursor [OF l] l n by simp
qed

text \<open>C22. The stale cursor delays playback: there is a run (play a chunk,
  terminate, start again, receive a chunk) in which the new session's first node
  is started at the old cursor, 1/12000 s, while its context's clock reads 0; the
  delay is the length of the audio the previous session had queued.\<close>

theorem restart_delays_first_chunk:
  "\<exists>s. voice_reach s \<and> node_ctx (last (started s)) = 5 \<and> clock s 5 = 0 \<and>
       start_at (last (started s)) = 1 / 12000"
proof -
  let ?s = "the (voice_run voice_init restart_run)"
  have r: "voice_reach ?s" by (rule voice_run_init_reach) code_simp
  have "node_ctx (last (started ?s)) = 5" "clock ?s 5 = 0" "start_at (last (started ?s)) = 1 / 12000"
    by code_simp+
  with r show ?thesis by blast
qed

text \<open>C23. Terminate does not end every session: pressing the button twice
  before the first connection opens starts two sessions; \<open>stopSession\<close> later
  closes only the one in \<open>sessionRef\<close>, and the other stays live with the
  microphone processor still feeding it.\<close>

theorem double_start_leaks:
  "\<exists>s. voice_reach s \<and> \<not> isListening s \<and> sessionRef s = None \<and> socket_is s 4 Live \<and>
       voice_enabled s (AudioProcess 4 [0]) \<and>
       conn_sent (the (conns (voice_step s (AudioProcess 4 [0])) 4)) = [pcm_frame [0]]"
proof -
  let ?s = "the (voice_run voice_init double_start_run)"
  have r: "voice_reach ?s" by (rule voice_run_init_reach) code_simp
  have "\<not> isListening ?s" "sessionRef ?s = None" "socket_is ?s 4 Live"
    "voice_enabled ?s (AudioProcess 4 [0])"
    "conn_sent (the (conns (voice_step ?s (AudioProcess 4 [0])) 4)) = [pcm_frame [0]]"
    by code_simp+
  with r show ?thesis by blast
qed

text \<open>C24. A late \<open>onclose\<close> hides a live session: the \<open>onclose\<close> of a session
  closed earlier, delivered after a new session has opened, sets
  \<open>isListening\<close> to false while \<open>sessionRef\<close> holds the new, live session; the
  button then offers to start yet another session.\<close>

theorem stale_onclose:
  "\<exists>s. voice_reach s \<and> sessionRef s = Some 5 \<and> socket_is s 5 Live \<and> \<not> isListening s"
proof -
  let ?s = "the (voice_run voice_init stale_close_run)"
  have r: "voice_reach ?s" by (rule voice_run_init_reach) code_simp
  have "sessionRef ?s = Some 5" "socket_is ?s 5 Live" "\<not> isListening ?s"
    by code_simp+
  with r show ?thesis by blast
qed



text \<open>The transcript is append-only: every handler leaves the existing
  transcript lines in place and can only add lines after them.\<close>

theorem transcript_append_only: "\<exists>t. transcript (voice_step s e) = transcript s @ t"
proof (cases e)
  case (ServerMessage k m)
  then show ?thesis
    by (auto simp: onmessage_def schedule_chunk_def add_transcripts_def interrupt_def Let_def
             split: option.splits sum.splits)
next
  case Click
  then show ?thesis by (auto simp: stopSession_def startSession_def close_ctx_eq Let_def split: option.splits)
qed (auto simp: micGranted_def micDenied_def onopen_def sessionResolved_def sessionRejected_def
           serverClose_def onclose_def onaudioprocess_def onended_def Let_def split: option.splits prod.splits)

end
