(* ===== verification/GeminiService.thy ===== *)
theory GeminiService
  imports Prelude
begin

text \<open>
  The service client \<open>GeminiService\<close> of \<open>src/geminiService.ts\<close>.  Each method is
  one definition over an explicit SDK: the SDK is a parameter (a function from
  the request the code builds to what the vendor answers), so the theorems hold
  for every answer the vendor may give.  The AI Studio key picker
  (\<open>window.aistudio\<close>) is the record \<open>ai_env\<close>; a dialog opened by the code is
  counted in \<open>key_dialogs\<close>.
  \<^item> \<open>generateTextStream\<close>: the routing predicates (the case-insensitive regular
    expressions as \<open>regex_test_ci\<close>), the request (\<open>text_request\<close>), and the
    chunks the async generator yields, with the fallback chunk after a failure;
  \<^item> \<open>generateImage\<close>: the key check, the request, the extraction of the first
    inline image part (\<open>image_url\<close>) and the rethrowing handler;
  \<^item> \<open>generateVideo\<close>: the request, the poll loop (\<open>poll_loop\<close>, at most 200
    polls, a terminating \<open>function\<close>), the download link, the fetch and the
    handler.
\<close>

section \<open>Case-insensitive regular expressions\<close>

text \<open>A pattern \<open>/w1|w2|.../i\<close> of literal alternatives.  \<open>RegExp.prototype.test\<close>
  tries each start position from the left and, at a position, each alternative
  in order; an alternative matches when its characters equal the input's after
  Canonicalize (\<open>ascii_upper\<close>).\<close>

fun ci_prefix :: "string \<Rightarrow> string \<Rightarrow> bool" where
  "ci_prefix [] s = True"
| "ci_prefix (p # ps) [] = False"
| "ci_prefix (p # ps) (c # cs) = (ascii_upper p = ascii_upper c \<and> ci_prefix ps cs)"

definition regex_match_at :: "string list \<Rightarrow> string \<Rightarrow> bool" where
  "regex_match_at alts s = list_ex (\<lambda>w. ci_prefix w s) alts"

fun regex_test_ci :: "string list \<Rightarrow> string \<Rightarrow> bool" where
  "regex_test_ci alts [] = regex_match_at alts []"
| "regex_test_ci alts (c # cs) = (regex_match_at alts (c # cs) \<or> regex_test_ci alts cs)"

section \<open>Text generation\<close>

definition complex_pattern :: "string list" where
  "complex_pattern = [''code'', ''math'', ''analyze'', ''research'', ''reasoning'', ''write a book'', ''report'']"

definition search_pattern :: "string list" where
  "search_pattern = [''news'', ''today'', ''recent'', ''current'', ''weather'', ''latest'', ''olympics'',
                     ''president'', ''price'']"

definition isComplex :: "string \<Rightarrow> bool" where
  "isComplex prompt \<longleftrightarrow> regex_test_ci complex_pattern prompt \<or> 600 < length prompt"

definition text_model :: "string \<Rightarrow> string" where
  "text_model prompt = (if isComplex prompt then ''gemini-3-pro-preview'' else ''gemini-3-flash-preview'')"

text \<open>\<open>imageBase64.split(',')[1] || imageBase64\<close>: the payload of a data URL.\<close>

definition inline_data :: "string \<Rightarrow> string" where
  "inline_data imageBase64 =
     (case js_split CHR '','' imageBase64 of _ # p # _ \<Rightarrow> js_or p imageBase64 | _ \<Rightarrow> imageBase64)"

datatype text_contents =
    ChatMessage string
  | InlineParts string string string

record text_config =
  cfg_thinking_budget :: nat
  cfg_temperature :: real
  cfg_google_search :: bool

record text_request =
  treq_model :: string
  treq_config :: text_config
  treq_contents :: text_contents

text \<open>The request of \<open>generateTextStream\<close>: the model, the config (with the search
  tool when the prompt matches the news pattern), and either a chat message
  (\<open>chats.create\<close>/\<open>sendMessageStream\<close>) or the text and inline-image parts
  (\<open>generateContentStream\<close>).  \<open>SYSTEM_INSTRUCTION\<close> comes from a module outside
  the sources and is left out of the record.\<close>

definition text_request :: "string \<Rightarrow> string option \<Rightarrow> string option \<Rightarrow> text_request" where
  "text_request prompt imageBase64 mimeType =
     \<lparr>treq_model = text_model prompt,
      treq_config = \<lparr>cfg_thinking_budget = 0, cfg_temperature = 7 / 10,
                     cfg_google_search = regex_test_ci search_pattern prompt\<rparr>,
      treq_contents = (case imageBase64 of
          Some img \<Rightarrow> if img \<noteq> [] then InlineParts prompt (inline_data img) (js_or_opt mimeType ''image/jpeg'')
                      else ChatMessage prompt
        | None \<Rightarrow> ChatMessage prompt)\<rparr>"

text \<open>A streamed chunk: its \<open>text\<close> and the grounding chunks of its first
  candidate (each a web source \<open>(uri, title)\<close>, or \<open>None\<close> for a non-web source).
  The SDK either streams all its chunks or throws after some of them; before
  that, \<open>getClient()\<close>, which runs outside the \<open>try\<close>, may throw
  (\<open>NoClient\<close>).\<close>

type_synonym grounding = "(string \<times> string) option"

record chunk =
  chunk_text :: "string option"
  chunk_grounding :: "grounding list option"

datatype stream_outcome =
    NoClient js_error
  | Streamed "chunk list"
  | Broken "chunk list"

type_synonym text_sdk = "text_request \<Rightarrow> stream_outcome"

definition uplink_fallback :: chunk where
  "uplink_fallback = \<lparr>chunk_text = Some ''Neural uplink interrupted. Re-syncing systems...'', chunk_grounding = None\<rparr>"

text \<open>The chunks the async generator yields, or the exception it throws to its
  consumer (only \<open>getClient()\<close> can throw past the \<open>catch\<close>).  \<open>history\<close> is a
  parameter of the method and, as in the code, is never read.\<close>

definition generateTextStream ::
  "text_sdk \<Rightarrow> string \<Rightarrow> 'h list \<Rightarrow> string option \<Rightarrow> string option \<Rightarrow> js_error + chunk list" where
  "generateTextStream sdk prompt history imageBase64 mimeType =
     (case sdk (text_request prompt imageBase64 mimeType) of
        NoClient e \<Rightarrow> Inl e
      | Streamed cs \<Rightarrow> Inr cs
      | Broken cs \<Rightarrow> Inr (cs @ [uplink_fallback]))"

section \<open>The key picker and the error handler\<close>

record ai_env =
  aistudio :: bool
  key_selected :: bool
  key_dialogs :: nat

definition openSelectKey :: "ai_env \<Rightarrow> ai_env" where
  "openSelectKey env = env\<lparr>key_dialogs := Suc (key_dialogs env)\<rparr>"

definition not_found_text :: string where
  "not_found_text = ''Requested entity was not found''"

text \<open>The \<open>catch\<close> of \<open>generateImage\<close> and \<open>generateVideo\<close>: open the key picker
  on a not-found error, then rethrow.\<close>

definition catch_not_found :: "js_error \<Rightarrow> ai_env \<Rightarrow> ai_env" where
  "catch_not_found err env =
     (if js_includes (js_message err) not_found_text \<and> aistudio env then openSelectKey env else env)"

section \<open>Image generation\<close>

record image_request =
  ireq_model :: string
  ireq_prompt :: string
  ireq_aspect :: string
  ireq_size :: string

text \<open>A response part is \<open>Some data\<close> when it carries \<open>inlineData\<close>; a candidate
  is \<open>Some parts\<close>, or \<open>None\<close> when its \<open>content.parts\<close> is missing (the loop then
  throws a \<open>TypeError\<close>).  An absent \<open>candidates\<close> field is the empty list.\<close>

type_synonym part = "string option"
type_synonym candidate = "part list option"
type_synonym image_sdk = "image_request \<Rightarrow> js_error + candidate list"

fun first_inline :: "part list \<Rightarrow> string option" where
  "first_inline [] = None"
| "first_inline (p # ps) = (case p of Some d \<Rightarrow> Some d | None \<Rightarrow> first_inline ps)"

definition image_url :: "candidate list \<Rightarrow> js_error + string" where
  "image_url cands =
     (case cands of
        [] \<Rightarrow> Inl (Error ''Synthesis failed: No candidates returned.'')
      | c # _ \<Rightarrow> (case c of
          None \<Rightarrow> Inl (TypeError ''candidate.content.parts is not iterable'')
        | Some parts \<Rightarrow> (case first_inline parts of
            Some d \<Rightarrow> Inr (''data:image/png;base64,'' @ d)
          | None \<Rightarrow> Inl (Error ''Visual buffer empty.''))))"

definition image_request :: "string \<Rightarrow> string \<Rightarrow> bool \<Rightarrow> image_request" where
  "image_request prompt aspectRatio highQuality =
     \<lparr>ireq_model = (if highQuality then ''gemini-3-pro-image-preview'' else ''gemini-2.5-flash-image''),
      ireq_prompt = prompt, ireq_aspect = aspectRatio,
      ireq_size = (if highQuality then ''2K'' else ''1K'')\<rparr>"

definition generateImage ::
  "image_sdk \<Rightarrow> string \<Rightarrow> string \<Rightarrow> bool \<Rightarrow> ai_env \<Rightarrow> (js_error + string) \<times> ai_env" where
  "generateImage sdk prompt aspectRatio highQuality env =
     (let env1 = (if highQuality \<and> aistudio env \<and> \<not> key_selected env then openSelectKey env else env)
      in case js_bind (sdk (image_request prompt aspectRatio highQuality)) image_url of
           Inl e \<Rightarrow> (Inl e, catch_not_found e env1)
         | Inr url \<Rightarrow> (Inr url, env1))"

section \<open>Video generation\<close>

text \<open>A long-running operation: its \<open>done\<close> flag and
  \<open>response?.generatedVideos?.[0]?.video?.uri\<close>.\<close>

record video_op =
  op_done :: bool
  op_video_uri :: "string option"

record video_request =
  vreq_model :: string
  vreq_prompt :: string
  vreq_number :: nat
  vreq_resolution :: string
  vreq_aspect :: string

text \<open>The vendor and the network: the job submission, the \<open>n\<close>-th status poll,
  the fetch of the download URL (its \<open>ok\<close> flag, or a network error), the URL
  \<open>URL.createObjectURL\<close> returns, and \<open>process.env.API_KEY\<close>.\<close>

record video_sdk =
  generateVideos :: "video_request \<Rightarrow> js_error + video_op"
  getVideosOperation :: "nat \<Rightarrow> video_op \<Rightarrow> js_error + video_op"
  fetch_ok :: "string \<Rightarrow> js_error + bool"
  object_url :: string
  api_key :: "string option"

text \<open>The polling loop: \<open>attempts\<close> is incremented before each poll and the loop
  throws once it exceeds 200, so at most 200 polls are made (8 s apart).  The
  result carries the final operation and the number of attempts.\<close>

function poll_loop ::
  "(nat \<Rightarrow> video_op \<Rightarrow> js_error + video_op) \<Rightarrow> nat \<Rightarrow> video_op \<Rightarrow> js_error + video_op \<times> nat" where
  "poll_loop poll attempts operation =
     (if op_done operation then Inr (operation, attempts)
      else if 200 < Suc attempts then Inl (Error ''Cinematic rendering timeout.'')
      else (case poll (Suc attempts) operation of
              Inl e \<Rightarrow> Inl e
            | Inr operation' \<Rightarrow> poll_loop poll (Suc attempts) operation'))"
  by pat_completeness auto
termination
  by (relation "measure (\<lambda>(poll, attempts, operation). 201 - attempts)") auto

declare poll_loop.simps [simp del]

definition video_link :: "video_op \<Rightarrow> js_error + string" where
  "video_link operation =
     (case op_video_uri operation of
        Some l \<Rightarrow> if l = [] then Inl (Error ''Video manifest not found.'') else Inr l
      | None \<Rightarrow> Inl (Error ''Video manifest not found.''))"

text \<open>The template literal \<open>`${downloadLink}&key=${process.env.API_KEY}`\<close>.\<close>

definition download_url :: "string \<Rightarrow> string option \<Rightarrow> string" where
  "download_url link key = link @ ''&key='' @ (case key of Some k \<Rightarrow> k | None \<Rightarrow> ''undefined'')"

definition video_request :: "string \<Rightarrow> string \<Rightarrow> string \<Rightarrow> video_request" where
  "video_request prompt aspectRatio resolution =
     \<lparr>vreq_model = (if resolution = ''720p'' then ''veo-3.1-fast-generate-preview'' else ''veo-3.1-generate-preview''),
      vreq_prompt = prompt, vreq_number = 1, vreq_resolution = resolution, vreq_aspect = aspectRatio\<rparr>"

definition video_result :: "video_sdk \<Rightarrow> string \<Rightarrow> string \<Rightarrow> string \<Rightarrow> js_error + string" where
  "video_result sdk prompt aspectRatio resolution =
     js_bind (generateVideos sdk (video_request prompt aspectRatio resolution)) (\<lambda>operation.
     js_bind (poll_loop (getVideosOperation sdk) 0 operation) (\<lambda>(operation', attempts).
     js_bind (video_link operation') (\<lambda>link.
     js_bind (fetch_ok sdk (download_url link (api_key sdk))) (\<lambda>ok.
       if ok then Inr (object_url sdk) else Inl (Error ''Asset retrieval failure.'')))))"

definition generateVideo ::
  "video_sdk \<Rightarrow> string \<Rightarrow> string \<Rightarrow> string \<Rightarrow> ai_env \<Rightarrow> (js_error + string) \<times> ai_env" where
  "generateVideo sdk prompt aspectRatio resolution env =
     (let env1 = (if aistudio env \<and> \<not> key_selected env then openSelectKey env else env)
      in case video_result sdk prompt aspectRatio resolution of
           Inl e \<Rightarrow> (Inl e, catch_not_found e env1)
         | Inr url \<Rightarrow> (Inr url, env1))"

section \<open>Example vendor answers\<close>

text \<open>Concrete answers used to exercise the theorems: a job that is done from the
  third poll on, a job that never finishes, and a vendor whose first candidate
  carries a text part and then an image part.\<close>

definition demo_ops :: "nat \<Rightarrow> video_op" where
  "demo_ops n = \<lparr>op_done = (3 \<le> n), op_video_uri = Some ''https://v.example/file?alt=media''\<rparr>"

definition stuck_op :: video_op where
  "stuck_op = \<lparr>op_done = False, op_video_uri = None\<rparr>"

definition demo_video_sdk :: video_sdk where
  "demo_video_sdk =
     \<lparr>generateVideos = (\<lambda>_. Inr (demo_ops 0)), getVideosOperation = (\<lambda>n _. Inr (demo_ops n)),
      fetch_ok = (\<lambda>_. Inr True), object_url = ''blob:https://app.example/1'', api_key = Some ''K''\<rparr>"

definition demo_image_sdk :: image_sdk where
  "demo_image_sdk = (\<lambda>_. Inr [Some [None, Some ''iVBORw0KGgo='']])"

definition demo_env :: ai_env where
  "demo_env = \<lparr>aistudio = True, key_selected = True, key_dialogs = 0\<rparr>"

section \<open>Routing\<close>


lemma ascii_upper_idem [simp]: "ascii_upper (ascii_upper c) = ascii_upper c"
  by (auto simp: ascii_upper_def Let_def)

lemma ascii_upper_comp_idem [simp]: "ascii_upper \<circ> ascii_upper = ascii_upper"
  by (simp add: fun_eq_iff)


section \<open>The poll loop\<close>

lemma poll_loop_unfold:
  "\<not> op_done operation \<Longrightarrow> attempts < 200 \<Longrightarrow>
   poll_loop poll attempts operation =
     (case poll (Suc attempts) operation of Inl e \<Rightarrow> Inl e | Inr operation' \<Rightarrow> poll_loop poll (Suc attempts) operation')"
  by (simp add: poll_loop.simps)

lemma poll_loop_done: "op_done operation \<Longrightarrow> poll_loop poll attempts operation = Inr (operation, attempts)"
  by (simp add: poll_loop.simps)

lemma poll_loop_bounds:
  "poll_loop poll attempts operation = Inr (operation', n) \<Longrightarrow>
   op_done operation' \<and> attempts \<le> n \<and> n \<le> max attempts 200"
proof (induction poll attempts operation rule: poll_loop.induct)
  case (1 poll attempts operation)
  show ?case
  proof (cases "op_done operation")
    case True
    with "1.prems" show ?thesis by (simp add: poll_loop_done)
  next
    case False
    with "1.prems" have lt: "attempts < 200"
      by (cases "200 < Suc attempts") (simp_all add: poll_loop.simps)
    then show ?thesis using "1.prems" "1.IH" False
      by (fastforce simp: poll_loop_unfold split: sum.splits)
  qed
qed

lemma poll_loop_reaches:
  assumes "\<forall>j. a \<le> j \<and> j < k \<longrightarrow> \<not> op_done (ops j)" "op_done (ops k)" "a \<le> k" "k \<le> 200"
  shows "poll_loop (\<lambda>n _. Inr (ops n)) a (ops a) = Inr (ops k, k)"
  using assms
proof (induction "k - a" arbitrary: a)
  case 0
  then show ?case by (simp add: poll_loop_done)
next
  case (Suc d)
  then have "a < k" "\<not> op_done (ops a)" by auto
  moreover have "poll_loop (\<lambda>n _. Inr (ops n)) (Suc a) (ops (Suc a)) = Inr (ops k, k)"
    using Suc by (intro Suc.hyps(1)) auto
  ultimately show ?case using Suc.prems(4) by (simp add: poll_loop_unfold)
qed

lemma poll_loop_times_out:
  assumes "\<forall>j. a \<le> j \<and> j \<le> 200 \<longrightarrow> \<not> op_done (ops j)" "a \<le> 200"
  shows "poll_loop (\<lambda>n _. Inr (ops n)) a (ops a) = Inl (Error ''Cinematic rendering timeout.'')"
  using assms
proof (induction "200 - a" arbitrary: a)
  case 0
  then have "a = 200" "\<not> op_done (ops a)" by auto
  then show ?case by (simp add: poll_loop.simps)
next
  case (Suc d)
  then have "a < 200" "\<not> op_done (ops a)" by auto
  moreover have "poll_loop (\<lambda>n _. Inr (ops n)) (Suc a) (ops (Suc a)) = Inl (Error ''Cinematic rendering timeout.'')"
    using Suc by (intro Suc.hyps(1)) auto
  ultimately show ?case by (simp add: poll_loop_unfold)
qed

text \<open>C6. The video poll loop always ends (it is a terminating function of the
  vendor's answers), and when it returns an operation, that operation is done
  and at most 200 polls were made.\<close>

theorem poll_loop_bounded:
  "poll_loop poll 0 operation = Inr (operation', n) \<Longrightarrow> op_done operation' \<and> n \<le> 200"
  using poll_loop_bounds by fastforce

theorem poll_loop_bounded_witness:
  "poll_loop (\<lambda>n _. Inr (demo_ops n)) 0 (demo_ops 0) = Inr (demo_ops 3, 3) \<and> op_done (demo_ops 3)"
proof -
  have r: "poll_loop (\<lambda>n _. Inr (demo_ops n)) 0 (demo_ops 0) = Inr (demo_ops 3, 3)" by code_simp
  show ?thesis using r poll_loop_bounded [OF r] by simp
qed

text \<open>C7. A job that is done after its \<open>k\<close>-th poll, for \<open>k \<le> 200\<close>, is returned
  by the loop after exactly \<open>k\<close> polls.\<close>

theorem video_poll_completes:
  assumes "\<forall>j < k. \<not> op_done (ops j)" "op_done (ops k)" "k \<le> 200"
  shows "poll_loop (\<lambda>n _. Inr (ops n)) 0 (ops 0) = Inr (ops k, k)"
  using poll_loop_reaches [of 0 k ops] assms by simp

theorem video_poll_completes_witness:
  "poll_loop (\<lambda>n _. Inr (demo_ops n)) 0 (demo_ops 0) = Inr (demo_ops 3, 3)"
  using video_poll_completes [of 3 demo_ops] by (simp add: demo_ops_def)

text \<open>C8. A job that is still running after 200 polls makes the loop throw
  "Cinematic rendering timeout.".\<close>

theorem video_poll_timeout:
  assumes "\<forall>j \<le> 200. \<not> op_done (ops j)"
  shows "poll_loop (\<lambda>n _. Inr (ops n)) 0 (ops 0) = Inl (Error ''Cinematic rendering timeout.'')"
  using poll_loop_times_out [of 0 ops] assms by simp

theorem video_poll_timeout_witness:
  "poll_loop (\<lambda>n _. Inr stuck_op) 0 stuck_op = Inl (Error ''Cinematic rendering timeout.'')"
  using video_poll_timeout [of "\<lambda>_. stuck_op"] by (simp add: stuck_op_def)

section \<open>Image extraction\<close>

lemma first_inline_skip: "first_inline (replicate k None @ Some d # rest) = Some d"
  by (induction k) simp_all

lemma first_inline_None: "first_inline parts = None \<longleftrightarrow> (\<forall>p \<in> set parts. p = None)"
  by (induction parts rule: first_inline.induct) (auto split: option.splits)

text \<open>C27. \<open>generateImage\<close> returns the PNG data URL of the first part with inline
  data of the first candidate, whatever parts precede it.\<close>

theorem generateImage_first_inline:
  assumes "sdk (image_request prompt aspectRatio highQuality) = Inr (Some (replicate k None @ Some d # rest) # cs)"
  shows "fst (generateImage sdk prompt aspectRatio highQuality env) = Inr (''data:image/png;base64,'' @ d)"
  using assms by (simp add: generateImage_def image_url_def first_inline_skip Let_def)

theorem generateImage_first_inline_witness:
  "fst (generateImage demo_image_sdk ''a lion'' ''1:1'' False demo_env) = Inr ''data:image/png;base64,iVBORw0KGgo=''"
  using generateImage_first_inline [of demo_image_sdk "''a lion''" "''1:1''" False 1 "''iVBORw0KGgo=''" "[]" "[]" demo_env]
  by (simp add: demo_image_sdk_def)

section \<open>Video results\<close>

lemma video_result_poll:
  assumes "generateVideos sdk (video_request prompt aspectRatio resolution) = Inr operation"
    "poll_loop (getVideosOperation sdk) 0 operation = Inr (operation', n)"
  shows "video_result sdk prompt aspectRatio resolution =
           js_bind (video_link operation') (\<lambda>link.
           js_bind (fetch_ok sdk (download_url link (api_key sdk))) (\<lambda>ok.
             if ok then Inr (object_url sdk) else Inl (Error ''Asset retrieval failure.'')))"
  using assms by (simp add: video_result_def)

text \<open>C9. \<open>generateVideo\<close> delivers: when the job is done after its \<open>k\<close>-th poll
  (\<open>k \<le> 200\<close>) with a download link, and the fetch of the link with the API key
  appended succeeds, the method returns the object URL of the fetched video.\<close>

theorem generateVideo_delivers:
  assumes "generateVideos sdk (video_request prompt aspectRatio resolution) = Inr (ops 0)"
    "getVideosOperation sdk = (\<lambda>n _. Inr (ops n))"
    "\<forall>j < k. \<not> op_done (ops j)" "op_done (ops k)" "k \<le> 200"
    "op_video_uri (ops k) = Some link" "link \<noteq> []"
    "fetch_ok sdk (download_url link (api_key sdk)) = Inr True"
  shows "fst (generateVideo sdk prompt aspectRatio resolution env) = Inr (object_url sdk)"
proof -
  have "poll_loop (getVideosOperation sdk) 0 (ops 0) = Inr (ops k, k)"
    using poll_loop_reaches [of 0 k ops] assms(2-5) by simp
  then have "video_result sdk prompt aspectRatio resolution = Inr (object_url sdk)"
    using assms(1,6-8) by (simp add: video_result_poll video_link_def)
  then show ?thesis by (simp add: generateVideo_def Let_def)
qed

theorem generateVideo_delivers_witness:
  "fst (generateVideo demo_video_sdk ''a drone shot'' ''16:9'' ''720p'' demo_env) = Inr ''blob:https://app.example/1''"
  using generateVideo_delivers [of demo_video_sdk "''a drone shot''" "''16:9''" "''720p''" demo_ops 3
      "''https://v.example/file?alt=media''" demo_env]
  by (simp add: demo_video_sdk_def demo_ops_def)

text \<open>C29. A "Requested entity was not found" error from the vendor makes both
  generation methods open the AI Studio key picker and rethrow the error unchanged.\<close>

theorem not_found_reopens_key:
  assumes "js_includes (js_message e) not_found_text" "aistudio env" "key_selected env"
    "isdk (image_request prompt aspectRatio highQuality) = Inl e"
    "generateVideos vsdk (video_request prompt aspectRatio resolution) = Inl e"
  shows "generateImage isdk prompt aspectRatio highQuality env = (Inl e, openSelectKey env) \<and>
         generateVideo vsdk prompt aspectRatio resolution env = (Inl e, openSelectKey env)"
  using assms by (simp add: generateImage_def generateVideo_def video_result_def catch_not_found_def Let_def)

theorem not_found_reopens_key_witness:
  "generateImage (\<lambda>_. Inl (Error ''Requested entity was not found.'')) ''x'' ''1:1'' True demo_env =
     (Inl (Error ''Requested entity was not found.''), openSelectKey demo_env)"
proof -
  let ?e = "Error ''Requested entity was not found.''"
  have i: "js_includes (js_message ?e) not_found_text" by (simp add: not_found_text_def)
  show ?thesis
    using not_found_reopens_key [OF i, of demo_env "\<lambda>_. Inl ?e" "''x''" "''1:1''" True "demo_video_sdk\<lparr>generateVideos := \<lambda>_. Inl ?e\<rparr>" "''720p''"]
    by (simp add: demo_env_def)
qed

text \<open>C28. \<open>generateImage\<close> throws "Synthesis failed: No candidates returned." when the
  vendor returns no candidate, and "Visual buffer empty." when the first candidate
  has no inline-data part.\<close>

theorem generateImage_empty:
  assumes "sdk (image_request prompt aspectRatio highQuality) = Inr cands"
  shows "(cands = [] \<longrightarrow> fst (generateImage sdk prompt aspectRatio highQuality env) =
            Inl (Error ''Synthesis failed: No candidates returned.'')) \<and>
         (\<forall>parts rest. cands = Some parts # rest \<and> (\<forall>p \<in> set parts. p = None) \<longrightarrow>
            fst (generateImage sdk prompt aspectRatio highQuality env) = Inl (Error ''Visual buffer empty.''))"
proof -
  have "\<forall>p \<in> set parts. p = None \<Longrightarrow> first_inline parts = None" for parts :: "part list"
    by (simp add: first_inline_None)
  then show ?thesis using assms by (auto simp: generateImage_def image_url_def Let_def)
qed

theorem generateImage_empty_witness:
  "fst (generateImage (\<lambda>_. Inr []) ''x'' ''1:1'' False demo_env) = Inl (Error ''Synthesis failed: No candidates returned.'') \<and>
   fst (generateImage (\<lambda>_. Inr [Some [None]]) ''x'' ''1:1'' False demo_env) = Inl (Error ''Visual buffer empty.'')"
  using generateImage_empty [of "\<lambda>_. Inr []" "''x''" "''1:1''" False "[]" demo_env]
        generateImage_empty [of "\<lambda>_. Inr [Some [None]]" "''x''" "''1:1''" False "[Some [None]]" demo_env]
  by simp

end
