(* ===== verification/ChatView.thy ===== *)
theory ChatView
  imports GeminiService Base64
begin

text \<open>
  The chat view of \<open>src/ChatView.tsx\<close>: the message list (\<open>Message\<close> of
  \<open>src/types.ts\<close> as the record \<open>message\<close>), the component state as
  \<open>chat_state\<close>, the handlers \<open>handleFileChange\<close> (its \<open>onloadend\<close>), the input
  and image controls, \<open>handleSend\<close> with the consumption of the service's stream
  (\<open>consume\<close>), and the search filter \<open>filteredMessages\<close>.  The events of the view
  (\<open>chat_step\<close>) refine an abstract conversation (\<open>abs_chat_step\<close>) under the
  abstraction \<open>chat_abs_of\<close> as long as send times strictly increase.

  \<open>handleSend\<close> is modelled as one step from the click to the \<open>finally\<close>: while
  it streams, \<open>loading\<close> is true, so a second send is refused by the guard, and
  the other controls (typing, choosing a file) do not touch \<open>messages\<close>; the
  streamed updates are functional \<open>setMessages(prev => ...)\<close> updates and apply
  in order.  \<open>Date.now()\<close> and \<open>new Date()\<close> are the parameter \<open>now\<close>.
\<close>

section \<open>State\<close>

datatype role = User | Model

text \<open>A message; \<open>metadata\<close> is spread over the optional fields \<open>msg_image\<close>
  (\<open>metadata.image\<close>), \<open>msg_id\<close> (\<open>metadata.id\<close>) and \<open>msg_sources\<close>
  (\<open>metadata.sources\<close>), all absent when \<open>metadata\<close> is undefined.\<close>

record message =
  msg_role :: role
  content :: string
  timestamp :: nat
  msg_image :: "string option"
  msg_id :: "nat option"
  msg_sources :: "grounding list option"

record chat_state =
  messages :: "message list"
  input :: string
  chat_loading :: bool
  selectedImage :: "(string \<times> string) option"

definition welcome_text :: string where
  "welcome_text = ''System Online. I am Giga AI, the premium intelligence engine. How can I assist your workflow today?''"

definition chat_init :: "nat \<Rightarrow> chat_state" where
  "chat_init now =
     \<lparr>messages = [\<lparr>msg_role = Model, content = welcome_text, timestamp = now, msg_image = None,
                   msg_id = None, msg_sources = None\<rparr>],
      input = [], chat_loading = False, selectedImage = None\<rparr>"

section \<open>Input controls\<close>

text \<open>\<open>FileReader.readAsDataURL\<close> (File API): \<open>data:\<close>, the file's type, \<open>;base64,\<close>
  and the base64 of its bytes; browsers write \<open>application/octet-stream\<close> for a
  file without a type.\<close>

definition data_url :: "string \<Rightarrow> byte list \<Rightarrow> string" where
  "data_url mime bytes = ''data:'' @ js_or mime ''application/octet-stream'' @ '';base64,'' @ btoa (map char_of_byte bytes)"

definition handleFileChange :: "string \<Rightarrow> byte list \<Rightarrow> chat_state \<Rightarrow> chat_state" where
  "handleFileChange mime bytes s = s\<lparr>selectedImage := Some (data_url mime bytes, mime)\<rparr>"

definition setInput :: "string \<Rightarrow> chat_state \<Rightarrow> chat_state" where
  "setInput v s = s\<lparr>input := v\<rparr>"

definition clearImage :: "chat_state \<Rightarrow> chat_state" where
  "clearImage s = s\<lparr>selectedImage := None\<rparr>"

section \<open>Sending\<close>

definition send_blocked :: "chat_state \<Rightarrow> bool" where
  "send_blocked s \<longleftrightarrow> (js_trim (input s) = [] \<and> selectedImage s = None) \<or> chat_loading s"

definition user_message :: "nat \<Rightarrow> chat_state \<Rightarrow> message" where
  "user_message now s =
     \<lparr>msg_role = User, content = input s, timestamp = now, msg_image = map_option fst (selectedImage s),
      msg_id = None, msg_sources = None\<rparr>"

definition model_placeholder :: "nat \<Rightarrow> message" where
  "model_placeholder now =
     \<lparr>msg_role = Model, content = [], timestamp = now, msg_image = None, msg_id = Some now, msg_sources = Some []\<rparr>"

definition send_begin :: "nat \<Rightarrow> chat_state \<Rightarrow> chat_state" where
  "send_begin now s =
     s\<lparr>messages := messages s @ [user_message now s, model_placeholder now], input := [],
       selectedImage := None, chat_loading := True\<rparr>"

text \<open>\<open>setMessages(prev => prev.map(msg => msg.metadata?.id === modelMessageId ? ... : msg))\<close>.\<close>

definition fill :: "nat \<Rightarrow> string \<Rightarrow> grounding list \<Rightarrow> message \<Rightarrow> message" where
  "fill i txt gs m = (if msg_id m = Some i then m\<lparr>content := txt, msg_sources := Some gs\<rparr> else m)"

definition grounding_of :: "chunk \<Rightarrow> grounding list" where
  "grounding_of c = (case chunk_grounding c of None \<Rightarrow> [] | Some g \<Rightarrow> g)"

definition text_of :: "chunk \<Rightarrow> string" where
  "text_of c = js_or_opt (chunk_text c) []"

text \<open>The \<open>for await\<close> loop: \<open>fullContent\<close> and \<open>groundingChunks\<close> grow by each
  chunk, and the model message is rewritten after each.\<close>

fun consume :: "nat \<Rightarrow> string \<Rightarrow> grounding list \<Rightarrow> chunk list \<Rightarrow> chat_state \<Rightarrow> chat_state" where
  "consume i full gs [] s = s"
| "consume i full gs (c # cs) s =
     (let full' = full @ text_of c; gs' = gs @ grounding_of c
      in consume i full' gs' cs (s\<lparr>messages := map (fill i full' gs') (messages s)\<rparr>))"

definition lag_text :: string where
  "lag_text = ''Neural lag detected. Re-processing required.''"

definition handleSend :: "text_sdk \<Rightarrow> nat \<Rightarrow> chat_state \<Rightarrow> chat_state" where
  "handleSend sdk now s =
     (if send_blocked s then s
      else
        let s1 = send_begin now s;
            stream = generateTextStream sdk (js_or (input s) ''Analyze visual data'') (messages s)
                       (map_option fst (selectedImage s)) (map_option snd (selectedImage s));
            s2 = (case stream of
                    Inr cs \<Rightarrow> consume now [] [] cs s1
                  | Inl e \<Rightarrow> s1\<lparr>messages := map (\<lambda>m. if msg_id m = Some now then m\<lparr>content := lag_text\<rparr> else m)
                                                 (messages s1)\<rparr>)
        in s2\<lparr>chat_loading := False\<rparr>)"

section \<open>Search\<close>

definition filteredMessages :: "string \<Rightarrow> message list \<Rightarrow> message list" where
  "filteredMessages searchQuery ms =
     (if js_trim searchQuery \<noteq> [] then filter (\<lambda>m. js_includes (map js_lower (content m)) (map js_lower searchQuery)) ms
      else ms)"

section \<open>Rendering\<close>

text \<open>\<open>renderContent\<close>: each line of the message, split at \<open>\n\<close>, goes through
  the bold and the list-item replacement and is inserted with
  \<open>dangerouslySetInnerHTML\<close>.  The HTML is a list of UTF-16 code units, as the
  list-item literal \<open>'\<^emph>\<open>\<dots>\<close> $1'\<close> of the source holds the characters
  U+00E2 U+20AC U+00A2 (the UTF-8 bytes of a bullet read as Windows-1252).
  The pattern's \<open>.\<close> matches no line terminator (\<open>\n\<close>, \<open>\r\<close>).\<close>

definition line_terminator :: "char \<Rightarrow> bool" where
  "line_terminator c \<longleftrightarrow> c = CHR 0x0A \<or> c = CHR 0x0D"

text \<open>The lazy group \<open>(.*?)\<close> followed by \<open>**\<close>: the shortest run of characters
  other than line terminators up to the next \<open>**\<close>, and what follows it.\<close>

fun find_close :: "string \<Rightarrow> (string \<times> string) option" where
  "find_close [] = None"
| "find_close (c # rest) =
     (if c = CHR ''*'' \<and> rest \<noteq> [] \<and> hd rest = CHR ''*'' then Some ([], tl rest)
      else if line_terminator c then None
      else map_option (\<lambda>(a, b). (c # a, b)) (find_close rest))"

text \<open>\<open>.replace(/\*\*(.*?)\*\*/g, '<strong>$1</strong>')\<close>: at each position a
  match is tried; after a match the scan resumes behind it, otherwise the
  character is kept and the scan moves on by one.\<close>

function bold :: "string \<Rightarrow> string" where
  "bold [] = []"
| "bold (c # rest) =
     (if c = CHR ''*'' \<and> rest \<noteq> [] \<and> hd rest = CHR ''*''
      then (case find_close (tl rest) of
              Some (inner, rest') \<Rightarrow> ''<strong>'' @ inner @ ''</strong>'' @ bold rest'
            | None \<Rightarrow> c # bold rest)
      else c # bold rest)"
  by pat_completeness auto
termination
proof (relation "measure length")
  have shorter: "find_close s = Some (a, b) \<Longrightarrow> length b < length s" for s a b
    by (induction s arbitrary: a) (auto split: if_splits)
  show "wf (measure length)" by simp
  show "\<And>c rest x inner rest'. (c = CHR ''*'' \<and> rest \<noteq> [] \<and> hd rest = CHR ''*'') \<Longrightarrow>
          find_close (tl rest) = Some x \<Longrightarrow> (inner, rest') = x \<Longrightarrow> (rest', c # rest) \<in> measure length"
    using shorter by (fastforce simp: length_tl)
  show "\<And>c rest. (rest, c # rest) \<in> measure length" by simp
  show "\<And>c rest. (rest, c # rest) \<in> measure length" by simp
qed

definition bullet :: "nat list" where
  "bullet = [0xE2, 0x20AC, 0xA2, 0x20]"

definition code_units :: "string \<Rightarrow> nat list" where
  "code_units s = map of_char s"

text \<open>\<open>.replace(/^\* (.*)/g, ...)\<close>: only at the start of the line; the greedy
  group puts back what it matched, so the prefix \<open>* \<close> is replaced.\<close>

definition list_item :: "string \<Rightarrow> nat list" where
  "list_item l = (if take 2 l = ''* '' then bullet @ code_units (drop 2 l) else code_units l)"

definition html_line :: "string \<Rightarrow> nat list" where
  "html_line l = list_item (bold l)"

definition renderContent :: "string \<Rightarrow> nat list list" where
  "renderContent text = map html_line (js_split CHR 0x0A text)"


text \<open>A message bubble as the list renders it: the side (user or model), the
  attached image, the body (the formatted content, the "Synthesizing response..."
  indicator for an empty model message at index \<open>messages.length - 1\<close> while
  loading, or nothing), and the "Verified Sources" block (shown when the
  sources list is non-empty) with one link per source that has a \<open>web\<close> entry.\<close>

datatype bubble_body = Formatted "nat list list" | Synthesizing | NoBody

record bubble =
  b_user :: bool
  b_image :: "string option"
  b_body :: bubble_body
  b_sources :: "(string \<times> string) list option"

definition source_links :: "grounding list \<Rightarrow> (string \<times> string) list" where
  "source_links gs = List.map_filter (map_option (\<lambda>(uri, t). (uri, js_or t ''Source''))) gs"

definition render_bubble :: "bool \<Rightarrow> nat \<Rightarrow> nat \<Rightarrow> message \<Rightarrow> bubble" where
  "render_bubble loading n i m =
     \<lparr>b_user = (msg_role m = User), b_image = msg_image m,
      b_body = (if content m \<noteq> [] then Formatted (renderContent (content m))
                else if msg_role m = Model \<and> loading \<and> i = n - 1 then Synthesizing else NoBody),
      b_sources = (case msg_sources m of Some gs \<Rightarrow> if gs \<noteq> [] then Some (source_links gs) else None | None \<Rightarrow> None)\<rparr>"

definition chat_view :: "string \<Rightarrow> chat_state \<Rightarrow> bubble list" where
  "chat_view searchQuery s =
     map (\<lambda>(i, m). render_bubble (chat_loading s) (length (messages s)) i m) (enumerate 0 (filteredMessages searchQuery (messages s)))"

text \<open>The input row: the preview of the attached image, the text field (disabled,
  with its own placeholder, while loading) and the send button, disabled when
  the input is blank without an image or while loading.\<close>

record chat_input =
  ci_preview :: "string option"
  ci_input_disabled :: bool
  ci_placeholder :: string
  ci_send_disabled :: bool

definition chat_input_view :: "chat_state \<Rightarrow> chat_input" where
  "chat_input_view s =
     \<lparr>ci_preview = map_option fst (selectedImage s), ci_input_disabled = chat_loading s,
      ci_placeholder = (if chat_loading s then ''Generating response...'' else ''Initialize command...''),
      ci_send_disabled = ((js_trim (input s) = [] \<and> selectedImage s = None) \<or> chat_loading s)\<rparr>"

section \<open>Example answers\<close>

definition reply_sdk :: "string \<Rightarrow> text_sdk" where
  "reply_sdk txt = (\<lambda>_. Streamed [\<lparr>chunk_text = Some txt, chunk_grounding = None\<rparr>])"

definition hello_state :: chat_state where
  "hello_state = setInput ''hi'' (chat_init 1)"

definition injection_sdk :: text_sdk where
  "injection_sdk = reply_sdk ''<img src=x onerror=alert(1)>''"

definition broken_sdk :: text_sdk where
  "broken_sdk = (\<lambda>_. Broken [\<lparr>chunk_text = Some ''Hel'', chunk_grounding = None\<rparr>,
                             \<lparr>chunk_text = Some ''lo'', chunk_grounding = Some [Some (''https://a.example'', ''A'')]\<rparr>])"

section \<open>The conversation the view implements\<close>

text \<open>The events of the view that change its state (\<open>Send\<close> carries the service
  and the time of the click), the abstract conversation with its step, the
  reply an outcome of the service determines, and the abstraction of a view state.\<close>

datatype chat_event = Type string | Attach string "byte list" | Unattach | Send text_sdk nat

fun chat_step :: "chat_state \<Rightarrow> chat_event \<Rightarrow> chat_state" where
  "chat_step s (Type v) = setInput v s"
| "chat_step s (Attach mime bytes) = handleFileChange mime bytes s"
| "chat_step s Unattach = clearImage s"
| "chat_step s (Send sdk now) = handleSend sdk now s"

fun send_times :: "chat_event list \<Rightarrow> nat list" where
  "send_times [] = []"
| "send_times (Send sdk now # es) = now # send_times es"
| "send_times (_ # es) = send_times es"

record chat_abs =
  conversation :: "(role \<times> string) list"
  draft :: string
  attachment :: "(string \<times> string) option"

definition reply_of :: "stream_outcome \<Rightarrow> string" where
  "reply_of r = (case r of NoClient e \<Rightarrow> lag_text | Streamed cs \<Rightarrow> concat (map text_of cs)
                 | Broken cs \<Rightarrow> concat (map text_of cs) @ ''Neural uplink interrupted. Re-syncing systems...'')"

fun abs_chat_step :: "chat_abs \<Rightarrow> chat_event \<Rightarrow> chat_abs" where
  "abs_chat_step a (Type v) = a\<lparr>draft := v\<rparr>"
| "abs_chat_step a (Attach mime bytes) = a\<lparr>attachment := Some (data_url mime bytes, mime)\<rparr>"
| "abs_chat_step a Unattach = a\<lparr>attachment := None\<rparr>"
| "abs_chat_step a (Send sdk now) =
     (if js_trim (draft a) = [] \<and> attachment a = None then a
      else a\<lparr>conversation := conversation a @
               [(User, draft a),
                (Model, reply_of (sdk (text_request (js_or (draft a) ''Analyze visual data'')
                                        (map_option fst (attachment a)) (map_option snd (attachment a)))))],
             draft := [], attachment := None\<rparr>)"

definition chat_abs_of :: "chat_state \<Rightarrow> chat_abs" where
  "chat_abs_of s = \<lparr>conversation = map (\<lambda>m. (msg_role m, content m)) (messages s), draft = input s,
                     attachment = selectedImage s\<rparr>"

definition ids_below :: "nat \<Rightarrow> chat_state \<Rightarrow> bool" where
  "ids_below t s \<longleftrightarrow> (\<forall>m \<in> set (messages s). \<forall>i. msg_id m = Some i \<longrightarrow> i < t)"

definition demo_chat :: "chat_event list" where
  "demo_chat = [Type ''hi'', Send (reply_sdk ''Hello'') 5, Send broken_sdk 6, Type ''again'', Send broken_sdk 7]"

section \<open>Streaming\<close>

lemma msg_id_fill [simp]: "msg_id (fill i txt gs m) = msg_id m"
  by (simp add: fill_def)

lemma fill_fill [simp]: "fill i a b (fill i c d m) = fill i a b m"
  by (simp add: fill_def)

lemma fill_other [simp]: "msg_id m \<noteq> Some i \<Longrightarrow> fill i txt gs m = m"
  by (simp add: fill_def)

lemma map_fill_fresh: "\<forall>m \<in> set ms. msg_id m \<noteq> Some i \<Longrightarrow> map (fill i txt gs) ms = ms"
  by (induction ms) auto

lemma consume_messages:
  "cs \<noteq> [] \<Longrightarrow> messages (consume i full gs cs s) =
     map (fill i (full @ concat (map text_of cs)) (gs @ concat (map grounding_of cs))) (messages s)"
proof (induction cs arbitrary: full gs s)
  case Nil
  then show ?case by simp
next
  case (Cons c cs)
  show ?case
  proof (cases "cs = []")
    case True
    then show ?thesis by (simp add: Let_def)
  next
    case False
    then show ?thesis by (simp add: Cons.IH Let_def comp_def)
  qed
qed

lemma consume_other [simp]: "chat_loading (consume i full gs cs s) = chat_loading s"
  by (induction cs arbitrary: full gs s) (simp_all add: Let_def)

lemma fill_placeholder: "fill now txt gs (model_placeholder now) = (model_placeholder now)\<lparr>content := txt, msg_sources := Some gs\<rparr>"
  by (simp add: fill_def model_placeholder_def)

lemma send_begin_messages:
  "\<forall>m \<in> set (messages s). msg_id m \<noteq> Some now \<Longrightarrow>
   map (fill now txt gs) (messages (send_begin now s)) =
     messages s @ [user_message now s, (model_placeholder now)\<lparr>content := txt, msg_sources := Some gs\<rparr>]"
  by (simp add: send_begin_def map_fill_fresh fill_placeholder) (simp add: fill_def user_message_def)

lemma handleSend_messages:
  assumes "\<not> send_blocked s" "\<forall>m \<in> set (messages s). msg_id m \<noteq> Some now"
    "generateTextStream sdk (js_or (input s) ''Analyze visual data'') (messages s)
       (map_option fst (selectedImage s)) (map_option snd (selectedImage s)) = Inr cs"
  shows "messages (handleSend sdk now s) =
           messages s @ [user_message now s,
             (model_placeholder now)\<lparr>content := concat (map text_of cs), msg_sources := Some (concat (map grounding_of cs))\<rparr>]
         \<and> \<not> chat_loading (handleSend sdk now s)"
proof (cases "cs = []")
  case True
  then show ?thesis using assms
    by (simp add: handleSend_def Let_def send_begin_def model_placeholder_def)
next
  case False
  then show ?thesis using assms
    by (simp add: handleSend_def Let_def consume_messages send_begin_messages)
qed

text \<open>C10. Streaming a reply: a send that passes the guard appends the user's
  message and one model message, and when the service streams chunks the model
  message ends holding the concatenation of their texts and of their grounding
  sources; loading is off afterwards.\<close>

theorem handleSend_streams:
  assumes "\<not> send_blocked s" "\<forall>m \<in> set (messages s). msg_id m \<noteq> Some now"
    "sdk (text_request (js_or (input s) ''Analyze visual data'') (map_option fst (selectedImage s))
            (map_option snd (selectedImage s))) = Streamed cs"
  shows "messages (handleSend sdk now s) =
           messages s @ [user_message now s,
             (model_placeholder now)\<lparr>content := concat (map text_of cs), msg_sources := Some (concat (map grounding_of cs))\<rparr>]
         \<and> \<not> chat_loading (handleSend sdk now s)"
proof -
  have "generateTextStream sdk (js_or (input s) ''Analyze visual data'') (messages s)
       (map_option fst (selectedImage s)) (map_option snd (selectedImage s)) = Inr cs"
    using assms(3) by (simp add: generateTextStream_def)
  from handleSend_messages [OF assms(1,2) this] show ?thesis .
qed

theorem handleSend_streams_witness:
  "messages (handleSend (reply_sdk ''Hello'') 5 hello_state) =
     messages hello_state @ [user_message 5 hello_state, (model_placeholder 5)\<lparr>content := ''Hello'', msg_sources := Some []\<rparr>]"
proof -
  have a: "\<not> send_blocked hello_state" by code_simp
  have b: "\<forall>m \<in> set (messages hello_state). msg_id m \<noteq> Some 5" by code_simp
  have c: "reply_sdk ''Hello'' (text_request (js_or (input hello_state) ''Analyze visual data'') (map_option fst (selectedImage hello_state))
            (map_option snd (selectedImage hello_state))) = Streamed [\<lparr>chunk_text = Some ''Hello'', chunk_grounding = None\<rparr>]"
    by (simp add: reply_sdk_def)
  from handleSend_streams [of hello_state 5 "reply_sdk ''Hello''", OF a b c] show ?thesis by (simp add: text_of_def grounding_of_def js_or_opt_def js_or_def)
qed

lemma handleSend_request:
  "generateTextStream sdk (js_or (input s) ''Analyze visual data'') (messages s)
       (map_option fst (selectedImage s)) (map_option snd (selectedImage s)) =
   (case sdk (text_request (js_or (input s) ''Analyze visual data'') (map_option fst (selectedImage s))
                (map_option snd (selectedImage s))) of
      NoClient e \<Rightarrow> Inl e | Streamed cs \<Rightarrow> Inr cs | Broken cs \<Rightarrow> Inr (cs @ [uplink_fallback]))"
  by (simp add: generateTextStream_def)

lemma handleSend_lag:
  assumes "\<not> send_blocked s" "\<forall>m \<in> set (messages s). msg_id m \<noteq> Some now"
    "generateTextStream sdk (js_or (input s) ''Analyze visual data'') (messages s)
       (map_option fst (selectedImage s)) (map_option snd (selectedImage s)) = Inl e"
  shows "messages (handleSend sdk now s) =
           messages s @ [user_message now s, (model_placeholder now)\<lparr>content := lag_text\<rparr>]"
proof -
  have "map (\<lambda>m. if msg_id m = Some now then m\<lparr>content := lag_text\<rparr> else m) (messages s) = messages s"
    using assms(2) by (intro map_idI) auto
  then show ?thesis using assms
    by (simp add: handleSend_def Let_def send_begin_def user_message_def model_placeholder_def)
qed

text \<open>C11. Messages are only appended: when the send time is not already the id of
  a message, every message before a send is still there, unchanged and in order,
  after it.\<close>

theorem handleSend_appends:
  assumes "\<forall>m \<in> set (messages s). msg_id m \<noteq> Some now"
  shows "prefix (messages s) (messages (handleSend sdk now s))"
proof (cases "send_blocked s")
  case True
  then show ?thesis by (simp add: handleSend_def)
next
  case False
  show ?thesis
  proof (cases "generateTextStream sdk (js_or (input s) ''Analyze visual data'') (messages s)
       (map_option fst (selectedImage s)) (map_option snd (selectedImage s))")
    case (Inl e)
    from handleSend_lag [OF False assms this] show ?thesis by simp
  next
    case (Inr cs)
    from handleSend_messages [OF False assms this] show ?thesis by simp
  qed
qed

theorem handleSend_appends_witness:
  "prefix (messages hello_state) (messages (handleSend broken_sdk 5 hello_state))"
proof -
  have b: "\<forall>m \<in> set (messages hello_state). msg_id m \<noteq> Some 5" by code_simp
  from handleSend_appends [OF b] show ?thesis .
qed

section \<open>Refinement of the conversation\<close>

lemma consume_input [simp]: "input (consume i full gs cs s) = input s"
  by (induction cs arbitrary: full gs s) (simp_all add: Let_def)

lemma consume_selectedImage [simp]: "selectedImage (consume i full gs cs s) = selectedImage s"
  by (induction cs arbitrary: full gs s) (simp_all add: Let_def)

lemma handleSend_fields:
  assumes "\<not> send_blocked s"
  shows "input (handleSend sdk now s) = [] \<and> selectedImage (handleSend sdk now s) = None \<and> \<not> chat_loading (handleSend sdk now s)"
  using assms by (simp add: handleSend_def Let_def send_begin_def split: sum.split)

lemma handleSend_conversation:
  assumes "\<not> send_blocked s" "\<forall>m \<in> set (messages s). msg_id m \<noteq> Some now"
  shows "map (\<lambda>m. (msg_role m, content m)) (messages (handleSend sdk now s)) =
           map (\<lambda>m. (msg_role m, content m)) (messages s) @
           [(User, input s), (Model, reply_of (sdk (text_request (js_or (input s) ''Analyze visual data'')
                                  (map_option fst (selectedImage s)) (map_option snd (selectedImage s)))))]"
proof (cases "sdk (text_request (js_or (input s) ''Analyze visual data'') (map_option fst (selectedImage s)) (map_option snd (selectedImage s)))")
  case (NoClient e)
  then have "generateTextStream sdk (js_or (input s) ''Analyze visual data'') (messages s)
       (map_option fst (selectedImage s)) (map_option snd (selectedImage s)) = Inl e"
    by (simp add: generateTextStream_def)
  from handleSend_lag [OF assms this] NoClient show ?thesis
    by (simp add: reply_of_def user_message_def model_placeholder_def)
next
  case (Streamed cs)
  then have "generateTextStream sdk (js_or (input s) ''Analyze visual data'') (messages s)
       (map_option fst (selectedImage s)) (map_option snd (selectedImage s)) = Inr cs"
    by (simp add: generateTextStream_def)
  from handleSend_messages [OF assms this] Streamed show ?thesis
    by (simp add: reply_of_def user_message_def model_placeholder_def)
next
  case (Broken cs)
  then have "generateTextStream sdk (js_or (input s) ''Analyze visual data'') (messages s)
       (map_option fst (selectedImage s)) (map_option snd (selectedImage s)) = Inr (cs @ [uplink_fallback])"
    by (simp add: generateTextStream_def)
  from handleSend_messages [OF assms this] Broken show ?thesis
    by (simp add: reply_of_def user_message_def model_placeholder_def text_of_def uplink_fallback_def js_or_opt_def js_or_def)
qed

lemma consume_ids [simp]: "map msg_id (messages (consume i full gs cs s)) = map msg_id (messages s)"
  by (induction cs arbitrary: full gs s) (simp_all add: Let_def comp_def)

lemma handleSend_ids:
  "map msg_id (messages (handleSend sdk now s)) =
     (if send_blocked s then map msg_id (messages s) else map msg_id (messages s) @ [None, Some now])"
  by (simp add: handleSend_def Let_def send_begin_def user_message_def model_placeholder_def comp_def
           split: sum.split)

lemma ids_below_step:
  assumes "ids_below t s" "\<forall>now \<in> set (send_times [e]). now < t"
  shows "ids_below t (chat_step s e)"
proof (cases e)
  case (Send sdk now)
  have "set (map msg_id (messages (handleSend sdk now s))) \<subseteq> set (map msg_id (messages s)) \<union> {None, Some now}"
    by (auto simp: handleSend_ids)
  then show ?thesis using assms Send by (fastforce simp: ids_below_def)
qed (use assms in \<open>simp_all add: ids_below_def setInput_def handleFileChange_def clearImage_def\<close>)

lemma chat_step_refines:
  assumes "\<not> chat_loading s" "\<forall>now \<in> set (send_times [e]). ids_below now s"
  shows "chat_abs_of (chat_step s e) = abs_chat_step (chat_abs_of s) e \<and> \<not> chat_loading (chat_step s e)"
proof (cases e)
  case (Send sdk now)
  show ?thesis
  proof (cases "send_blocked s")
    case True
    then show ?thesis using assms Send by (simp add: handleSend_def chat_abs_of_def send_blocked_def)
  next
    case False
    have "\<forall>m \<in> set (messages s). msg_id m \<noteq> Some now" using assms(2) Send by (auto simp: ids_below_def)
    from handleSend_conversation [OF False this, of sdk] handleSend_fields [OF False, of sdk now] False assms(1) Send
    show ?thesis by (simp add: chat_abs_of_def send_blocked_def)
  qed
qed (use assms in \<open>simp_all add: chat_abs_of_def setInput_def handleFileChange_def clearImage_def\<close>)

lemma chat_fold_refines:
  assumes "\<not> chat_loading s" "\<forall>now \<in> set (send_times es). ids_below now s" "sorted_wrt (<) (send_times es)"
  shows "chat_abs_of (fold (\<lambda>e s. chat_step s e) es s) = fold (\<lambda>e a. abs_chat_step a e) es (chat_abs_of s)"
  using assms
proof (induction es arbitrary: s)
  case Nil
  then show ?case by simp
next
  case (Cons e es)
  have st: "send_times (e # es) = send_times [e] @ send_times es" by (cases e) simp_all
  have r: "chat_abs_of (chat_step s e) = abs_chat_step (chat_abs_of s) e \<and> \<not> chat_loading (chat_step s e)"
    using Cons.prems st by (intro chat_step_refines) auto
  have "\<forall>now \<in> set (send_times es). ids_below now (chat_step s e)"
  proof
    fix t assume t: "t \<in> set (send_times es)"
    then have "ids_below t s" using Cons.prems(2) st by auto
    moreover have "\<forall>now \<in> set (send_times [e]). now < t" using Cons.prems(3) st t by (auto simp: sorted_wrt_append)
    ultimately show "ids_below t (chat_step s e)" by (rule ids_below_step)
  qed
  moreover have "sorted_wrt (<) (send_times es)" using Cons.prems(3) st by (simp add: sorted_wrt_append)
  ultimately show ?case using Cons.IH r by simp
qed

text \<open>C12. The view implements an abstract conversation: along any run of typing,
  attaching, removing the attachment and sending in which the send times
  (\<open>Date.now()\<close>) strictly increase, the view's messages, read as role and text,
  with its draft and attachment, are those of the specification
  \<open>abs_chat_step\<close>, in which a send that is not blank appends the user's draft
  and the reply the outcome of the service call determines, and clears the draft.
  The placeholder ids, the streaming updates and the loading flag are the
  implementation's detail.\<close>

theorem chat_refines_conversation:
  assumes "sorted_wrt (<) (send_times es)"
  shows "chat_abs_of (fold (\<lambda>e s. chat_step s e) es (chat_init t)) = fold (\<lambda>e a. abs_chat_step a e) es (chat_abs_of (chat_init t))"
  by (rule chat_fold_refines [OF _ _ assms]) (simp_all add: chat_init_def ids_below_def)

theorem chat_refines_conversation_witness:
  "sorted_wrt (<) (send_times demo_chat) \<and>
   conversation (chat_abs_of (fold (\<lambda>e s. chat_step s e) demo_chat (chat_init 1))) =
     [(Model, welcome_text), (User, ''hi''), (Model, ''Hello''),
      (User, ''again''), (Model, ''HelloNeural uplink interrupted. Re-syncing systems...'')]"
proof -
  have a: "sorted_wrt (<) (send_times demo_chat)" by (simp add: demo_chat_def)
  have b: "conversation (fold (\<lambda>e a. abs_chat_step a e) demo_chat (chat_abs_of (chat_init 1))) =
     [(Model, welcome_text), (User, ''hi''), (Model, ''Hello''),
      (User, ''again''), (Model, ''HelloNeural uplink interrupted. Re-syncing systems...'')]"
    by code_simp
  from a b chat_refines_conversation [OF a, of 1] show ?thesis by simp
qed

section \<open>Attachments and search\<close>

lemma b64_char_not_comma: "k < 64 \<Longrightarrow> b64_char k \<noteq> CHR '',''"
  using b64_index_char [of k] by (auto simp: b64_index_def)

lemma comma_not_in_btoa: "CHR '','' \<notin> set (btoa s)"
  using b64_sextets_less b64_char_not_comma by (fastforce simp: btoa_def Let_def)

lemma btoa_nonempty: "s \<noteq> [] \<Longrightarrow> btoa s \<noteq> []"
  by (cases "map byte_of_char s" rule: b64_sextets.cases) (auto simp: btoa_def Let_def)

lemma inline_data_data_url:
  assumes "bytes \<noteq> []" "CHR '','' \<notin> set mime"
  shows "inline_data (data_url mime bytes) = btoa (map char_of_byte bytes)"
proof -
  let ?m = "js_or mime ''application/octet-stream''"
  let ?b = "btoa (map char_of_byte bytes)"
  have m: "CHR '','' \<notin> set ?m" using assms(2) by (simp add: js_or_def)
  have "data_url mime bytes = (''data:'' @ ?m @ '';base64'') @ CHR '','' # ?b"
    by (simp add: data_url_def)
  moreover have "CHR '','' \<notin> set (''data:'' @ ?m @ '';base64'')" using m by simp
  moreover have "?b \<noteq> []" using assms(1) by (simp add: btoa_nonempty)
  ultimately show ?thesis
    by (simp add: inline_data_def js_split_append js_split_no_sep comma_not_in_btoa js_or_def)
qed

text \<open>C30. An attached image reaches the service intact: after \<open>handleFileChange\<close>
  reads a non-empty file whose type has no comma, the request's inline data is
  the base64 of the file, and decoding it gives back the file's bytes.\<close>

theorem chat_image_payload:
  assumes "bytes \<noteq> []" "CHR '','' \<notin> set mime" "mime \<noteq> []"
  shows "\<exists>d. treq_contents (text_request prompt (map_option fst (selectedImage (handleFileChange mime bytes s)))
                 (map_option snd (selectedImage (handleFileChange mime bytes s)))) = InlineParts prompt d mime
             \<and> atob d = Inr (map char_of_byte bytes)"
proof -
  have "data_url mime bytes \<noteq> []" by (simp add: data_url_def)
  then show ?thesis using assms
    by (simp add: handleFileChange_def text_request_def inline_data_data_url atob_btoa js_or_opt_def js_or_def)
qed

theorem chat_image_payload_witness:
  "treq_contents (text_request ''x'' (map_option fst (selectedImage (handleFileChange ''image/png'' [1, 2, 3] (chat_init 0))))
      (map_option snd (selectedImage (handleFileChange ''image/png'' [1, 2, 3] (chat_init 0))))) = InlineParts ''x'' ''AQID'' ''image/png'' \<and>
   atob ''AQID'' = Inr (map char_of_byte [1, 2, 3])"
proof -
  have c: "CHR '','' \<notin> set ''image/png''" by simp
  obtain d where d: "treq_contents (text_request ''x'' (map_option fst (selectedImage (handleFileChange ''image/png'' [1, 2, 3] (chat_init 0))))
      (map_option snd (selectedImage (handleFileChange ''image/png'' [1, 2, 3] (chat_init 0))))) = InlineParts ''x'' d ''image/png''"
      "atob d = Inr (map char_of_byte [1, 2, 3])"
    using chat_image_payload [of "[1, 2, 3]" "''image/png''" "''x''" "chat_init 0", OF _ c] by auto
  have e: "treq_contents (text_request ''x'' (map_option fst (selectedImage (handleFileChange ''image/png'' [1, 2, 3] (chat_init 0))))
      (map_option snd (selectedImage (handleFileChange ''image/png'' [1, 2, 3] (chat_init 0))))) = InlineParts ''x'' ''AQID'' ''image/png''"
    by code_simp
  from d e show ?thesis by simp
qed



section \<open>Rendering\<close>

lemma code_units_append [simp]: "code_units (a @ b) = code_units a @ code_units b"
  by (simp add: code_units_def)

lemma bold_no_star: "CHR ''*'' \<notin> set s \<Longrightarrow> bold s = s"
  by (induction s rule: bold.induct) (auto split: option.splits)

lemma find_close_plain:
  "CHR ''*'' \<notin> set a \<Longrightarrow> \<not> list_ex line_terminator a \<Longrightarrow> find_close (a @ CHR ''*'' # CHR ''*'' # b) = Some (a, b)"
  by (induction a) (auto simp: line_terminator_def)

text \<open>C31. Message text is inserted as HTML unescaped: a line without \<open>*\<close> is
  inserted as exactly its own characters, so markup in a message (the user's
  or the model's) is markup of the page; a \<open>**\<close>-pair on one line becomes a
  \<open>strong\<close> element; and a line \<open>* x\<close> is shown with the characters \<open>\<^emph>\<open>\<dots>\<close>\<close>
  (U+00E2 U+20AC U+00A2) instead of a bullet.\<close>

theorem renderContent_html:
  "(CHR ''*'' \<notin> set l \<longrightarrow> html_line l = code_units l) \<and>
   (CHR ''*'' \<notin> set a \<and> \<not> list_ex line_terminator a \<and> CHR ''*'' \<notin> set b \<longrightarrow>
      html_line (''**'' @ a @ ''**'' @ b) = code_units (''<strong>'' @ a @ ''</strong>'' @ b)) \<and>
   (CHR ''*'' \<notin> set l \<longrightarrow> html_line (''* '' @ l) = [0xE2, 0x20AC, 0xA2, 0x20] @ code_units l)"
proof (intro conjI impI)
  assume l: "CHR ''*'' \<notin> set l"
  have "take 2 l \<noteq> ''* ''"
  proof
    assume "take 2 l = ''* ''"
    then have "CHR ''*'' \<in> set (take 2 l)" by simp
    with l show False by (auto dest: in_set_takeD)
  qed
  with l show "html_line l = code_units l"
    by (simp add: html_line_def bold_no_star list_item_def)
next
  assume ab: "CHR ''*'' \<notin> set a \<and> \<not> list_ex line_terminator a \<and> CHR ''*'' \<notin> set b"
  then have "bold (''**'' @ a @ ''**'' @ b) = ''<strong>'' @ a @ ''</strong>'' @ b"
    by (simp add: find_close_plain bold_no_star)
  then show "html_line (''**'' @ a @ ''**'' @ b) = code_units (''<strong>'' @ a @ ''</strong>'' @ b)"
    by (simp add: html_line_def list_item_def)
next
  assume "CHR ''*'' \<notin> set l"
  then have "bold (''* '' @ l) = ''* '' @ l" by (simp add: bold_no_star)
  then show "html_line (''* '' @ l) = [0xE2, 0x20AC, 0xA2, 0x20] @ code_units l"
    by (simp add: html_line_def list_item_def bullet_def)
qed

theorem renderContent_html_witness:
  "html_line ''<img src=x onerror=alert(1)>'' = code_units ''<img src=x onerror=alert(1)>'' \<and>
   chat_view [] (handleSend injection_sdk 5 hello_state) ! 2 =
     \<lparr>b_user = False, b_image = None, b_body = Formatted [code_units ''<img src=x onerror=alert(1)>''], b_sources = None\<rparr>"
proof -
  have "CHR ''*'' \<notin> set ''<img src=x onerror=alert(1)>''" by simp
  then have a: "html_line ''<img src=x onerror=alert(1)>'' = code_units ''<img src=x onerror=alert(1)>''"
    using renderContent_html [of "''<img src=x onerror=alert(1)>''"] by blast
  have b: "chat_view [] (handleSend injection_sdk 5 hello_state) ! 2 =
     \<lparr>b_user = False, b_image = None, b_body = Formatted [code_units ''<img src=x onerror=alert(1)>''], b_sources = None\<rparr>"
    by code_simp
  from a b show ?thesis ..
qed

lemma consume_length [simp]: "length (messages (consume i full gs cs s)) = length (messages s)"
  by (induction cs arbitrary: full gs s) (simp_all add: Let_def)

lemma handleSend_length:
  "length (messages (handleSend sdk now s)) = (if send_blocked s then length (messages s) else length (messages s) + 2)"
  by (simp add: handleSend_def Let_def send_begin_def split: sum.split)

text \<open>The send button is disabled exactly when a click would change nothing: the
  disabled state is \<open>handleSend\<close>'s guard.\<close>

lemma send_button_disabled:
  "ci_send_disabled (chat_input_view s) \<longleftrightarrow> (\<forall>sdk now. handleSend sdk now s = s)"
proof
  assume "ci_send_disabled (chat_input_view s)"
  then show "\<forall>sdk now. handleSend sdk now s = s" by (simp add: chat_input_view_def handleSend_def send_blocked_def)
next
  assume "\<forall>sdk now. handleSend sdk now s = s"
  then have "length (messages (handleSend (reply_sdk []) 0 s)) = length (messages s)" by simp
  then show "ci_send_disabled (chat_input_view s)"
    by (auto simp: handleSend_length chat_input_view_def send_blocked_def split: if_splits)
qed

end
