(* ===== verification/StudioView.thy ===== *)
theory StudioView
  imports GeminiService
begin

text \<open>
  The creative studio of \<open>src/StudioView.tsx\<close> and the subscription tiers of
  \<open>src/types.ts\<close>.  The component state is the record \<open>studio_state\<close>; its
  settings are read from and written to \<open>localStorage\<close> (a map \<open>storage\<close>);
  \<open>handleGenerate\<close> is split at its \<open>await\<close>: \<open>handleGenerate\<close> runs up to the
  service call and records the call in \<open>job\<close>, and \<open>studio_resolve\<close> runs the
  rest when the call settles (with the URL or the thrown error).  Calls of the
  \<open>onGeneration\<close> prop are counted in \<open>generations\<close>.  The controls of the form
  are the events \<open>studio_event\<close>, enabled as the markup shows them;
  \<open>studio_reach\<close> is the set of states reachable while the view is mounted.
  The output pane (\<open>studio_output\<close>), the loading overlay and \<open>downloadMedia\<close>
  are functions of the state.
\<close>

section \<open>Tiers and settings\<close>

datatype SubscriptionTier = FREE | BASE | POPULAR | ENTERPRISE

definition tier_name :: "SubscriptionTier \<Rightarrow> string" where
  "tier_name t = (case t of FREE \<Rightarrow> ''FREE'' | BASE \<Rightarrow> ''BASE'' | POPULAR \<Rightarrow> ''POPULAR'' | ENTERPRISE \<Rightarrow> ''ENTERPRISE'')"

type_synonym storage = "string \<Rightarrow> string option"

definition LOADING_MESSAGES :: "string list" where
  "LOADING_MESSAGES =
     [''Initializing Giga Cinematic Engine...'', ''Synthesizing neural video frames...'',
      ''Optimizing resolution and lighting...'', ''Applying cinematic color grading...'',
      ''This may take a few minutes for complex scenes...'', ''Finalizing production buffers...'',
      ''Giga AI: Optimizing for viral engagement...'', ''Preparing high-fidelity stream...'']"

text \<open>The options of the preset select: label and value.\<close>

definition CINEMATIC_STYLES :: "(string \<times> string) list" where
  "CINEMATIC_STYLES =
     [(''Original'', []),
      (''Cinematic Master'', ''stunning cinematic style, 8k, photorealistic, anamorphic lens, high contrast''),
      (''African Futurism'', ''african futuristic aesthetic, vibrance, neon traditional patterns, high tech gold accents''),
      (''Anime / Ghibli'', ''studio ghibli hand-painted style, whimsical, soft atmospheric lighting''),
      (''Cyberpunk 2077'', ''cyberpunk neon city, night rain, sharp reflections, futuristic mood''),
      (''IMAX Drone View'', ''majestic aerial view, sweeping horizon, high-speed movement, grand scale'')]"

text \<open>The service call \<open>handleGenerate\<close> is waiting for.\<close>

datatype studio_job =
    ImageCall string string bool
  | VideoCall string string string

record studio_state =
  studio_type :: string
  aspectRatio :: string
  resolution :: string
  prompt :: string
  style :: string
  studio_loading :: bool
  loadingMessageIndex :: nat
  result :: "string option"
  studio_error :: "string option"
  isCopied :: bool
  job :: "studio_job option"
  generations :: nat

text \<open>The lazy initialisers of the five persisted settings: the stored string, or
  the default when it is missing or empty (\<open>||\<close>).  The stored string is not
  checked against the values the controls offer.\<close>

definition studio_init :: "storage \<Rightarrow> studio_state" where
  "studio_init ls =
     \<lparr>studio_type = js_or_opt (ls ''giga_studio_type'') ''image'',
      aspectRatio = js_or_opt (ls ''giga_studio_ratio'') ''1:1'',
      resolution = js_or_opt (ls ''giga_studio_res'') ''720p'',
      prompt = js_or_opt (ls ''giga_studio_prompt'') [],
      style = js_or_opt (ls ''giga_studio_style'') [],
      studio_loading = False, loadingMessageIndex = 0, result = None, studio_error = None,
      isCopied = False, job = None, generations = 0\<rparr>"

text \<open>The effect that writes the settings back after each change.\<close>

definition persist :: "studio_state \<Rightarrow> storage \<Rightarrow> storage" where
  "persist s ls =
     ls(''giga_studio_type'' \<mapsto> studio_type s, ''giga_studio_ratio'' \<mapsto> aspectRatio s,
        ''giga_studio_res'' \<mapsto> resolution s, ''giga_studio_prompt'' \<mapsto> prompt s,
        ''giga_studio_style'' \<mapsto> style s)"

section \<open>Generation\<close>

definition premium_only_text :: string where
  "premium_only_text = ''Giga Cinematic Engine is reserved for premium tiers. Please upgrade to unleash full potential.''"

definition offline_text :: string where
  "offline_text = ''Synthesizer offline. Check API connectivity.''"

definition enhanced_prompt :: "studio_state \<Rightarrow> string" where
  "enhanced_prompt s = (if style s \<noteq> [] then prompt s @ ''. '' @ style s else prompt s)"

text \<open>\<open>handleGenerate\<close> up to the \<open>await\<close>: the guard, the reset of the outputs,
  and one of four branches: an image call, a video call, the premium gate for
  videos (its \<open>return\<close> runs the \<open>finally\<close>), or, for any other type, the call
  of \<open>onGeneration\<close> with no service call at all.\<close>

definition handleGenerate :: "SubscriptionTier \<Rightarrow> studio_state \<Rightarrow> studio_state" where
  "handleGenerate tier s =
     (if studio_type s = ''editor'' \<or> js_trim (prompt s) = [] \<or> studio_loading s then s
      else
        let s1 = s\<lparr>studio_loading := True, result := None, studio_error := None, isCopied := False\<rparr>;
            isPremium = (tier \<noteq> FREE)
        in if studio_type s = ''image'' then s1\<lparr>job := Some (ImageCall (enhanced_prompt s) (aspectRatio s) isPremium)\<rparr>
           else if studio_type s = ''video'' then
             (if \<not> isPremium then s1\<lparr>studio_error := Some premium_only_text, studio_loading := False\<rparr>
              else s1\<lparr>job := Some (VideoCall (enhanced_prompt s) (aspectRatio s) (resolution s))\<rparr>)
           else s1\<lparr>generations := Suc (generations s1), studio_loading := False\<rparr>)"

text \<open>The rest of \<open>handleGenerate\<close> once the call settles: \<open>setResult(url)\<close> and
  \<open>onGeneration()\<close>, or \<open>setError(err.message || ...)\<close>; then \<open>finally\<close>.\<close>

definition studio_resolve :: "js_error + string \<Rightarrow> studio_state \<Rightarrow> studio_state" where
  "studio_resolve r s =
     (case r of
        Inr url \<Rightarrow> s\<lparr>result := Some url, generations := Suc (generations s), studio_loading := False, job := None\<rparr>
      | Inl e \<Rightarrow> s\<lparr>studio_error := Some (js_or (js_message e) offline_text), studio_loading := False, job := None\<rparr>)"

text \<open>The 7-second interval that runs while \<open>loading\<close> is true.\<close>

definition loading_tick :: "studio_state \<Rightarrow> studio_state" where
  "loading_tick s = s\<lparr>loadingMessageIndex := Suc (loadingMessageIndex s) mod length LOADING_MESSAGES\<rparr>"

section \<open>Events\<close>

datatype studio_event =
    SetType string
  | SetAspect string
  | SetResolution string
  | SetPrompt string
  | SetStyle string
  | Generate
  | Resolve "js_error + string"
  | LoadingTick
  | CopyDone
  | CopyReset

text \<open>When the markup offers an event: the type buttons always; the prompt, style
  (one of the preset values) and ratio controls and the generate button (disabled while loading or with a
  blank prompt) unless the type is \<open>editor\<close>; the resolution buttons for videos;
  the copy button when there is a result.\<close>

fun studio_enabled :: "studio_state \<Rightarrow> studio_event \<Rightarrow> bool" where
  "studio_enabled s (SetType t) = (t \<in> {''image'', ''video'', ''editor''})"
| "studio_enabled s (SetAspect r) = (studio_type s \<noteq> ''editor'' \<and> r \<in> {''1:1'', ''16:9'', ''9:16''})"
| "studio_enabled s (SetResolution r) = (studio_type s \<noteq> ''editor'' \<and> studio_type s = ''video'' \<and> r \<in> {''720p'', ''1080p''})"
| "studio_enabled s (SetPrompt p) = (studio_type s \<noteq> ''editor'')"
| "studio_enabled s (SetStyle v) = (studio_type s \<noteq> ''editor'' \<and> v \<in> set (map snd CINEMATIC_STYLES))"
| "studio_enabled s Generate = (studio_type s \<noteq> ''editor'' \<and> \<not> studio_loading s \<and> js_trim (prompt s) \<noteq> [])"
| "studio_enabled s (Resolve r) = (job s \<noteq> None)"
| "studio_enabled s LoadingTick = studio_loading s"
| "studio_enabled s CopyDone = (result s \<noteq> None)"
| "studio_enabled s CopyReset = True"

fun studio_step :: "SubscriptionTier \<Rightarrow> studio_state \<Rightarrow> studio_event \<Rightarrow> studio_state" where
  "studio_step tier s (SetType t) = s\<lparr>studio_type := t, result := None\<rparr>"
| "studio_step tier s (SetAspect r) = s\<lparr>aspectRatio := r\<rparr>"
| "studio_step tier s (SetResolution r) = s\<lparr>resolution := r\<rparr>"
| "studio_step tier s (SetPrompt p) = s\<lparr>prompt := p\<rparr>"
| "studio_step tier s (SetStyle v) = s\<lparr>style := v\<rparr>"
| "studio_step tier s Generate = handleGenerate tier s"
| "studio_step tier s (Resolve r) = studio_resolve r s"
| "studio_step tier s LoadingTick = loading_tick s"
| "studio_step tier s CopyDone = s\<lparr>isCopied := True\<rparr>"
| "studio_step tier s CopyReset = s\<lparr>isCopied := False\<rparr>"

inductive studio_reach :: "SubscriptionTier \<Rightarrow> storage \<Rightarrow> studio_state \<Rightarrow> bool" where
  init: "studio_reach tier ls (studio_init ls)"
| step: "studio_reach tier ls s \<Longrightarrow> studio_enabled s e \<Longrightarrow> studio_reach tier ls (studio_step tier s e)"

fun studio_run :: "SubscriptionTier \<Rightarrow> studio_state \<Rightarrow> studio_event list \<Rightarrow> studio_state option" where
  "studio_run tier s [] = Some s"
| "studio_run tier s (e # es) = (if studio_enabled s e then studio_run tier (studio_step tier s e) es else None)"


section \<open>Rendering and download\<close>

text \<open>The output pane: the result (when it is a non-empty string) in an \<open>img\<close>
  element for the image type and in a \<open>video\<close> element for any other type, else
  the empty canvas; over it, while loading, the current loading message.\<close>

datatype media = ImgElement string | VideoElement string | EmptyCanvas

definition studio_output :: "studio_state \<Rightarrow> media" where
  "studio_output s =
     (case result s of
        Some url \<Rightarrow> if url = [] then EmptyCanvas else if studio_type s = ''image'' then ImgElement url else VideoElement url
      | None \<Rightarrow> EmptyCanvas)"

definition loading_overlay :: "studio_state \<Rightarrow> string option" where
  "loading_overlay s = (if studio_loading s then Some (LOADING_MESSAGES ! loadingMessageIndex s) else None)"

definition generate_label :: "studio_state \<Rightarrow> string" where
  "generate_label s = (if studio_loading s then ''Processing Neural Buffers...'' else ''Generate '' @ studio_type s)"

text \<open>\<open>downloadMedia\<close> at time \<open>now\<close>: the link's target and its file name, or
  nothing without a result.\<close>

definition downloadMedia :: "nat \<Rightarrow> studio_state \<Rightarrow> (string \<times> string) option" where
  "downloadMedia now s =
     (case result s of
        Some url \<Rightarrow> if url = [] then None
                    else Some (url, ''giga-ai-'' @ studio_type s @ ''-'' @ nat_string now @ ''.'' @
                                     (if studio_type s = ''image'' then ''png'' else ''mp4''))
      | None \<Rightarrow> None)"

section \<open>Invariant and examples\<close>

fun is_video_call :: "studio_job option \<Rightarrow> bool" where
  "is_video_call (Some (VideoCall p a r)) = True"
| "is_video_call _ = False"

definition settings :: "studio_state \<Rightarrow> string \<times> string \<times> string \<times> string \<times> string" where
  "settings s = (studio_type s, aspectRatio s, resolution s, prompt s, style s)"

text \<open>The state invariant of the mounted view: loading exactly while a service
  call is awaited, the loading message index within the message list, the
  three choice settings non-empty, and no video call for the free tier.\<close>

definition studio_inv :: "SubscriptionTier \<Rightarrow> studio_state \<Rightarrow> bool" where
  "studio_inv tier s \<longleftrightarrow>
     (studio_loading s \<longleftrightarrow> job s \<noteq> None) \<and> loadingMessageIndex s < length LOADING_MESSAGES \<and>
     studio_type s \<noteq> [] \<and> aspectRatio s \<noteq> [] \<and> resolution s \<noteq> [] \<and>
     (tier = FREE \<longrightarrow> \<not> is_video_call (job s))"

definition corrupt_storage :: storage where
  "corrupt_storage = Map.empty(''giga_studio_type'' \<mapsto> ''audio'')"

definition stale_run :: "studio_event list" where
  "stale_run = [SetPrompt ''a lion'', Generate, SetType ''video'', Resolve (Inr ''data:image/png;base64,iVBORw0KGgo='')]"


text \<open>The union types the state hooks declare, \<open>'image' | 'video' | 'editor'\<close>
  and \<open>'1:1' | '16:9' | '9:16'\<close>, and a storage whose values for the two keys
  (read through \<open>as any\<close>) are of these types, or missing or empty.\<close>

definition studio_types :: "string list" where
  "studio_types = [''image'', ''video'', ''editor'']"

definition ratio_types :: "string list" where
  "ratio_types = [''1:1'', ''16:9'', ''9:16'']"

definition studio_typed :: "studio_state \<Rightarrow> bool" where
  "studio_typed s \<longleftrightarrow> studio_type s \<in> set studio_types \<and> aspectRatio s \<in> set ratio_types"

definition stored_ok :: "string list \<Rightarrow> string option \<Rightarrow> bool" where
  "stored_ok vs v = (case v of None \<Rightarrow> True | Some x \<Rightarrow> x = [] \<or> x \<in> set vs)"

definition storage_typed :: "storage \<Rightarrow> bool" where
  "storage_typed ls \<longleftrightarrow> stored_ok studio_types (ls ''giga_studio_type'') \<and> stored_ok ratio_types (ls ''giga_studio_ratio'')"


section \<open>Reachable states\<close>

lemma studio_run_reach: "studio_run tier s es = Some s' \<Longrightarrow> studio_reach tier ls s \<Longrightarrow> studio_reach tier ls s'"
proof (induction es arbitrary: s)
  case Nil
  then show ?case by simp
next
  case (Cons e es)
  then show ?case by (auto intro: studio_reach.step split: if_splits)
qed

lemma studio_run_init_reach:
  "studio_run tier (studio_init ls) es = Some s' \<Longrightarrow> studio_reach tier ls s'"
  using studio_run_reach studio_reach.init by blast

lemma studio_run_the_reach:
  "studio_run tier (studio_init ls) es \<noteq> None \<Longrightarrow> studio_reach tier ls (the (studio_run tier (studio_init ls) es))"
  using studio_run_init_reach by fastforce

lemma js_or_nonempty: "b \<noteq> [] \<Longrightarrow> js_or a b \<noteq> []"
  by (simp add: js_or_def)

lemma js_or_opt_nonempty: "b \<noteq> [] \<Longrightarrow> js_or_opt a b \<noteq> []"
  by (simp add: js_or_opt_def js_or_nonempty split: option.splits)

lemma studio_inv_init: "studio_inv tier (studio_init ls)"
  by (simp add: studio_inv_def studio_init_def js_or_opt_nonempty LOADING_MESSAGES_def)

lemma studio_inv_generate: "studio_inv tier s \<Longrightarrow> studio_inv tier (handleGenerate tier s)"
  by (auto simp: studio_inv_def handleGenerate_def Let_def)

lemma studio_inv_step:
  assumes "studio_inv tier s" "studio_enabled s e"
  shows "studio_inv tier (studio_step tier s e)"
proof (cases e)
  case Generate
  then show ?thesis using assms(1) by (simp add: studio_inv_generate)
next
  case (Resolve r)
  then show ?thesis using assms by (auto simp: studio_inv_def studio_resolve_def split: sum.splits)
next
  case LoadingTick
  then show ?thesis using assms by (simp add: studio_inv_def loading_tick_def LOADING_MESSAGES_def)
qed (use assms in \<open>auto simp: studio_inv_def\<close>)

lemma studio_reach_inv: "studio_reach tier ls s \<Longrightarrow> studio_inv tier s"
  by (induction rule: studio_reach.induct) (simp_all add: studio_inv_init studio_inv_step)

text \<open>C13. In every state of a mounted studio the view is loading exactly while a
  service call is awaited, the loading message index stays below 8, and for the
  free tier no video generation is ever requested.\<close>

theorem studio_gating:
  assumes "studio_reach tier ls s"
  shows "(studio_loading s \<longleftrightarrow> job s \<noteq> None) \<and> loadingMessageIndex s < 8 \<and>
         (tier = FREE \<longrightarrow> \<not> is_video_call (job s))"
  using studio_reach_inv [OF assms] by (simp add: studio_inv_def LOADING_MESSAGES_def)

theorem studio_gating_witness:
  "\<not> is_video_call (job (the (studio_run FREE (studio_init Map.empty) [SetType ''video'', SetPrompt ''x'', Generate]))) \<and>
   studio_error (the (studio_run FREE (studio_init Map.empty) [SetType ''video'', SetPrompt ''x'', Generate])) = Some premium_only_text"
proof -
  have n: "studio_run FREE (studio_init Map.empty) [SetType ''video'', SetPrompt ''x'', Generate] \<noteq> None" by code_simp
  have e: "studio_error (the (studio_run FREE (studio_init Map.empty) [SetType ''video'', SetPrompt ''x'', Generate])) = Some premium_only_text"
    by code_simp
  from studio_gating [OF studio_run_the_reach [OF n]] e show ?thesis by blast
qed

text \<open>C21. The persisted settings round-trip: in every reachable state, writing
  the settings to \<open>localStorage\<close> and mounting the view again restores type,
  ratio, resolution, prompt and style.\<close>

theorem studio_settings_roundtrip:
  assumes "studio_reach tier ls s"
  shows "settings (studio_init (persist s ls')) = settings s"
  using studio_reach_inv [OF assms]
  by (simp add: studio_inv_def settings_def studio_init_def persist_def js_or_opt_def js_or_def)

theorem studio_settings_roundtrip_witness:
  "settings (studio_init (persist (the (studio_run BASE (studio_init Map.empty) [SetType ''video'', SetResolution ''1080p'', SetPrompt ''x''])) Map.empty)) =
   (''video'', ''1:1'', ''1080p'', ''x'', [])"
proof -
  have n: "studio_run BASE (studio_init Map.empty) [SetType ''video'', SetResolution ''1080p'', SetPrompt ''x''] \<noteq> None" by code_simp
  have v: "settings (the (studio_run BASE (studio_init Map.empty) [SetType ''video'', SetResolution ''1080p'', SetPrompt ''x''])) =
     (''video'', ''1:1'', ''1080p'', ''x'', [])" by code_simp
  from studio_settings_roundtrip [OF studio_run_the_reach [OF n], of Map.empty] v show ?thesis by simp
qed

text \<open>A type read from storage that is none of image, video and editor makes
  Generate call \<open>onGeneration\<close> (counted as a generation) without requesting
  anything from the service.\<close>

theorem unknown_type_counts_generation:
  "\<exists>s. studio_reach FREE corrupt_storage s \<and> generations s = 1 \<and> job s = None \<and> result s = None"
proof -
  have "studio_run FREE (studio_init corrupt_storage) [SetPrompt ''a cat'', Generate] =
     Some ((studio_init corrupt_storage)\<lparr>prompt := ''a cat'', isCopied := False, generations := 1\<rparr>)"
    by code_simp
  then show ?thesis by (intro exI conjI, rule studio_run_init_reach) (simp_all add: studio_init_def)
qed

text \<open>C35. A result can be shown under the wrong type: switching from image to
  video while an image is being generated leaves the view in video mode with the
  image URL as its result, which the output pane puts in a \<open>video\<close> element and
  \<open>downloadMedia\<close> saves under a name ending in \<open>.mp4\<close>.\<close>

theorem stale_result_shown_as_video:
  "\<exists>s. studio_reach POPULAR Map.empty s \<and> studio_type s = ''video'' \<and>
       studio_output s = VideoElement ''data:image/png;base64,iVBORw0KGgo='' \<and>
       (\<forall>t. downloadMedia t s = Some (''data:image/png;base64,iVBORw0KGgo='', ''giga-ai-video-'' @ nat_string t @ ''.mp4''))"
proof -
  have n: "studio_run POPULAR (studio_init Map.empty) stale_run \<noteq> None" by code_simp
  have v: "studio_type (the (studio_run POPULAR (studio_init Map.empty) stale_run)) = ''video'' \<and>
       result (the (studio_run POPULAR (studio_init Map.empty) stale_run)) = Some ''data:image/png;base64,iVBORw0KGgo=''"
    by code_simp
  then have "studio_output (the (studio_run POPULAR (studio_init Map.empty) stale_run)) = VideoElement ''data:image/png;base64,iVBORw0KGgo='' \<and>
       (\<forall>t. downloadMedia t (the (studio_run POPULAR (studio_init Map.empty) stale_run)) =
             Some (''data:image/png;base64,iVBORw0KGgo='', ''giga-ai-video-'' @ nat_string t @ ''.mp4''))"
    by (simp add: studio_output_def downloadMedia_def)
  with studio_run_the_reach [OF n] v show ?thesis by blast
qed

section \<open>The declared types\<close>

lemma js_or_opt_typed: "b \<in> set vs \<Longrightarrow> (js_or_opt v b \<in> set vs) = stored_ok vs v"
  by (auto simp: js_or_opt_def js_or_def stored_ok_def split: option.splits)

lemma studio_typed_init: "studio_typed (studio_init ls) = storage_typed ls"
proof -
  have "''image'' \<in> set studio_types" "''1:1'' \<in> set ratio_types" by (simp_all add: studio_types_def ratio_types_def)
  then show ?thesis by (simp add: studio_typed_def storage_typed_def studio_init_def js_or_opt_typed)
qed

lemma studio_typed_step: "studio_typed s \<Longrightarrow> studio_enabled s e \<Longrightarrow> studio_typed (studio_step tier s e)"
  by (cases e) (auto simp: studio_typed_def studio_types_def ratio_types_def handleGenerate_def Let_def
                          studio_resolve_def loading_tick_def split: sum.splits)

lemma studio_reach_typed: "studio_reach tier ls s \<Longrightarrow> storage_typed ls \<Longrightarrow> studio_typed s"
  by (induction rule: studio_reach.induct) (simp_all add: studio_typed_init studio_typed_step)

lemma persist_typed: "studio_typed s \<Longrightarrow> storage_typed (persist s ls)"
  by (simp add: studio_typed_def storage_typed_def persist_def stored_ok_def)

text \<open>C32. The declared union types of \<open>type\<close> and \<open>aspectRatio\<close> hold at mount
  exactly when \<open>localStorage\<close> holds values of those types (the \<open>as any\<close> cast
  checks nothing), and once they hold, every reachable state of the view keeps
  them and persists a storage that again holds values of those types.\<close>

theorem studio_union_types:
  "(studio_typed (studio_init ls) \<longleftrightarrow> storage_typed ls) \<and>
   (storage_typed ls \<and> studio_reach tier ls s \<longrightarrow> studio_typed s \<and> storage_typed (persist s ls'))"
  using studio_typed_init studio_reach_typed persist_typed by blast

theorem studio_union_types_witness:
  "\<not> studio_typed (studio_init corrupt_storage) \<and>
   studio_typed (the (studio_run FREE (studio_init Map.empty) [SetType ''video'', SetAspect ''16:9'']))"
proof -
  have n: "studio_run FREE (studio_init Map.empty) [SetType ''video'', SetAspect ''16:9''] \<noteq> None" by code_simp
  have t: "storage_typed Map.empty" "\<not> storage_typed corrupt_storage"
    by (simp_all add: storage_typed_def stored_ok_def corrupt_storage_def studio_types_def)
  show ?thesis using studio_union_types [of corrupt_storage] studio_union_types [of Map.empty FREE] t studio_run_the_reach [OF n]
    by blast
qed

end
