(* ===== verification/Onboarding.thy ===== *)
theory Onboarding
  imports Prelude
begin

text \<open>
  The guided tour of \<open>src/Onboarding.tsx\<close>: the five steps \<open>STEPS\<close>, the step
  counter with \<open>handleNext\<close> and \<open>handleSkip\<close> (calls of the \<open>onComplete\<close> prop
  are counted in \<open>tour_done\<close>), the lookup of a step's anchor element
  (\<open>getElementById\<close>, then the \<open>data-tour\<close> selector) and the tooltip placement
  of the effect.  The page is a parameter: a lookup from element ids and from
  \<open>data-tour\<close> values to bounding rectangles.
\<close>

datatype tour_position = PosRight | PosLeft | PosTop | PosBottom

record OnboardingStep =
  targetId :: string
  title :: string
  description :: string
  position :: tour_position

definition STEPS :: "OnboardingStep list" where
  "STEPS =
     [\<lparr>targetId = ''dashboard-hero'', title = ''Welcome to Giga3 AI'',
       description = ''This is your centralized command center for premium intelligence workflows.'', position = PosBottom\<rparr>,
      \<lparr>targetId = ''nav-chat'', title = ''Giga Chat'',
       description = ''Engage with our most advanced multimodal models for text and vision analysis.'', position = PosRight\<rparr>,
      \<lparr>targetId = ''nav-studio'', title = ''Creative Studio'',
       description = ''Manifest stunning high-fidelity images and cinematic videos using Veo 3.1.'', position = PosRight\<rparr>,
      \<lparr>targetId = ''nav-voice'', title = ''Voice Link'',
       description = ''Direct neural-audio uplink for real-time conversation with zero lag.'', position = PosRight\<rparr>,
      \<lparr>targetId = ''nav-pricing'', title = ''Premium Upgrade'',
       description = ''Unlock unlimited 4K generations and priority rendering buffers.'', position = PosRight\<rparr>]"

record tour_state =
  currentStep :: nat
  tour_done :: nat

definition tour_init :: tour_state where
  "tour_init = \<lparr>currentStep = 0, tour_done = 0\<rparr>"

definition handleNext :: "tour_state \<Rightarrow> tour_state" where
  "handleNext s =
     (if currentStep s < length STEPS - 1 then s\<lparr>currentStep := Suc (currentStep s)\<rparr>
      else s\<lparr>tour_done := Suc (tour_done s)\<rparr>)"

definition handleSkip :: "tour_state \<Rightarrow> tour_state" where
  "handleSkip s = s\<lparr>tour_done := Suc (tour_done s)\<rparr>"

section \<open>Anchors and placement\<close>

text \<open>The \<open>data-tour\<close> value of the fallback selector:
  \<open>step.targetId.split('-')[1]\<close>, which a template literal prints as
  \<open>undefined\<close> when there is no dash.\<close>

definition tour_key :: "string \<Rightarrow> string" where
  "tour_key t = (case js_split CHR ''-'' t of _ # k # _ \<Rightarrow> k | _ \<Rightarrow> ''undefined'')"

record rect =
  r_left :: real
  r_top :: real
  r_right :: real
  r_bottom :: real
  r_width :: real
  r_height :: real

definition find_anchor ::
  "(string \<Rightarrow> rect option) \<Rightarrow> (string \<Rightarrow> rect option) \<Rightarrow> OnboardingStep \<Rightarrow> rect option" where
  "find_anchor byId byTour st =
     (case byId (targetId st) of Some r \<Rightarrow> Some r | None \<Rightarrow> byTour (tour_key (targetId st)))"

text \<open>The tooltip style: fixed left/top (in pixels) and a transform, set for the
  \<open>right\<close> and \<open>bottom\<close> positions only; without an anchor the style of the
  previous step is kept, as \<open>setTooltipStyle\<close> is not called.\<close>

record tooltip =
  tip_left :: "real option"
  tip_top :: "real option"
  tip_transform :: "string option"

definition place :: "OnboardingStep \<Rightarrow> rect \<Rightarrow> tooltip" where
  "place st r =
     (case position st of
        PosRight \<Rightarrow> \<lparr>tip_left = Some (r_right r + 20), tip_top = Some (r_top r + r_height r / 2),
                     tip_transform = Some ''translateY(-50%)''\<rparr>
      | PosBottom \<Rightarrow> \<lparr>tip_left = Some (r_left r + r_width r / 2), tip_top = Some (r_bottom r + 20),
                      tip_transform = Some ''translateX(-50%)''\<rparr>
      | _ \<Rightarrow> \<lparr>tip_left = None, tip_top = None, tip_transform = None\<rparr>)"

definition tooltip_effect ::
  "(string \<Rightarrow> rect option) \<Rightarrow> (string \<Rightarrow> rect option) \<Rightarrow> tour_state \<Rightarrow> tooltip \<Rightarrow> tooltip" where
  "tooltip_effect byId byTour s prev =
     (case find_anchor byId byTour (STEPS ! currentStep s) of Some r \<Rightarrow> place (STEPS ! currentStep s) r | None \<Rightarrow> prev)"

section \<open>The tour as a run of clicks\<close>

datatype tour_event = Next | Skip

fun tour_step :: "tour_state \<Rightarrow> tour_event \<Rightarrow> tour_state" where
  "tour_step s Next = handleNext s"
| "tour_step s Skip = handleSkip s"

lemma handleNext_bound: "currentStep s < length STEPS \<Longrightarrow> currentStep (handleNext s) < length STEPS"
  by (simp add: handleNext_def STEPS_def)

lemma tour_fold_bound: "currentStep s < length STEPS \<Longrightarrow> currentStep (fold (\<lambda>e s. tour_step s e) es s) < length STEPS"
proof (induction es arbitrary: s)
  case Nil
  then show ?case by simp
next
  case (Cons e es)
  show ?case
  proof (cases e)
    case Next
    with Cons show ?thesis by (simp add: handleNext_bound)
  next
    case Skip
    with Cons show ?thesis by (simp add: handleSkip_def)
  qed
qed

lemma handleNext_funpow:
  "k < length STEPS \<Longrightarrow> (handleNext ^^ k) tour_init = tour_init\<lparr>currentStep := k\<rparr>"
  by (induction k) (simp_all add: handleNext_def tour_init_def STEPS_def)

text \<open>The tour's step index always names a step: after any clicks of Next and
  Skip it stays below the number of steps; from the start, the \<open>k\<close>-th Next (for
  \<open>k < 5\<close>) shows step \<open>k\<close>, and the fifth Next completes the tour with a single
  call of \<open>onComplete\<close>.\<close>

theorem tour_progress:
  "currentStep (fold (\<lambda>e s. tour_step s e) es tour_init) < length STEPS \<and>
   (k < length STEPS \<longrightarrow> currentStep ((handleNext ^^ k) tour_init) = k) \<and>
   (handleNext ^^ length STEPS) tour_init = tour_init\<lparr>currentStep := 4, tour_done := 1\<rparr>"
proof -
  have "currentStep tour_init < length STEPS" by (simp add: tour_init_def STEPS_def)
  then have a: "currentStep (fold (\<lambda>e s. tour_step s e) es tour_init) < length STEPS" by (rule tour_fold_bound)
  have b: "k < length STEPS \<longrightarrow> currentStep ((handleNext ^^ k) tour_init) = k"
    by (simp add: handleNext_funpow)
  have "(handleNext ^^ 4) tour_init = tour_init\<lparr>currentStep := 4\<rparr>"
    by (rule handleNext_funpow) (simp add: STEPS_def)
  then have c: "(handleNext ^^ length STEPS) tour_init = tour_init\<lparr>currentStep := 4, tour_done := 1\<rparr>"
    by (simp add: STEPS_def numeral_eq_Suc handleNext_def tour_init_def)
  from a b c show ?thesis by blast
qed

theorem tour_progress_witness:
  "currentStep ((handleNext ^^ 2) tour_init) = 2 \<and> title (STEPS ! 2) = ''Creative Studio''"
  using tour_progress [of "[]" 2] by (simp add: STEPS_def)

end
