(* ===== verification/NavProgress.thy ===== *)
theory NavProgress
  imports Prelude
begin

text \<open>
  The navigation progress bar and the pull-to-refresh simulation of
  \<open>src/App.tsx\<close>.  The effect on \<open>activeTab\<close> shows the bar at 30\%, schedules
  \<open>t1\<close> (70\% after 200 ms) and \<open>t2\<close> (100\% after 500 ms, which itself schedules a
  third timer hiding the bar 300 ms later), and its cleanup clears \<open>t1\<close> and
  \<open>t2\<close> only.  The record \<open>nav_state\<close> holds the three state hooks involved, the
  pending timers (deadline, id, callback), the clock, the ids the current
  effect's cleanup clears, and the number of page reloads.  \<open>nav_reach\<close> is the
  set of states reachable by tab changes, the passing of time and the firing of
  the earliest timer.
\<close>

datatype nav_timer = Grow | Fill | Hide | Reload

record nav_state =
  isNavigating :: bool
  navWidth :: nat
  isRefreshing :: bool
  nav_timers :: "(nat \<times> nat \<times> nav_timer) list"
  nav_clock :: nat
  nav_next_id :: nat
  effect_timers :: "nat list"
  reloads :: nat

definition nav_schedule :: "nav_timer \<Rightarrow> nat \<Rightarrow> nav_state \<Rightarrow> nav_state" where
  "nav_schedule k d s =
     s\<lparr>nav_timers := nav_timers s @ [(nav_clock s + d, nav_next_id s, k)], nav_next_id := Suc (nav_next_id s)\<rparr>"

definition clearTimeout :: "nat \<Rightarrow> nav_state \<Rightarrow> nav_state" where
  "clearTimeout i s = s\<lparr>nav_timers := filter (\<lambda>(d, j, k). j \<noteq> i) (nav_timers s)\<rparr>"

text \<open>The effect run after a render that changed \<open>activeTab\<close>: first the previous
  run's cleanup, then the body.\<close>

definition nav_effect :: "nav_state \<Rightarrow> nav_state" where
  "nav_effect s =
     (let s1 = fold clearTimeout (effect_timers s) s;
          s2 = s1\<lparr>isNavigating := True, navWidth := 30\<rparr>;
          t1 = nav_next_id s2
      in (nav_schedule Fill 500 (nav_schedule Grow 200 s2))\<lparr>effect_timers := [t1, Suc t1]\<rparr>)"

text \<open>The callbacks: \<open>t1\<close>, \<open>t2\<close> with the nested timer it schedules, and the
  refresh timer, whose \<open>window.location.reload()\<close> is counted.\<close>

fun nav_callback :: "nav_timer \<Rightarrow> nav_state \<Rightarrow> nav_state" where
  "nav_callback Grow s = s\<lparr>navWidth := 70\<rparr>"
| "nav_callback Fill s = nav_schedule Hide 300 (s\<lparr>navWidth := 100\<rparr>)"
| "nav_callback Hide s = s\<lparr>isNavigating := False, navWidth := 0\<rparr>"
| "nav_callback Reload s = s\<lparr>isRefreshing := False, reloads := Suc (reloads s)\<rparr>"

definition nav_fire :: "nav_state \<Rightarrow> nav_state" where
  "nav_fire s =
     (case earliest_timer (nav_timers s) of
        None \<Rightarrow> s
      | Some (d, i, k) \<Rightarrow> nav_callback k (s\<lparr>nav_timers := remove1 (d, i, k) (nav_timers s), nav_clock := max (nav_clock s) d\<rparr>))"

text \<open>\<open>handleRefresh\<close>; no element of the page calls it.\<close>

definition handleRefresh :: "nav_state \<Rightarrow> nav_state" where
  "handleRefresh s = nav_schedule Reload 1500 (s\<lparr>isRefreshing := True\<rparr>)"

text \<open>The state after mounting: the hooks' initial values and the first run of
  the effect.\<close>

definition nav_init :: nav_state where
  "nav_init = nav_effect \<lparr>isNavigating = False, navWidth = 0, isRefreshing = False, nav_timers = [], nav_clock = 0,
                          nav_next_id = 1, effect_timers = [], reloads = 0\<rparr>"

datatype nav_event = TabChange | NavWait nat | NavFire

fun nav_enabled :: "nav_state \<Rightarrow> nav_event \<Rightarrow> bool" where
  "nav_enabled s TabChange = True"
| "nav_enabled s (NavWait d) = (case earliest_timer (nav_timers s) of None \<Rightarrow> True | Some (t, _) \<Rightarrow> nav_clock s + d \<le> t)"
| "nav_enabled s NavFire = (nav_timers s \<noteq> [])"

fun nav_step :: "nav_state \<Rightarrow> nav_event \<Rightarrow> nav_state" where
  "nav_step s TabChange = nav_effect s"
| "nav_step s (NavWait d) = s\<lparr>nav_clock := nav_clock s + d\<rparr>"
| "nav_step s NavFire = nav_fire s"

inductive nav_reach :: "nav_state \<Rightarrow> bool" where
  init: "nav_reach nav_init"
| step: "nav_reach s \<Longrightarrow> nav_enabled s e \<Longrightarrow> nav_reach (nav_step s e)"

text \<open>Firing the pending timers until none is left; a firing of \<open>t2\<close> adds one
  timer, so the measure counts \<open>t2\<close> twice.\<close>

fun timer_weight :: "nat \<times> nat \<times> nav_timer \<Rightarrow> nat" where
  "timer_weight (d, i, Fill) = 2"
| "timer_weight _ = 1"

definition queue_weight :: "(nat \<times> nat \<times> nav_timer) list \<Rightarrow> nat" where
  "queue_weight q = sum_list (map timer_weight q)"

function nav_settle :: "nav_state \<Rightarrow> nav_state" where
  "nav_settle s = (if nav_timers s = [] then s else nav_settle (nav_fire s))"
  by pat_completeness auto
termination
proof (relation "measure (\<lambda>s. queue_weight (nav_timers s))")
  fix s :: nav_state assume "\<not> nav_timers s = []"
  then obtain d i k where e: "earliest_timer (nav_timers s) = Some (d, i, k)"
    by (cases "earliest_timer (nav_timers s)") auto
  then have "(d, i, k) \<in> set (nav_timers s)" by (rule earliest_timer_in)
  then have "queue_weight (nav_timers s) = timer_weight (d, i, k) + queue_weight (remove1 (d, i, k) (nav_timers s))"
    by (simp add: queue_weight_def sum_list_map_remove1)
  with e show "(nav_fire s, s) \<in> measure (\<lambda>s. queue_weight (nav_timers s))"
    by (cases k) (auto simp: nav_fire_def nav_schedule_def queue_weight_def)
qed simp

declare nav_settle.simps [simp del]

fun nav_run :: "nav_state \<Rightarrow> nav_event list \<Rightarrow> nav_state option" where
  "nav_run s [] = Some s"
| "nav_run s (e # es) = (if nav_enabled s e then nav_run (nav_step s e) es else None)"

text \<open>The invariant of the timers: while the bar is shown or not empty a \<open>t2\<close> or
  hide timer is pending; a pending \<open>t1\<close> has its \<open>t2\<close> 300 ms later with the
  next id, and both belong to the current effect; every pending \<open>t2\<close> belongs
  to the current effect.\<close>

definition grow_ok :: "nat list \<Rightarrow> (nat \<times> nat \<times> nav_timer) list \<Rightarrow> bool" where
  "grow_ok es q \<longleftrightarrow> (\<forall>(d, i, k) \<in> set q. k = Grow \<longrightarrow> (d + 300, Suc i, Fill) \<in> set q \<and> es = [i, Suc i])"

definition fill_ok :: "nat list \<Rightarrow> (nat \<times> nat \<times> nav_timer) list \<Rightarrow> bool" where
  "fill_ok es q \<longleftrightarrow> (\<forall>(d, i, k) \<in> set q. k = Fill \<longrightarrow> i \<in> set es)"

definition nav_inv :: "nav_state \<Rightarrow> bool" where
  "nav_inv s \<longleftrightarrow>
     ((isNavigating s \<or> navWidth s \<noteq> 0) \<longrightarrow> list_ex (\<lambda>(d, i, k). k = Fill \<or> k = Hide) (nav_timers s)) \<and>
     grow_ok (effect_timers s) (nav_timers s) \<and> fill_ok (effect_timers s) (nav_timers s)"

definition stale_hide_run :: "nav_event list" where
  "stale_hide_run = [NavFire, NavFire, NavWait 100, TabChange, NavWait 200, NavFire, NavFire]"


section \<open>Invariant and settling\<close>

lemma nav_inv_init: "nav_inv nav_init"
  by (simp add: nav_inv_def grow_ok_def fill_ok_def nav_init_def nav_effect_def nav_schedule_def Let_def)

lemma fold_clearTimeout: "nav_timers (fold clearTimeout is s) = filter (\<lambda>(d, j, k). j \<notin> set is) (nav_timers s)"
  by (induction "is" arbitrary: s) (auto simp: clearTimeout_def intro: filter_cong)

lemma fold_clearTimeout_other [simp]:
  "isNavigating (fold clearTimeout is s) = isNavigating s"
  "effect_timers (fold clearTimeout is s) = effect_timers s"
  "nav_clock (fold clearTimeout is s) = nav_clock s"
  "nav_next_id (fold clearTimeout is s) = nav_next_id s"
  by (induction "is" arbitrary: s) (simp_all add: clearTimeout_def)

lemma nav_inv_effect: "nav_inv s \<Longrightarrow> nav_inv (nav_effect s)"
proof -
  assume inv: "nav_inv s"
  let ?q = "filter (\<lambda>(d, j, k). j \<notin> set (effect_timers s)) (nav_timers s)"
  have nogrow: "\<forall>(d, i, k) \<in> set ?q. k \<noteq> Grow \<and> k \<noteq> Fill"
    using inv by (fastforce simp: nav_inv_def grow_ok_def fill_ok_def)
  then show ?thesis
    by (auto simp: nav_inv_def grow_ok_def fill_ok_def nav_effect_def nav_schedule_def Let_def fold_clearTimeout)
qed

lemma grow_ok_remove_earliest:
  assumes "grow_ok es q" "x \<in> set q" "\<forall>y \<in> set q. fst x \<le> fst y"
  shows "grow_ok es (remove1 x q)"
proof -
  have "(d + 300, Suc i, Fill) \<in> set (remove1 x q) \<and> es = [i, Suc i]"
    if g: "(d, i, Grow) \<in> set (remove1 x q)" for d i
  proof -
    have gq: "(d, i, Grow) \<in> set q" using g set_remove1_subset by fastforce
    with assms(1) have p: "(d + 300, Suc i, Fill) \<in> set q" "es = [i, Suc i]" by (auto simp: grow_ok_def)
    have "(d + 300, Suc i, Fill) \<noteq> x" using assms(3) gq by fastforce
    with p show ?thesis by simp
  qed
  then show ?thesis by (auto simp: grow_ok_def)
qed

lemma fill_ok_remove: "fill_ok es q \<Longrightarrow> fill_ok es (remove1 x q)"
  unfolding fill_ok_def using set_remove1_subset by fastforce

lemma grow_ok_snoc_hide: "grow_ok es q \<Longrightarrow> grow_ok es (q @ [(t, n, Hide)])"
  by (auto simp: grow_ok_def)

lemma fill_ok_snoc_hide: "fill_ok es q \<Longrightarrow> fill_ok es (q @ [(t, n, Hide)])"
  by (auto simp: fill_ok_def)

lemma nav_inv_fire: "nav_inv s \<Longrightarrow> nav_inv (nav_fire s)"
proof (cases "earliest_timer (nav_timers s)")
  case None
  then show "nav_inv s \<Longrightarrow> nav_inv (nav_fire s)" by (simp add: nav_fire_def)
next
  case (Some x)
  assume inv: "nav_inv s"
  obtain d i k where x: "x = (d, i, k)" by (cases x) auto
  have mem: "(d, i, k) \<in> set (nav_timers s)" using Some x earliest_timer_in by blast
  have min: "\<forall>y \<in> set (nav_timers s). fst (d, i, k) \<le> fst y" using Some x earliest_timer_min by blast
  let ?q = "remove1 (d, i, k) (nav_timers s)"
  have g: "grow_ok (effect_timers s) ?q" using inv mem min by (simp add: nav_inv_def grow_ok_remove_earliest)
  have f: "fill_ok (effect_timers s) ?q" using inv by (simp add: nav_inv_def fill_ok_remove)
  have fire: "nav_fire s = nav_callback k (s\<lparr>nav_timers := ?q, nav_clock := max (nav_clock s) d\<rparr>)"
    using Some x by (simp add: nav_fire_def)
  show ?thesis
  proof (cases k)
    case Grow
    then have "(d + 300, Suc i, Fill) \<in> set (nav_timers s)" using inv mem by (fastforce simp: nav_inv_def grow_ok_def)
    then have "(d + 300, Suc i, Fill) \<in> set ?q" using Grow by simp
    then have "list_ex (\<lambda>(d, i, k). k = Fill \<or> k = Hide) ?q"
      by (auto simp: list_ex_iff intro!: bexI [of _ "(d + 300, Suc i, Fill)"])
    then show ?thesis using g f Grow by (simp add: fire nav_inv_def)
  next
    case Fill
    then show ?thesis using g f
      by (simp add: fire nav_inv_def nav_schedule_def grow_ok_snoc_hide fill_ok_snoc_hide)
  next
    case Hide
    then show ?thesis using g f by (simp add: fire nav_inv_def)
  next
    case Reload
    have "list_ex (\<lambda>(d, i, k). k = Fill \<or> k = Hide) (nav_timers s) \<Longrightarrow> list_ex (\<lambda>(d, i, k). k = Fill \<or> k = Hide) ?q"
      using Reload by (fastforce simp: list_ex_iff)
    then show ?thesis using inv g f Reload by (simp add: fire nav_inv_def)
  qed
qed

lemma nav_reach_inv: "nav_reach s \<Longrightarrow> nav_inv s"
proof (induction rule: nav_reach.induct)
  case init
  then show ?case by (rule nav_inv_init)
next
  case (step s e)
  show ?case
  proof (cases e)
    case TabChange
    with step.IH show ?thesis by (simp add: nav_inv_effect)
  next
    case (NavWait d)
    with step.IH show ?thesis by (simp add: nav_inv_def)
  next
    case NavFire
    with step.IH show ?thesis by (simp add: nav_inv_fire)
  qed
qed

lemma nav_settle_done: "nav_timers s = [] \<Longrightarrow> nav_settle s = s"
  by (subst nav_settle.simps) simp

lemma nav_settle_fire: "nav_timers s \<noteq> [] \<Longrightarrow> nav_settle s = nav_settle (nav_fire s)"
  by (subst nav_settle.simps) simp

lemma nav_settle_inv: "nav_inv s \<Longrightarrow> nav_inv (nav_settle s) \<and> nav_timers (nav_settle s) = []"
proof (induction s rule: nav_settle.induct)
  case (1 s)
  show ?case
  proof (cases "nav_timers s = []")
    case True
    with "1.prems" show ?thesis by (simp add: nav_settle_done)
  next
    case False
    with "1.IH" "1.prems" have "nav_inv (nav_settle (nav_fire s)) \<and> nav_timers (nav_settle (nav_fire s)) = []"
      by (simp add: nav_inv_fire)
    with False show ?thesis by (simp add: nav_settle_fire)
  qed
qed

text \<open>C14. The progress bar always comes to rest: from every reachable state,
  firing the pending timers (a loop that terminates, each \<open>t2\<close> adding one
  timer) empties the queue and leaves the bar hidden at width 0.\<close>

theorem progress_bar_settles:
  assumes "nav_reach s"
  shows "nav_timers (nav_settle s) = [] \<and> \<not> isNavigating (nav_settle s) \<and> navWidth (nav_settle s) = 0"
  using nav_settle_inv [OF nav_reach_inv [OF assms]] by (auto simp: nav_inv_def)

theorem progress_bar_settles_witness:
  "nav_timers (nav_settle nav_init) = [] \<and> \<not> isNavigating (nav_settle nav_init) \<and> navWidth (nav_settle nav_init) = 0"
  using progress_bar_settles [OF nav_reach.init] .

lemma nav_run_reach: "nav_run s es = Some s' \<Longrightarrow> nav_reach s \<Longrightarrow> nav_reach s'"
proof (induction es arbitrary: s)
  case Nil
  then show ?case by simp
next
  case (Cons e es)
  then show ?case by (auto intro: nav_reach.step split: if_splits)
qed

text \<open>C20. A stale timer hides a later navigation's bar: the cleanup does not
  clear the hide timer scheduled by \<open>t2\<close>, so a tab change within 300 ms after
  the bar filled is followed by a state where the bar is hidden, though the new
  navigation's \<open>t1\<close> has grown it to 70\% and its \<open>t2\<close> is still pending.\<close>

theorem stale_hide_timer:
  "\<exists>s. nav_reach s \<and> \<not> isNavigating s \<and> navWidth s = 70 \<and> list_ex (\<lambda>(d, i, k). k = Fill) (nav_timers s)"
proof -
  have r: "nav_run nav_init stale_hide_run \<noteq> None" by code_simp
  have v: "\<not> isNavigating (the (nav_run nav_init stale_hide_run)) \<and> navWidth (the (nav_run nav_init stale_hide_run)) = 70 \<and>
           list_ex (\<lambda>(d, i, k). k = Fill) (nav_timers (the (nav_run nav_init stale_hide_run)))" by code_simp
  have "nav_reach (the (nav_run nav_init stale_hide_run))"
    using r nav_run_reach [OF _ nav_reach.init] by fastforce
  with v show ?thesis by blast
qed


end
