(* ===== verification/AuthView.thy ===== *)
theory AuthView
  imports Prelude
begin

text \<open>
  The sign-in view of \<open>src/AuthView.tsx\<close>.  The record \<open>auth_state\<close> holds the
  six state hooks, the pending \<open>setTimeout\<close> callbacks with their deadlines, the
  clock, whether the view is still mounted (it unmounts once the shell has
  logged the user in), and the number of \<open>onLogin\<close> calls.  The form's inputs
  (e-mail, password, phone, code) are uncontrolled: their values are never read,
  so they are not part of the state.  Events are the buttons and forms the
  markup renders (\<open>auth_enabled\<close> follows its conditions), the passing of time,
  and the firing of the earliest timer.
\<close>

datatype AuthMethod = Email | Phone | Google

datatype auth_timer = LoginTimer | OtpTimer | ResetTimer

record auth_state =
  auth_method :: AuthMethod
  isSignup :: bool
  isForgotPassword :: bool
  auth_loading :: bool
  otpSent :: bool
  resetEmailSent :: bool
  timers :: "(nat \<times> auth_timer) list"
  clock_ms :: nat
  mounted :: bool
  logins :: nat

definition auth_init :: auth_state where
  "auth_init =
     \<lparr>auth_method = Email, isSignup = False, isForgotPassword = False, auth_loading = False, otpSent = False,
      resetEmailSent = False, timers = [], clock_ms = 0, mounted = True, logins = 0\<rparr>"

definition set_timeout :: "auth_timer \<Rightarrow> nat \<Rightarrow> auth_state \<Rightarrow> auth_state" where
  "set_timeout t d s = s\<lparr>timers := timers s @ [(clock_ms s + d, t)]\<rparr>"

definition handleSubmit :: "auth_state \<Rightarrow> auth_state" where
  "handleSubmit s = set_timeout LoginTimer 1500 (s\<lparr>auth_loading := True\<rparr>)"

definition handleSendOTP :: "auth_state \<Rightarrow> auth_state" where
  "handleSendOTP s = set_timeout OtpTimer 1000 (s\<lparr>auth_loading := True\<rparr>)"

definition handleResetPassword :: "auth_state \<Rightarrow> auth_state" where
  "handleResetPassword s = set_timeout ResetTimer 1500 (s\<lparr>auth_loading := True\<rparr>)"

text \<open>The timer callbacks; state setters of an unmounted view do nothing, the
  \<open>onLogin\<close> prop is still called.\<close>

fun timer_callback :: "auth_timer \<Rightarrow> auth_state \<Rightarrow> auth_state" where
  "timer_callback LoginTimer s =
     (if mounted s then s\<lparr>auth_loading := False\<rparr> else s)\<lparr>logins := Suc (logins s), mounted := False\<rparr>"
| "timer_callback OtpTimer s = (if mounted s then s\<lparr>auth_loading := False, otpSent := True\<rparr> else s)"
| "timer_callback ResetTimer s = (if mounted s then s\<lparr>auth_loading := False, resetEmailSent := True\<rparr> else s)"

definition fire :: "auth_state \<Rightarrow> auth_state" where
  "fire s =
     (case earliest_timer (timers s) of
        None \<Rightarrow> s
      | Some (d, t) \<Rightarrow> timer_callback t (s\<lparr>timers := remove1 (d, t) (timers s), clock_ms := max (clock_ms s) d\<rparr>))"

datatype auth_event =
    SelectMethod AuthMethod
  | SubmitForm
  | SendCode
  | VerifyCode
  | GoogleContinue
  | ForgotLink
  | BackToSignIn
  | ResetSubmit
  | ReturnToLogin
  | ToggleSignup
  | Wait nat
  | Fire

text \<open>What the mounted view renders: the method tabs unless resetting; in the
  reset pane the reset form (before the mail is sent) or the return button; in
  the sign-in pane the e-mail form with its forgot link (sign-in only), the
  phone pane (send code, then verify), or the Google button; the sign-up toggle
  always.  Time passes up to the next deadline.\<close>

fun auth_enabled :: "auth_state \<Rightarrow> auth_event \<Rightarrow> bool" where
  "auth_enabled s (SelectMethod m) = (mounted s \<and> \<not> isForgotPassword s)"
| "auth_enabled s SubmitForm = (mounted s \<and> \<not> isForgotPassword s \<and> auth_method s = Email)"
| "auth_enabled s SendCode = (mounted s \<and> \<not> isForgotPassword s \<and> auth_method s = Phone \<and> \<not> otpSent s)"
| "auth_enabled s VerifyCode = (mounted s \<and> \<not> isForgotPassword s \<and> auth_method s = Phone \<and> otpSent s)"
| "auth_enabled s GoogleContinue = (mounted s \<and> \<not> isForgotPassword s \<and> auth_method s = Google)"
| "auth_enabled s ForgotLink = (mounted s \<and> \<not> isForgotPassword s \<and> auth_method s = Email \<and> \<not> isSignup s)"
| "auth_enabled s BackToSignIn = (mounted s \<and> isForgotPassword s \<and> \<not> resetEmailSent s)"
| "auth_enabled s ResetSubmit = (mounted s \<and> isForgotPassword s \<and> \<not> resetEmailSent s)"
| "auth_enabled s ReturnToLogin = (mounted s \<and> isForgotPassword s \<and> resetEmailSent s)"
| "auth_enabled s ToggleSignup = mounted s"
| "auth_enabled s (Wait d) = (case earliest_timer (timers s) of None \<Rightarrow> True | Some (t, _) \<Rightarrow> clock_ms s + d \<le> t)"
| "auth_enabled s Fire = (timers s \<noteq> [])"

fun auth_step :: "auth_state \<Rightarrow> auth_event \<Rightarrow> auth_state" where
  "auth_step s (SelectMethod m) = s\<lparr>auth_method := m, otpSent := False\<rparr>"
| "auth_step s SubmitForm = handleSubmit s"
| "auth_step s SendCode = handleSendOTP s"
| "auth_step s VerifyCode = handleSubmit s"
| "auth_step s GoogleContinue = handleSubmit s"
| "auth_step s ForgotLink = s\<lparr>isForgotPassword := True\<rparr>"
| "auth_step s BackToSignIn = s\<lparr>isForgotPassword := False\<rparr>"
| "auth_step s ResetSubmit = handleResetPassword s"
| "auth_step s ReturnToLogin = s\<lparr>isForgotPassword := False, resetEmailSent := False\<rparr>"
| "auth_step s ToggleSignup = s\<lparr>isSignup := \<not> isSignup s, isForgotPassword := False\<rparr>"
| "auth_step s (Wait d) = s\<lparr>clock_ms := clock_ms s + d\<rparr>"
| "auth_step s Fire = fire s"

inductive auth_reach :: "auth_state \<Rightarrow> bool" where
  init: "auth_reach auth_init"
| step: "auth_reach s \<Longrightarrow> auth_enabled s e \<Longrightarrow> auth_reach (auth_step s e)"

fun auth_run :: "auth_state \<Rightarrow> auth_event list \<Rightarrow> auth_state option" where
  "auth_run s [] = Some s"
| "auth_run s (e # es) = (if auth_enabled s e then auth_run (auth_step s e) es else None)"

definition phone_run :: "auth_event list" where
  "phone_run = [SelectMethod Phone, SendCode, Fire, VerifyCode, Fire]"

section \<open>Rendering\<close>

text \<open>The heading, the card's pane and the toggle as the view renders them.  The
  e-mail form carries its forgot link (sign-in only) and its button label; the
  phone pane shows the number field before the code is sent and the code field
  after (with a "Resend" button that has no handler).  The method tabs are shown
  unless resetting, and the loading overlay covers the card while loading.\<close>

datatype auth_pane = ResetForm | ResetSent | EmailForm bool string | PhoneNumberPane | PhoneCodePane | GooglePane

record auth_view =
  av_title :: string
  av_subtitle :: string
  av_tabs :: bool
  av_overlay :: bool
  av_pane :: auth_pane
  av_toggle :: string

definition auth_pane_of :: "auth_state \<Rightarrow> auth_pane" where
  "auth_pane_of s =
     (if isForgotPassword s then (if \<not> resetEmailSent s then ResetForm else ResetSent)
      else case auth_method s of
             Email \<Rightarrow> EmailForm (\<not> isSignup s) (if isSignup s then ''Create Account'' else ''Sign In'')
           | Phone \<Rightarrow> (if \<not> otpSent s then PhoneNumberPane else PhoneCodePane)
           | Google \<Rightarrow> GooglePane)"

definition auth_render :: "auth_state \<Rightarrow> auth_view" where
  "auth_render s =
     \<lparr>av_title = (if isForgotPassword s then ''Reset Password'' else if isSignup s then ''Create your account'' else ''Welcome back''),
      av_subtitle = (if isForgotPassword s then ''Enter your email to receive a reset link''
                     else ''Choose your preferred way to access Giga3 AI''),
      av_tabs = (\<not> isForgotPassword s), av_overlay = auth_loading s, av_pane = auth_pane_of s,
      av_toggle = (if isSignup s then ''Already have an account? Sign In'' else ''Don't have an account? Create one'')\<rparr>"

lemma auth_run_reach: "auth_run s es = Some s' \<Longrightarrow> auth_reach s \<Longrightarrow> auth_reach s'"
proof (induction es arbitrary: s)
  case Nil
  then show ?case by simp
next
  case (Cons e es)
  then show ?case by (auto intro: auth_reach.step split: if_splits)
qed

lemma auth_run_the_reach: "auth_run auth_init es \<noteq> None \<Longrightarrow> auth_reach (the (auth_run auth_init es))"
  using auth_run_reach auth_reach.init by fastforce

text \<open>C37. Signing in checks nothing: by the phone path (request a code, then
  "Verify & Continue" without a code ever being read) the view reaches
  \<open>onLogin\<close> 2.5 seconds after it is shown, with no input of the user involved.\<close>

theorem login_without_credentials:
  "\<exists>s. auth_reach s \<and> auth_method s = Phone \<and> logins s = 1 \<and> clock_ms s = 2500 \<and> \<not> mounted s"
proof -
  have n: "auth_run auth_init phone_run \<noteq> None" by code_simp
  have v: "auth_method (the (auth_run auth_init phone_run)) = Phone \<and> logins (the (auth_run auth_init phone_run)) = 1 \<and>
           clock_ms (the (auth_run auth_init phone_run)) = 2500 \<and> \<not> mounted (the (auth_run auth_init phone_run))"
    by code_simp
  from auth_run_the_reach [OF n] v show ?thesis by blast
qed

text \<open>The rendering and the events agree: in the mounted view, each form event
  is enabled exactly when the card shows the pane that holds its control.\<close>

lemma auth_pane_events:
  assumes "mounted s"
  shows "(auth_enabled s SubmitForm \<longleftrightarrow> (\<exists>b l. auth_pane_of s = EmailForm b l)) \<and>
         (auth_enabled s ForgotLink \<longleftrightarrow> auth_pane_of s = EmailForm True ''Sign In'') \<and>
         (auth_enabled s SendCode \<longleftrightarrow> auth_pane_of s = PhoneNumberPane) \<and>
         (auth_enabled s VerifyCode \<longleftrightarrow> auth_pane_of s = PhoneCodePane) \<and>
         (auth_enabled s GoogleContinue \<longleftrightarrow> auth_pane_of s = GooglePane) \<and>
         (auth_enabled s ResetSubmit \<longleftrightarrow> auth_pane_of s = ResetForm) \<and>
         (auth_enabled s ReturnToLogin \<longleftrightarrow> auth_pane_of s = ResetSent)"
  using assms by (cases "auth_method s") (auto simp: auth_pane_of_def)

end
