(* ===== verification/App.thy ===== *)
theory App
  imports StudioView Onboarding NavProgress ChatView VoiceSession AuthView
begin

text \<open>
  The application shell of \<open>src/App.tsx\<close> with the navigation it receives from
  \<open>src/Sidebar.tsx\<close> and \<open>src/DashboardView.tsx\<close>, the plans of
  \<open>src/PricingView.tsx\<close>, and the two children whose callbacks change the
  shell's state: the studio (\<open>onGeneration\<close>) and the tour (\<open>onComplete\<close>).
  The record \<open>app_state\<close> holds the shell's state hooks, \<open>localStorage\<close>, the
  alerts shown, and the state of the mounted studio and tour; a child's state
  is created when the child mounts and dropped when it unmounts.  The events
  \<open>app_event\<close> are the clicks the rendered page offers and the settling of a
  studio call; \<open>app_reach\<close> is the set of reachable states.  The progress bar
  of \<open>NavProgress\<close> is the field \<open>nav\<close>: its effect runs when the shell mounts
  and after every render that changed \<open>activeTab\<close>, and its timers fire as
  events of their own, logged in or not; its clock \<open>nav_clock\<close> is the page's
  clock (milliseconds since load), which \<open>Date.now()\<close> reads.  The chat view
  (\<open>chat\<close>) and the voice view (\<open>voice\<close>) are mounted on their tabs; a voice
  view that unmounts has no cleanup, so its instance moves to
  \<open>voice_detached\<close>, where the callbacks it registered with the browser and the
  SDK keep running.
\<close>

section \<open>State\<close>

record UserState =
  tier :: SubscriptionTier
  photosUsedToday :: nat
  isLoggedIn :: bool

text \<open>The tab ids of \<open>NAV_ITEMS\<close> (module \<open>constants\<close>, outside the sources), as
  the tab switch of the shell and the tour's anchors \<open>nav-...\<close> use them.\<close>

definition NAV_ITEMS :: "string list" where
  "NAV_ITEMS = [''dashboard'', ''chat'', ''studio'', ''voice'', ''pricing'']"

text \<open>The dashboard's buttons: the two hero buttons and the quick actions.\<close>

definition dashboard_actions :: "string list" where
  "dashboard_actions = [''chat'', ''studio'', ''chat'', ''studio'', ''voice'']"

text \<open>The plan table of the pricing view: tier, name, price and features.\<close>

definition plans :: "(SubscriptionTier \<times> string \<times> string \<times> string list) list" where
  "plans =
     [(FREE, ''Free Access'', ''0.00'', [''Unlimited General Knowledge'', ''Songwriting & Copywriting'',
        ''10 Photos / Day'', ''Videos < 12 Seconds'', ''Standard Processing'']),
      (BASE, ''Base Tier'', ''55.00'', [''Unlimited Photo Generation'', ''Priority Processing'',
        ''Up to 30s Videos'', ''Full Book Authorship'', ''Email Support'']),
      (POPULAR, ''Popular Tier'', ''130.00'', [''Unlimited High-Res Photos'', ''Unlimited Long Videos'',
        ''Enterprise Data Logic'', ''Priority Rendering'', ''Custom AI Voiceovers'']),
      (ENTERPRISE, ''Enterprise'', ''300.00'', [''Full API Access'', ''Team Collaboration'',
        ''24/7 Dedicated Support'', ''White-Label Options'', ''Immediate Fulfillment''])]"

record app_state =
  activeTab :: string
  searchQuery :: string
  showOnboarding :: bool
  userState :: UserState
  app_storage :: storage
  alerts :: "string list"
  studio :: "studio_state option"
  tour :: tour_state
  nav :: nav_state
  chat :: "chat_state option"
  voice :: "voice_state option"
  voice_detached :: "voice_state list"
  auth :: "auth_state option"
  auth_detached :: "auth_state list"

definition app_init :: "storage \<Rightarrow> app_state" where
  "app_init ls =
     \<lparr>activeTab = ''dashboard'', searchQuery = [], showOnboarding = False,
      userState = \<lparr>tier = FREE, photosUsedToday = 0, isLoggedIn = False\<rparr>,
      app_storage = ls, alerts = [], studio = None, tour = tour_init, nav = nav_init,
      chat = None, voice = None, voice_detached = [], auth = Some auth_init, auth_detached = []\<rparr>"

section \<open>Rendering of the children\<close>

text \<open>After a render: the studio is mounted while the user is logged in and the
  studio tab is active (a fresh state from storage when it was not mounted, its
  settings effect then writing the settings back to storage), and
  the tour while the user is logged in and \<open>showOnboarding\<close> holds; the
  progress-bar effect runs when \<open>activeTab\<close> changed.  The chat view is mounted
  on the chat tab (a fresh state, stamped with the page clock, when it was not
  mounted) and the voice view on the voice tab; a voice view that leaves the
  page is kept in \<open>voice_detached\<close> with everything it started.\<close>

definition render :: "app_state \<Rightarrow> app_state \<Rightarrow> app_state" where
  "render before s =
     (let shown = isLoggedIn (userState s);
          was_studio = isLoggedIn (userState before) \<and> activeTab before = ''studio'' \<and> studio before \<noteq> None;
          was_tour = isLoggedIn (userState before) \<and> showOnboarding before;
          was_chat = isLoggedIn (userState before) \<and> activeTab before = ''chat'' \<and> chat before \<noteq> None;
          was_voice = isLoggedIn (userState before) \<and> activeTab before = ''voice'' \<and> voice before \<noteq> None;
          voice_shown = shown \<and> activeTab s = ''voice'';
          was_auth = \<not> isLoggedIn (userState before) \<and> auth before \<noteq> None;
          mount_studio = shown \<and> activeTab s = ''studio'' \<and> \<not> was_studio
      in s\<lparr>studio := (if shown \<and> activeTab s = ''studio''
                        then (if was_studio then studio s else Some (studio_init (app_storage s))) else None),
           app_storage := (if mount_studio then persist (studio_init (app_storage s)) (app_storage s) else app_storage s),
           tour := (if shown \<and> showOnboarding s \<and> was_tour then tour s else tour_init),
           nav := (if activeTab s \<noteq> activeTab before then nav_effect (nav s) else nav s),
           chat := (if shown \<and> activeTab s = ''chat''
                    then (if was_chat then chat s else Some (chat_init (nav_clock (nav s)))) else None),
           voice := (if voice_shown then (if was_voice then voice s else Some voice_init) else None),
           voice_detached := voice_detached s @
             (case voice s of Some v \<Rightarrow> if voice_shown then [] else [v] | None \<Rightarrow> []),
           auth := (if shown then None else if was_auth then auth s else Some auth_init),
           auth_detached := auth_detached s @
             (case auth s of Some a \<Rightarrow> if shown then [a] else [] | None \<Rightarrow> [])\<rparr>)"

section \<open>Handlers\<close>

text \<open>The effect on \<open>userState.isLoggedIn\<close>: show the tour after a login when the
  tutorial flag is not in storage.\<close>

definition onboarding_effect :: "app_state \<Rightarrow> app_state" where
  "onboarding_effect s =
     (if isLoggedIn (userState s) \<and> app_storage s ''giga3_tutorial_seen'' = None then s\<lparr>showOnboarding := True\<rparr> else s)"

definition handleLogin :: "app_state \<Rightarrow> app_state" where
  "handleLogin s = s\<lparr>userState := (userState s)\<lparr>isLoggedIn := True\<rparr>\<rparr>"

text \<open>The calls of \<open>onLogin\<close> an auth view's step made (none or one): each runs
  \<open>handleLogin\<close>, and the onboarding effect runs when \<open>isLoggedIn\<close> changed.\<close>

definition auth_login :: "nat \<Rightarrow> app_state \<Rightarrow> app_state" where
  "auth_login n s = (if n = 0 \<or> isLoggedIn (userState s) then s else onboarding_effect (handleLogin s))"

definition handleLogout :: "app_state \<Rightarrow> app_state" where
  "handleLogout s =
     s\<lparr>userState := (userState s)\<lparr>isLoggedIn := False\<rparr>,
       app_storage := (app_storage s)(''giga3_tutorial_seen'' := None)\<rparr>"

definition upgrade_text :: "SubscriptionTier \<Rightarrow> string" where
  "upgrade_text t = ''Success! You have been upgraded to the '' @ tier_name t @ '' plan immediately. Fulfillment triggered.''"

definition handleUpgrade :: "SubscriptionTier \<Rightarrow> app_state \<Rightarrow> app_state" where
  "handleUpgrade t s =
     s\<lparr>userState := (userState s)\<lparr>tier := t\<rparr>, activeTab := ''chat'', alerts := alerts s @ [upgrade_text t]\<rparr>"

definition handleGeneration :: "app_state \<Rightarrow> app_state" where
  "handleGeneration s =
     (if tier (userState s) = FREE
      then s\<lparr>userState := (userState s)\<lparr>photosUsedToday := Suc (photosUsedToday (userState s))\<rparr>\<rparr>
      else s)"

definition completeOnboarding :: "app_state \<Rightarrow> app_state" where
  "completeOnboarding s =
     s\<lparr>showOnboarding := False, app_storage := (app_storage s)(''giga3_tutorial_seen'' \<mapsto> ''true'')\<rparr>"

text \<open>An event of the mounted studio: its step, the settings effect writing to
  storage, and one \<open>handleGeneration\<close> per call of \<open>onGeneration\<close>.\<close>

definition studio_in_app :: "studio_event \<Rightarrow> app_state \<Rightarrow> app_state" where
  "studio_in_app e s =
     (case studio s of
        None \<Rightarrow> s
      | Some st \<Rightarrow>
          let st' = studio_step (tier (userState s)) st e
          in (handleGeneration ^^ (generations st' - generations st))
               (s\<lparr>studio := Some st', app_storage := persist st' (app_storage s)\<rparr>))"

definition tour_in_app :: "tour_event \<Rightarrow> app_state \<Rightarrow> app_state" where
  "tour_in_app e s =
     (let t' = tour_step (tour s) e
      in if tour_done t' \<noteq> tour_done (tour s) then completeOnboarding (s\<lparr>tour := t'\<rparr>) else s\<lparr>tour := t'\<rparr>)"

section \<open>Events\<close>

datatype app_event =
    AuthEv auth_event
  | AuthDetachedEv nat auth_event
  | Logout
  | Upgrade SubscriptionTier
  | SetTab string
  | SetSearch string
  | StudioEv studio_event
  | TourEv tour_event
  | NavEv nav_event
  | ChatEv chat_event
  | VoiceEv voice_event
  | DetachedEv nat voice_event

text \<open>Studio events that need no click: the settling of the service call and
  the timers.\<close>

fun studio_background :: "studio_event \<Rightarrow> bool" where
  "studio_background (Resolve r) = True"
| "studio_background LoadingTick = True"
| "studio_background CopyReset = True"
| "studio_background _ = False"

text \<open>Auth events that need no click: the passing of time and the timers.\<close>

fun auth_background :: "auth_event \<Rightarrow> bool" where
  "auth_background Fire = True"
| "auth_background (Wait d) = True"
| "auth_background _ = False"

text \<open>While logged out only the auth view is shown and takes the events of its
  form; the timers of an auth view that has unmounted still fire.  The auth
  view's loading overlay covers its card, but it stops pointer clicks only: the
  focused field or button can still be activated from the keyboard, so the
  form's events are not guarded by \<open>loading\<close>.
  while the tour is shown its full-screen backdrop takes every click.  The chat
  controls act on the mounted chat view, a send at the page clock's time; the
  voice events of the mounted view are its button and the callbacks of the
  browser and the SDK; a detached voice view receives only the callbacks.  Tabs are
  chosen in the sidebar, on the dashboard, or by an upgrade on the pricing tab.\<close>

fun app_enabled :: "app_state \<Rightarrow> app_event \<Rightarrow> bool" where
  "app_enabled s (AuthEv e) = (case auth s of None \<Rightarrow> False | Some a \<Rightarrow> auth_enabled a e)"
| "app_enabled s (AuthDetachedEv i e) =
     (i < length (auth_detached s) \<and> auth_background e \<and> auth_enabled (auth_detached s ! i) e)"
| "app_enabled s Logout = (isLoggedIn (userState s) \<and> \<not> showOnboarding s)"
| "app_enabled s (Upgrade t) = (isLoggedIn (userState s) \<and> \<not> showOnboarding s \<and> activeTab s = ''pricing'')"
| "app_enabled s (SetTab t) =
     (isLoggedIn (userState s) \<and> \<not> showOnboarding s \<and>
      (t \<in> set NAV_ITEMS \<or> (activeTab s = ''dashboard'' \<and> t \<in> set dashboard_actions)))"
| "app_enabled s (SetSearch q) = (isLoggedIn (userState s) \<and> \<not> showOnboarding s)"
| "app_enabled s (StudioEv e) =
     (isLoggedIn (userState s) \<and> (case studio s of None \<Rightarrow> False | Some st \<Rightarrow> studio_enabled st e) \<and>
      (studio_background e \<or> \<not> showOnboarding s))"
| "app_enabled s (TourEv e) = (isLoggedIn (userState s) \<and> showOnboarding s)"
| "app_enabled s (NavEv e) = (e \<noteq> TabChange \<and> nav_enabled (nav s) e)"
| "app_enabled s (ChatEv e) =
     (chat s \<noteq> None \<and> \<not> showOnboarding s \<and> (case e of Send sdk t \<Rightarrow> t = nav_clock (nav s) | _ \<Rightarrow> True))"
| "app_enabled s (VoiceEv e) =
     (case voice s of None \<Rightarrow> False | Some v \<Rightarrow> voice_enabled v e \<and> (e = Click \<longrightarrow> \<not> showOnboarding s))"
| "app_enabled s (DetachedEv i e) =
     (i < length (voice_detached s) \<and> e \<noteq> Click \<and> voice_enabled (voice_detached s ! i) e)"

fun app_handler :: "app_state \<Rightarrow> app_event \<Rightarrow> app_state" where
  "app_handler s (AuthEv e) =
     (case auth s of None \<Rightarrow> s
      | Some a \<Rightarrow> let a' = auth_step a e in auth_login (logins a' - logins a) (s\<lparr>auth := Some a'\<rparr>))"
| "app_handler s (AuthDetachedEv i e) =
     (let a = auth_detached s ! i; a' = auth_step a e
      in auth_login (logins a' - logins a) (s\<lparr>auth_detached := (auth_detached s)[i := a']\<rparr>))"
| "app_handler s Logout = handleLogout s"
| "app_handler s (Upgrade t) = handleUpgrade t s"
| "app_handler s (SetTab t) = s\<lparr>activeTab := t\<rparr>"
| "app_handler s (SetSearch q) = s\<lparr>searchQuery := q\<rparr>"
| "app_handler s (StudioEv e) = studio_in_app e s"
| "app_handler s (TourEv e) = tour_in_app e s"
| "app_handler s (NavEv e) = s\<lparr>nav := nav_step (nav s) e\<rparr>"
| "app_handler s (ChatEv e) = s\<lparr>chat := map_option (\<lambda>c. chat_step c e) (chat s)\<rparr>"
| "app_handler s (VoiceEv e) = s\<lparr>voice := map_option (\<lambda>v. voice_step v e) (voice s)\<rparr>"
| "app_handler s (DetachedEv i e) =
     s\<lparr>voice_detached := (voice_detached s)[i := voice_step (voice_detached s ! i) e]\<rparr>"

definition app_step :: "app_state \<Rightarrow> app_event \<Rightarrow> app_state" where
  "app_step s e = render s (app_handler s e)"

inductive app_reach :: "app_state \<Rightarrow> bool" where
  init: "app_reach (app_init ls)"
| step: "app_reach s \<Longrightarrow> app_enabled s e \<Longrightarrow> app_reach (app_step s e)"

fun app_run :: "app_state \<Rightarrow> app_event list \<Rightarrow> app_state option" where
  "app_run s [] = Some s"
| "app_run s (e # es) = (if app_enabled s e then app_run (app_step s e) es else None)"

section \<open>The page the tour points at\<close>

text \<open>The elements the tour can find: the sidebar's buttons \<open>nav-<id>\<close> with
  \<open>data-tour=<id>\<close> on every tab, and the dashboard's hero section
  \<open>dashboard-hero\<close> on the dashboard tab.  Their geometry is left abstract.\<close>

definition page_ids :: "string \<Rightarrow> string list" where
  "page_ids tab = map (\<lambda>i. ''nav-'' @ i) NAV_ITEMS @ (if tab = ''dashboard'' then [''dashboard-hero''] else [])"

definition some_rect :: rect where
  "some_rect = \<lparr>r_left = 0, r_top = 0, r_right = 0, r_bottom = 0, r_width = 0, r_height = 0\<rparr>"

definition page_byId :: "string \<Rightarrow> string \<Rightarrow> rect option" where
  "page_byId tab i = (if i \<in> set (page_ids tab) then Some some_rect else None)"

definition page_byTour :: "string \<Rightarrow> rect option" where
  "page_byTour k = (if k \<in> set NAV_ITEMS then Some some_rect else None)"

text \<open>Signing in with the e-mail form: submit, then the login timer fires.\<close>

definition sign_in :: "app_event list" where
  "sign_in = [AuthEv SubmitForm, AuthEv Fire]"

definition tour_after_relogin :: "app_event list" where
  "tour_after_relogin = sign_in @ [TourEv Skip, SetTab ''chat'', Logout] @ sign_in"

definition upgrade_run :: "app_event list" where
  "upgrade_run = sign_in @ [TourEv Skip, SetTab ''pricing'', Upgrade POPULAR, SetTab ''studio'',
                  StudioEv (SetType ''video''), StudioEv (SetPrompt ''a lion''), StudioEv Generate]"

definition first_photo_run :: "app_event list" where
  "first_photo_run = sign_in @ [TourEv Skip, SetTab ''studio'', StudioEv (SetPrompt ''a lion'')]"

section \<open>Chrome of the shell\<close>

text \<open>The sidebar as it renders: the search field, the navigation buttons with
  the active one marked, the plan badge, the usage meter and the profile, the
  last two fixed strings.  The dashboard's statistics cards are constants.\<close>

record sidebar =
  sb_search :: string
  sb_items :: "(string \<times> bool) list"
  sb_plan :: string
  sb_usage :: string
  sb_profile :: "string \<times> string"

definition sidebar_view :: "app_state \<Rightarrow> sidebar" where
  "sidebar_view s =
     \<lparr>sb_search = searchQuery s, sb_items = map (\<lambda>i. (i, activeTab s = i)) NAV_ITEMS,
      sb_plan = tier_name (tier (userState s)), sb_usage = ''40% of monthly tokens used'',
      sb_profile = (''Benard Issaka'', ''ayiiga3@gmail.com'')\<rparr>"

definition dashboard_stats :: "(string \<times> string \<times> string) list" where
  "dashboard_stats =
     [(''Creative Content'', ''142'', ''Generated''), (''Academic Tokens'', ''12.4k'', ''Processed''),
      (''Cloud Storage'', ''84%'', ''Used'')]"

text \<open>The pricing cards: the plans of the table (\<open>isPopular\<close> is set on the
  popular plan only, which gets the "Best Value" badge), each price in GHC per
  month, each with its "Choose Plan" button (the \<open>Upgrade\<close> event).\<close>

record pricing_card =
  pc_tier :: SubscriptionTier
  pc_name :: string
  pc_price :: string
  pc_features :: "string list"
  pc_badge :: "string option"

definition pricing_cards :: "pricing_card list" where
  "pricing_cards =
     map (\<lambda>(t, n, p, fs). \<lparr>pc_tier = t, pc_name = n, pc_price = ''GHC '' @ p @ ''/mo'', pc_features = fs,
                           pc_badge = (if t = POPULAR then Some ''Best Value'' else None)\<rparr>) plans"

text \<open>A logged-in free user on the studio tab, ready to generate an image.\<close>

definition photo_ready :: "app_state \<Rightarrow> bool" where
  "photo_ready s \<longleftrightarrow>
     isLoggedIn (userState s) \<and> \<not> showOnboarding s \<and> activeTab s = ''studio'' \<and> tier (userState s) = FREE \<and>
     (case studio s of None \<Rightarrow> False
      | Some st \<Rightarrow> studio_type st = ''image'' \<and> js_trim (prompt st) \<noteq> [] \<and> \<not> studio_loading st \<and> job st = None)"

text \<open>Two submissions of the sign-in form, then a sign-out.\<close>

definition relogin_run :: "app_event list" where
  "relogin_run = [AuthEv SubmitForm, AuthEv (Wait 1000), AuthEv SubmitForm, AuthEv Fire, TourEv Skip, Logout]"

text \<open>A voice session left running on another tab, and a chat reply followed by
  a tab switch.\<close>

definition voice_leak_run :: "app_event list" where
  "voice_leak_run = sign_in @ [TourEv Skip, SetTab ''voice'', VoiceEv Click, VoiceEv (MicGranted 1),
     VoiceEv (SocketOpen 2), VoiceEv (SessionResolved 2), SetTab ''chat'', DetachedEv 0 (AudioProcess 2 [1 / 2]), SetTab ''voice'']"

definition chat_run :: "app_event list" where
  "chat_run = sign_in @ [TourEv Skip, SetTab ''chat'', ChatEv (Type ''hi''), ChatEv (Send (reply_sdk ''Hello'') 0)]"

section \<open>Reachable states\<close>

lemma app_run_reach: "app_run s es = Some s' \<Longrightarrow> app_reach s \<Longrightarrow> app_reach s'"
proof (induction es arbitrary: s)
  case Nil
  then show ?case by simp
next
  case (Cons e es)
  then show ?case by (auto intro: app_reach.step split: if_splits)
qed

lemma app_run_the_reach: "app_run (app_init ls) es \<noteq> None \<Longrightarrow> app_reach (the (app_run (app_init ls) es))"
  using app_run_reach app_reach.init by fastforce

lemma photo_cycle:
  assumes "photo_ready s"
  shows "\<exists>s'. app_run s [StudioEv Generate, StudioEv (Resolve (Inr u))] = Some s' \<and> photo_ready s' \<and>
              photosUsedToday (userState s') = Suc (photosUsedToday (userState s))"
proof -
  obtain st where st: "studio s = Some st" using assms by (auto simp: photo_ready_def split: option.splits)
  then show ?thesis using assms
    by (simp add: photo_ready_def app_step_def render_def studio_in_app_def handleGenerate_def Let_def
                  studio_resolve_def handleGeneration_def)
qed

lemma photo_ready_reach:
  "app_reach s \<Longrightarrow> photo_ready s \<Longrightarrow>
   \<exists>s'. app_reach s' \<and> photo_ready s' \<and> photosUsedToday (userState s') = photosUsedToday (userState s) + k"
proof (induction k)
  case 0
  then show ?case by auto
next
  case (Suc k)
  then obtain s1 where s1: "app_reach s1" "photo_ready s1" "photosUsedToday (userState s1) = photosUsedToday (userState s) + k"
    by blast
  from photo_cycle [OF s1(2), of "''data:image/png;base64,iVBORw0KGgo=''"] obtain s2 where
    run: "app_run s1 [StudioEv Generate, StudioEv (Resolve (Inr ''data:image/png;base64,iVBORw0KGgo=''))] = Some s2"
    and s2: "photo_ready s2" "photosUsedToday (userState s2) = Suc (photosUsedToday (userState s1))" by blast
  have "app_reach s2" using app_run_reach [OF run s1(1)] .
  with s1(3) s2 show ?case by auto
qed

text \<open>C15. The free tier's photo allowance is not enforced: for every \<open>n\<close> there is a
  reachable state of a free user with \<open>n\<close> photos counted today in which the
  studio still offers Generate, while the pricing table promises the free plan
  "10 Photos / Day".\<close>

theorem free_photos_unlimited:
  "\<exists>s. app_reach s \<and> tier (userState s) = FREE \<and> photosUsedToday (userState s) = n \<and>
       app_enabled s (StudioEv Generate) \<and> ''10 Photos / Day'' \<in> set (snd (snd (snd (hd plans))))"
proof -
  have n: "app_run (app_init Map.empty) first_photo_run \<noteq> None" by code_simp
  have r: "photo_ready (the (app_run (app_init Map.empty) first_photo_run)) \<and>
           photosUsedToday (userState (the (app_run (app_init Map.empty) first_photo_run))) = 0" by code_simp
  from photo_ready_reach [OF app_run_the_reach [OF n], of n] r obtain s where
    "app_reach s" "photo_ready s" "photosUsedToday (userState s) = n" by auto
  then show ?thesis by (auto simp: photo_ready_def plans_def split: option.splits)
qed

text \<open>C36. The tour can start on a page that lacks its first anchor: logging out
  from another tab clears the tutorial flag but keeps the tab, so the next login
  starts the tour at step 0, whose element \<open>dashboard-hero\<close> (and its fallback
  selector) is not on the page.\<close>

theorem tour_anchor_lost:
  "\<exists>s. app_reach s \<and> showOnboarding s \<and> currentStep (tour s) = 0 \<and>
       find_anchor (page_byId (activeTab s)) page_byTour (STEPS ! currentStep (tour s)) = None"
proof -
  have n: "app_run (app_init Map.empty) tour_after_relogin \<noteq> None" by code_simp
  have v: "showOnboarding (the (app_run (app_init Map.empty) tour_after_relogin)) \<and>
           currentStep (tour (the (app_run (app_init Map.empty) tour_after_relogin))) = 0 \<and>
           find_anchor (page_byId (activeTab (the (app_run (app_init Map.empty) tour_after_relogin)))) page_byTour
             (STEPS ! currentStep (tour (the (app_run (app_init Map.empty) tour_after_relogin)))) = None"
    by code_simp
  from app_run_the_reach [OF n] v show ?thesis by blast
qed

text \<open>C38. A plan is granted without payment: a free user who chooses the popular
  plan on the pricing page (which advertises "Secure transactions via Google Pay
  or Direct Visa Integration") is told the upgrade succeeded and can at once
  request a video, which the studio refuses to the free tier; no payment step
  exists between the click and the tier change.\<close>

theorem upgrade_without_payment:
  "\<exists>s. app_reach s \<and> tier (userState s) = POPULAR \<and> alerts s = [upgrade_text POPULAR] \<and>
       (case studio s of Some st \<Rightarrow> is_video_call (job st) | None \<Rightarrow> False)"
proof -
  have n: "app_run (app_init Map.empty) upgrade_run \<noteq> None" by code_simp
  have v: "tier (userState (the (app_run (app_init Map.empty) upgrade_run))) = POPULAR \<and>
           alerts (the (app_run (app_init Map.empty) upgrade_run)) = [upgrade_text POPULAR] \<and>
           (case studio (the (app_run (app_init Map.empty) upgrade_run)) of Some st \<Rightarrow> is_video_call (job st) | None \<Rightarrow> False)"
    by code_simp
  from app_run_the_reach [OF n] v show ?thesis by blast
qed

text \<open>C18. The voice view has no cleanup: leaving the voice tab while the uplink is
  live unmounts the view but leaves its session open and its microphone
  processor running, so frames keep being sent to the vendor from another tab;
  coming back mounts a new view that shows "Initialize Voice Link" and holds no
  session, so the old one can no longer be terminated.\<close>

theorem voice_outlives_tab:
  "\<exists>s. app_reach s \<and> activeTab s = ''voice'' \<and>
       (case voice s of None \<Rightarrow> False | Some v \<Rightarrow> voice_button v = ''Initialize Voice Link'' \<and> sessionRef v = None) \<and>
       (\<exists>v \<in> set (voice_detached s). \<exists>c. conns v 2 = Some c \<and> conn_socket c = Live \<and> conn_streaming c \<and>
           conn_in c \<in> set (open_ctxs v) \<and> conn_sent c = [pcm_frame [1 / 2]])"
proof -
  have n: "app_run (app_init Map.empty) voice_leak_run \<noteq> None" by code_simp
  let ?s = "the (app_run (app_init Map.empty) voice_leak_run)"
  have v: "activeTab ?s = ''voice'' \<and>
           (case voice ?s of None \<Rightarrow> False | Some v \<Rightarrow> voice_button v = ''Initialize Voice Link'' \<and> sessionRef v = None) \<and>
           voice_detached ?s \<noteq> [] \<and>
           (case conns (hd (voice_detached ?s)) 2 of None \<Rightarrow> False | Some c \<Rightarrow>
              conn_socket c = Live \<and> conn_streaming c \<and> conn_in c \<in> set (open_ctxs (hd (voice_detached ?s))) \<and>
              conn_sent c = [pcm_frame [1 / 2]])"
    by code_simp
  then have "\<exists>v \<in> set (voice_detached ?s). \<exists>c. conns v 2 = Some c \<and> conn_socket c = Live \<and> conn_streaming c \<and>
              conn_in c \<in> set (open_ctxs v) \<and> conn_sent c = [pcm_frame [1 / 2]]"
    by (intro bexI [of _ "hd (voice_detached ?s)"]) (auto split: option.splits)
  with app_run_the_reach [OF n] v show ?thesis by blast
qed

text \<open>C34. The conversation does not survive a tab switch: from the chat tab, going
  to the dashboard and back mounts a new chat view that holds only the welcome
  message, whatever was said before (the sidebar's "Search history..." then
  searches nothing of it).\<close>

theorem chat_history_dropped:
  assumes "isLoggedIn (userState s)" "\<not> showOnboarding s" "activeTab s = ''chat''"
  shows "app_enabled s (SetTab ''dashboard'') \<and> app_enabled (app_step s (SetTab ''dashboard'')) (SetTab ''chat'') \<and>
         map content (messages (the (chat (app_step (app_step s (SetTab ''dashboard'')) (SetTab ''chat''))))) = [welcome_text]"
  using assms by (simp add: app_step_def render_def Let_def NAV_ITEMS_def chat_init_def)

theorem chat_history_dropped_witness:
  "length (messages (the (chat (the (app_run (app_init Map.empty) chat_run))))) = 3 \<and>
   map content (messages (the (chat (app_step (app_step (the (app_run (app_init Map.empty) chat_run)) (SetTab ''dashboard'')) (SetTab ''chat''))))) =
     [welcome_text]"
proof -
  let ?s = "the (app_run (app_init Map.empty) chat_run)"
  have h: "isLoggedIn (userState ?s)" "\<not> showOnboarding ?s" "activeTab ?s = ''chat''"
          "length (messages (the (chat ?s))) = 3" by code_simp+
  from chat_history_dropped [OF h(1-3)] h(4) show ?thesis by simp
qed

text \<open>C19. Signing out can be undone by a stale timer: the auth view does not clear
  its timers when it unmounts, so a login submitted twice (the form can still be
  submitted from the keyboard under the loading overlay) leaves a timer that,
  after the user has signed out, calls \<open>onLogin\<close> and logs them back in, with
  the tour shown again, though nothing was entered in the new sign-in form.\<close>

theorem logout_undone_by_login_timer:
  "\<exists>s. app_reach s \<and> \<not> isLoggedIn (userState s) \<and> auth s = Some auth_init \<and>
       app_enabled s (AuthDetachedEv 0 Fire) \<and> isLoggedIn (userState (app_step s (AuthDetachedEv 0 Fire))) \<and>
       showOnboarding (app_step s (AuthDetachedEv 0 Fire))"
proof -
  let ?s = "the (app_run (app_init Map.empty) relogin_run)"
  have n: "app_run (app_init Map.empty) relogin_run \<noteq> None" by code_simp
  have v: "\<not> isLoggedIn (userState ?s) \<and> auth ?s = Some auth_init \<and>
       app_enabled ?s (AuthDetachedEv 0 Fire) \<and> isLoggedIn (userState (app_step ?s (AuthDetachedEv 0 Fire))) \<and>
       showOnboarding (app_step ?s (AuthDetachedEv 0 Fire))" by code_simp
  from app_run_the_reach [OF n] v show ?thesis by blast
qed

lemma dashboard_anchors: "k < length STEPS \<Longrightarrow> find_anchor (page_byId ''dashboard'') page_byTour (STEPS ! k) \<noteq> None"
  by (auto simp: STEPS_def find_anchor_def page_byId_def page_ids_def NAV_ITEMS_def less_Suc_eq numeral_eq_Suc)

end
