(* ===== verification/AppCompose.thy ===== *)
theory AppCompose
  imports App
begin

text \<open>
  The interfaces between the shell of \<open>App\<close> and the components it mounts:
  which part of the shell's state each event changes, that the progress bar and
  every voice and auth view of a reachable shell (mounted or left behind by an
  unmount) are reachable states of their own theories, so that the invariants
  proved there hold of them, and that the shell mounts exactly the views its tab
  and login state select.
\<close>

text \<open>The views mounted as the shell renders: the auth view exactly while logged
  out, and a child view only on its own tab while logged in.\<close>

definition mount_ok :: "app_state \<Rightarrow> bool" where
  "mount_ok s \<longleftrightarrow>
     (auth s = None \<longleftrightarrow> isLoggedIn (userState s)) \<and>
     (studio s \<noteq> None \<longleftrightarrow> isLoggedIn (userState s) \<and> activeTab s = ''studio'') \<and>
     (chat s \<noteq> None \<longleftrightarrow> isLoggedIn (userState s) \<and> activeTab s = ''chat'') \<and>
     (voice s \<noteq> None \<longleftrightarrow> isLoggedIn (userState s) \<and> activeTab s = ''voice'')"

text \<open>The voice views of a shell: the mounted one, then the detached ones.\<close>

definition voices :: "app_state \<Rightarrow> voice_state list" where
  "voices s = (case voice s of None \<Rightarrow> [] | Some v \<Rightarrow> [v]) @ voice_detached s"

text \<open>The auth views of a shell: the mounted one, then the unmounted ones.\<close>

definition auths :: "app_state \<Rightarrow> auth_state list" where
  "auths s = (case auth s of None \<Rightarrow> [] | Some a \<Rightarrow> [a]) @ auth_detached s"

text \<open>Two shells mount the same views.\<close>

definition same_mounts :: "app_state \<Rightarrow> app_state \<Rightarrow> bool" where
  "same_mounts a b \<longleftrightarrow> (studio a = None \<longleftrightarrow> studio b = None) \<and> (chat a = None \<longleftrightarrow> chat b = None) \<and>
     (voice a = None \<longleftrightarrow> voice b = None) \<and> (auth a = None \<longleftrightarrow> auth b = None)"

section \<open>What an event changes\<close>

text \<open>The handlers' definitions, unfolded together by the lemmas on the parts of
  the state an event leaves alone.\<close>

lemmas app_handler_defs = auth_login_def onboarding_effect_def handleLogin_def handleLogout_def
  handleUpgrade_def studio_in_app_def tour_in_app_def completeOnboarding_def Let_def

text \<open>The photo counter is all that \<open>onGeneration\<close> changes.\<close>

lemma handleGeneration_funpow_parts [simp]:
  "nav ((handleGeneration ^^ n) s) = nav s \<and> studio ((handleGeneration ^^ n) s) = studio s \<and>
   chat ((handleGeneration ^^ n) s) = chat s \<and> voice ((handleGeneration ^^ n) s) = voice s \<and>
   voice_detached ((handleGeneration ^^ n) s) = voice_detached s \<and> auth ((handleGeneration ^^ n) s) = auth s \<and>
   auth_detached ((handleGeneration ^^ n) s) = auth_detached s"
  by (induction n) (simp_all add: handleGeneration_def)

lemma app_handler_nav:
  "nav (app_handler s e) = (case e of NavEv e' \<Rightarrow> nav_step (nav s) e' | _ \<Rightarrow> nav s)"
  by (cases e) (simp_all add: app_handler_defs split: option.split)

text \<open>The composition: the progress bar of a reachable shell is a reachable state
  of \<open>NavProgress\<close>, a tab change of the shell being its \<open>TabChange\<close>; so the
  lemmas of \<open>NavProgress\<close> (its invariant, the settling of its timers) hold
  of every reachable shell.\<close>

section \<open>The components of a reachable shell\<close>

lemma app_nav_reach: "app_reach s \<Longrightarrow> nav_reach (nav s)"
proof (induction rule: app_reach.induct)
  case (init ls)
  then show ?case by (simp add: app_init_def nav_reach.init)
next
  case (step s e)
  let ?h = "app_handler s e"
  have h: "nav_reach (nav ?h)"
    using step by (cases e) (auto simp del: app_handler.simps simp: app_handler_nav intro: nav_reach.step)
  have "nav_reach (nav_step (nav ?h) TabChange)" using h by (rule nav_reach.step) simp
  with h show ?case by (auto simp: app_step_def render_def Let_def)
qed

text \<open>Every voice view of a reachable shell, mounted or detached, is a reachable
  state of \<open>VoiceSession\<close>, so the invariants proved there hold of each.\<close>

lemma app_handler_voices:
  "voice (app_handler s e) = (case e of VoiceEv e' \<Rightarrow> map_option (\<lambda>v. voice_step v e') (voice s) | _ \<Rightarrow> voice s) \<and>
   voice_detached (app_handler s e) =
     (case e of DetachedEv i e' \<Rightarrow> (voice_detached s)[i := voice_step (voice_detached s ! i) e'] | _ \<Rightarrow> voice_detached s)"
  by (cases e) (simp_all add: app_handler_defs split: option.split)

lemma app_voice_reach: "app_reach s \<Longrightarrow> \<forall>v \<in> set (voices s). voice_reach v"
proof (induction rule: app_reach.induct)
  case (init ls)
  then show ?case by (simp add: app_init_def voices_def)
next
  case (step s e)
  let ?h = "app_handler s e"
  have h: "\<forall>v \<in> set (voices ?h). voice_reach v"
  proof (cases e)
    case (VoiceEv e')
    then show ?thesis using step
      by (auto simp del: app_handler.simps simp: app_handler_voices voices_def intro: voice_reach.step split: option.splits)
  next
    case (DetachedEv i e')
    then show ?thesis using step
      by (auto simp del: app_handler.simps simp: app_handler_voices voices_def intro: voice_reach.step
               split: option.splits dest!: set_update_subset_insert [THEN subsetD])
  qed (use step in \<open>simp_all del: app_handler.simps add: app_handler_voices voices_def\<close>)
  then show ?case
    by (auto simp: app_step_def render_def Let_def voices_def voice_reach.init split: option.splits)
qed

lemma auth_login_auths [simp]: "auth (auth_login n s) = auth s \<and> auth_detached (auth_login n s) = auth_detached s"
  by (simp add: auth_login_def onboarding_effect_def handleLogin_def)

lemma app_handler_auths:
  "auth (app_handler s e) = (case e of AuthEv e' \<Rightarrow> map_option (\<lambda>a. auth_step a e') (auth s) | _ \<Rightarrow> auth s) \<and>
   auth_detached (app_handler s e) =
     (case e of AuthDetachedEv i e' \<Rightarrow> (auth_detached s)[i := auth_step (auth_detached s ! i) e'] | _ \<Rightarrow> auth_detached s)"
  by (cases e) (simp_all add: app_handler_defs split: option.split)

text \<open>Every auth view of a reachable shell, mounted or not, is a reachable state
  of \<open>AuthView\<close>.\<close>

lemma app_auth_reach: "app_reach s \<Longrightarrow> \<forall>a \<in> set (auths s). auth_reach a"
proof (induction rule: app_reach.induct)
  case (init ls)
  then show ?case by (simp add: app_init_def auths_def auth_reach.init)
next
  case (step s e)
  let ?h = "app_handler s e"
  have h: "\<forall>a \<in> set (auths ?h). auth_reach a"
  proof (cases e)
    case (AuthEv e')
    then show ?thesis using step
      by (auto simp del: app_handler.simps simp: app_handler_auths auths_def intro: auth_reach.step split: option.splits)
  next
    case (AuthDetachedEv i e')
    then show ?thesis using step
      by (auto simp del: app_handler.simps simp: app_handler_auths auths_def intro: auth_reach.step
               split: option.splits dest!: set_update_subset_insert [THEN subsetD])
  qed (use step in \<open>simp_all del: app_handler.simps add: app_handler_auths auths_def\<close>)
  then show ?case
    by (auto simp: app_step_def render_def Let_def auths_def auth_reach.init split: option.splits)
qed

section \<open>The mounted views\<close>

lemma app_handler_mounts: "same_mounts (app_handler s e) s"
  by (cases e) (auto simp: same_mounts_def app_handler_defs split: option.splits)

lemma render_mount_ok: "mount_ok before \<Longrightarrow> same_mounts s before \<Longrightarrow> mount_ok (render before s)"
  by (auto simp: mount_ok_def same_mounts_def render_def Let_def)

lemma app_mount_ok: "app_reach s \<Longrightarrow> mount_ok s"
proof (induction rule: app_reach.induct)
  case (init ls)
  then show ?case by (simp add: mount_ok_def app_init_def)
next
  case (step s e)
  then show ?case by (simp add: app_step_def render_mount_ok app_handler_mounts)
qed

end
