(* ===== verification/Spec2Isabelle.thy ===== *)
theory Spec2Isabelle
  imports VoiceSession ChatView AppCompose AuthView
begin

text \<open>
  \<^bold>\<open>A verification library for Giga3 AI.\<close>

  The repository is a single-page React application over a third-party
  generative-AI SDK.  The shell \<open>src/App.tsx\<close> holds the user state (tier,
  photo counter, login flag) and switches between the views; each view keeps
  its own state and talks to the shell through callbacks only (\<open>onLogin\<close>,
  \<open>onGeneration\<close>, \<open>onUpgrade\<close>, \<open>onAction\<close>, \<open>onComplete\<close>).  The chat and
  studio views call the service client \<open>src/geminiService.ts\<close>; the voice view
  drives a live audio session of the SDK through callbacks the SDK invokes.
  Every piece of the program is modelled by a shallow embedding: state as
  records, handlers as functions on them, the SDK, the browser and the clock as
  parameters or as events of an event system, exceptions as the sum type
  \<open>js_error + 'a\<close>.

  \<^bold>\<open>Theories.\<close>
  \<^item> \<open>Prelude\<close>: the JavaScript semantics the code relies on: ToInt16
    (\<open>to_int16\<close>), little-endian typed-array views, Latin-1 \<open>fromCharCode\<close> and
    \<open>charCodeAt\<close>, \<open>includes\<close>, \<open>toLowerCase\<close>, \<open>trim\<close>, \<open>split\<close>, \<open>||\<close> on
    strings, the regular-expression folding of \<open>/i\<close>, the exceptions
    (\<open>js_error\<close>, \<open>js_message\<close>) and their propagation (\<open>js_bind\<close>), and
    the timer queue of the event loop (\<open>earliest_timer\<close>).  Numbers
    are \<open>real\<close> (the values that reach the conversions are exact doubles); strings
    are lists of Latin-1 code units.
  \<^item> \<open>Base64\<close>: the browser's \<open>btoa\<close>/\<open>atob\<close> (forgiving-base64), from the
    standard, with \<open>atob (btoa s) = Inr s\<close>.
  \<^item> \<open>PcmCodec\<close>: \<open>encode\<close>, \<open>decode\<close>, \<open>decodeAudioData\<close> of
    \<open>src/VoiceView.tsx\<close> and the sample conversion of \<open>onaudioprocess\<close>;
    \<open>createBuffer\<close> from the Web Audio specification.  Lemmas: base64 round trip,
    uplink/downlink agreement, quantisation bounds, wrap-around of full-scale
    samples, range of decoded samples; a lemma on the odd-length error.
  \<^item> \<open>VoiceSession\<close>: the voice view as an event system (\<open>voice_state\<close>,
    one definition per handler, \<open>voice_step\<close>, \<open>voice_enabled\<close>, the inductive
    \<open>voice_reach\<close>), with the button and the transcript pane as functions of the
    state.  Lemmas: the playback-scheduling invariant by rule induction, the
    effect of a chunk, an interruption, a malformed payload and of Terminate,
    the uplink invariant, the append-only transcript, and reachable runs
    exhibiting three defects.
  \<^item> \<open>GeminiService\<close>: the three methods over an explicit SDK parameter:
    routing (\<open>regex_test_ci\<close>, \<open>isComplex\<close>, \<open>text_request\<close>), the chunks of
    \<open>generateTextStream\<close>, \<open>generateImage\<close> with \<open>image_url\<close>, and
    \<open>generateVideo\<close> with its status loop \<open>poll_loop\<close>, a terminating
    \<open>function\<close> (measure \<open>201 - attempts\<close>): the code's own bound of 200 attempts
    is the bound of the model, so no fuel is needed.  Lemmas: the loop ends with
    at most 200 polls, returns a job done at poll \<open>k \<le> 200\<close>, times out otherwise;
    end-to-end delivery of a video; image extraction and its errors; the key
    picker on not-found errors; the routing match as a substring test.
  \<^item> \<open>ChatView\<close>: messages, \<open>handleSend\<close> with the stream loop \<open>consume\<close>,
    the attachment (\<open>handleFileChange\<close>, \<open>readAsDataURL\<close> as \<open>data_url\<close>), the
    search filter, and the rendering of the list: \<open>renderContent\<close> (the two
    regular-expression replacements as the terminating \<open>function\<close> \<open>bold\<close> with
    the lazy group \<open>find_close\<close>, and \<open>list_item\<close>; the HTML as UTF-16 code units)
    the bubbles (\<open>render_bubble\<close>, \<open>chat_view\<close>) and the input row
    (\<open>chat_input_view\<close>), whose send button is disabled exactly when a click
    would change nothing (\<open>send_button_disabled\<close>).  The controls are the
    events \<open>chat_step\<close>.  Lemmas: the reply holds the streamed text and sources;
    messages are append-only while ids are fresh; a refinement: along every run
    whose send times strictly increase, the view implements the abstract
    conversation \<open>abs_chat_step\<close> under \<open>chat_abs_of\<close> (the reply being the
    streamed text, the text with the uplink fallback, or the view's own error);
    the attached image reaches the request intact; the filter's specification;
    the unescaped HTML and the mis-encoded bullet; the overwrite of a reply by a
    send in the same millisecond.
  \<^item> \<open>StudioView\<close>: tiers, the persisted settings (\<open>studio_init\<close>, \<open>persist\<close>),
    \<open>handleGenerate\<close> split at its \<open>await\<close> (\<open>studio_resolve\<close>), the
    loading-message interval, the controls as events and \<open>studio_reach\<close>, the
    output pane (\<open>studio_output\<close>) and \<open>downloadMedia\<close>.  Lemmas:
    the gating invariant (no video for the free tier), the settings round trip,
    the declared union types (\<open>studio_typed\<close>) hold exactly when the storage
    holds values of those types and are then preserved, and two defects
    (unknown stored type, stale result after a type switch).
  \<^item> \<open>Onboarding\<close>: the tour's steps, counter, anchor lookup and tooltip
    placement; the step index stays in range and five Nexts complete the tour.
  \<^item> \<open>NavProgress\<close>: the navigation progress effect of \<open>src/App.tsx\<close> (its
    timers \<open>t1\<close>, \<open>t2\<close> and the nested hide timer, the cleanup) over a timer
    queue with deadlines and ids, and \<open>handleRefresh\<close>.  The settling of the
    queue is the \<open>function\<close> \<open>nav_settle\<close>, terminating by the measure
    \<open>queue_weight\<close> (a fill timer counts twice, as it schedules a hide timer).
    Lemmas: the invariant \<open>nav_inv\<close> by rule induction; from every reachable
    state the bar settles hidden at width 0; a stale hide timer hides a later
    navigation's bar.
  \<^item> \<open>App\<close>: the shell with the sidebar, dashboard and pricing callbacks (and
    the rendered sidebar and pricing cards), the
    onboarding effect, the mounting of the children (\<open>render\<close>): the auth view
    while logged out (its events \<open>AuthEv\<close>; an unmounted auth view is kept with
    its pending timers), the studio, chat and voice views on their tabs (a voice
    view that unmounts goes on running in \<open>voice_detached\<close>, as the view has no
    cleanup) and the tour; and the progress bar as the field \<open>nav\<close>, whose
    effect runs after each render that changed the tab and whose clock is the
    page clock \<open>Date.now()\<close> reads.  \<open>app_reach\<close> composes the children's
    callbacks with the shell's state.  Lemmas: the free allowance is never
    enforced (every count is reachable), a plan is granted (and a premium video
    requested) without any payment step, the tour can restart where its first
    anchor is missing, a voice session outlives its tab and keeps streaming the
    microphone, a tab switch discards the conversation, and a stale login timer
    undoes a sign-out.
  \<^item> \<open>AppCompose\<close>: the interfaces between the shell and its components.  The
    bundle \<open>app_handler_defs\<close> unfolds the handlers for the lemmas on what each
    event leaves alone; \<open>app_nav_reach\<close>, \<open>app_voice_reach\<close> and
    \<open>app_auth_reach\<close> show the progress bar and every voice and auth view of a
    reachable shell, mounted or left behind, reachable in \<open>NavProgress\<close>,
    \<open>VoiceSession\<close> and \<open>AuthView\<close>, so the invariants proved there hold of each;
    \<open>app_mount_ok\<close>: the auth view is mounted exactly while logged out and each
    child view exactly on its tab.
  \<^item> \<open>AuthView\<close>: the sign-in form with its simulated delays as timers with
    deadlines; the phone path logs in without reading any input.  The loading
    overlay blocks pointer clicks on the card but not the keyboard, so the
    form's events are not guarded by the loading flag.  The rendering
    (\<open>auth_render\<close>) agrees with the events: each form event is enabled exactly
    when its pane is shown (\<open>auth_pane_events\<close>).

  \<^bold>\<open>Environment.\<close>  The SDK answers are parameters (\<open>text_sdk\<close>,
  \<open>image_sdk\<close>, \<open>video_sdk\<close>) or events (the voice socket callbacks, the studio's
  \<open>Resolve\<close>), so each theorem holds for every answer the vendor may give.
  Handlers run to completion (JavaScript is single-threaded); an \<open>await\<close> splits a
  handler in two steps where other events can come between them (the studio),
  and is folded into one step where the code's guards exclude any interleaving
  that matters (\<open>handleSend\<close>, \<open>onmessage\<close>).  Concrete runs are event lists
  evaluated by \<open>code_simp\<close>.

  \<^bold>\<open>Not modelled.\<close>  Styling, and the markup that only decorates: what the
  model renders is what decides behaviour or shows state (the controls each
  \<open>*_enabled\<close> predicate offers, the chat's message list and input row, the
  studio's output pane, the auth view's panes, the voice button and transcript,
  the sidebar, the pricing cards and the dashboard's statistics); the
  scrolling effect of the chat and the highlight class of the tour (DOM only);
  the clipboard writes and the DOM link of \<open>downloadMedia\<close> (only its target
  and file name are modelled); the relative timing of the independent clocks
  (the sign-in timers, the studio's interval, the audio clocks), each advanced
  by its own events, while the progress-bar clock is the page clock that
  \<open>Date.now()\<close> reads; the module \<open>constants\<close> outside the sources (only the tab
  ids \<open>NAV_ITEMS\<close> are written from their uses); NaN and infinite numbers, which
  no modelled conversion receives; the internals of the SDK and the network,
  which are parameters or events of the model.
\<close>

end
